(* ===== verification/Prelude.thy ===== *)
theory Prelude
  imports Complex_Main "HOL-Library.Word" "HOL-Library.Multiset" "HOL-Library.Sublist"
begin

text \<open>
  Shared vocabulary of the flipbook development: the Python exceptions the tool can
  raise, the result type of fallible operations (\<open>py_error + 'a\<close>, \<open>Inl\<close> the raised
  exception), its bind, and the generic facts on lists, options and sums the component
  theories share.  The collection \<open>py_simps\<close> gathers the characteristic equations of
  the Python primitives so that component proofs can say \<open>simp add: py_simps\<close>.
\<close>

named_theorems py_simps "characteristic equations of the modelled Python primitives"

section \<open>Python exceptions and results\<close>

datatype py_error =
    ValueError
  | ZeroDivisionError
  | FileNotFoundError
  | FileExistsError
  | IsADirectoryError
  | NotADirectoryError
  | UnidentifiedImageError

type_synonym 'a py = "py_error + 'a"

definition py_bind :: "'a py \<Rightarrow> ('a \<Rightarrow> 'b py) \<Rightarrow> 'b py" where
  "py_bind m f = (case m of Inl e \<Rightarrow> Inl e | Inr a \<Rightarrow> f a)"

lemma py_bind_Inl [simp]: "py_bind (Inl e) f = Inl e"
  by (simp add: py_bind_def)

lemma py_bind_Inr [simp]: "py_bind (Inr a) f = f a"
  by (simp add: py_bind_def)

lemma py_bind_eq_Inr:
  "py_bind m f = Inr b \<longleftrightarrow> (\<exists>a. m = Inr a \<and> f a = Inr b)"
  by (cases m) auto

lemma py_bind_eq_Inl:
  "py_bind m f = Inl e \<longleftrightarrow> m = Inl e \<or> (\<exists>a. m = Inr a \<and> f a = Inl e)"
  by (cases m) auto

text \<open>Python's \<open>a // b\<close> on ints: floor division, \<open>ZeroDivisionError\<close> on a zero divisor.\<close>

definition py_floordiv :: "int \<Rightarrow> int \<Rightarrow> int py" where
  "py_floordiv a b = (if b = 0 then Inl ZeroDivisionError else Inr (a div b))"

lemma py_floordiv_zero [simp]: "py_floordiv a 0 = Inl ZeroDivisionError"
  by (simp add: py_floordiv_def)

lemma py_floordiv_nonzero [simp]: "b \<noteq> 0 \<Longrightarrow> py_floordiv a b = Inr (a div b)"
  by (simp add: py_floordiv_def)

section \<open>Generic list facts\<close>

lemma filter_map_upt_eq:
  "filter (\<lambda>k. k < n) [0..<m] = [0..<min n m]"
  by (induction m) auto

lemma length_concat_rows [simp]:
  "length (concat (map (\<lambda>i. map (g i) [0..<c]) [0..<r])) = r * c"
  by (simp add: length_concat o_def sum_list_triv)

lemma concat_rows_index:
  "map (\<lambda>(i, j). i * c + j) (concat (map (\<lambda>i. map (\<lambda>j. (i, j)) [0..<c]) [0..<r])) = [0..<r * c]"
proof (induction r)
  case (Suc r)
  have m: "map (\<lambda>(i, j). i * c + j) (map (Pair r) [0..<c]) = [r * c..<r * c + c]"
    using map_add_upt[of "r * c" c] by (simp add: o_def add.commute)
  have u: "[0..<r * c + c] = [0..<r * c] @ [r * c..<r * c + c]"
    by (rule upt_add_eq_append) simp
  have "map (\<lambda>(i, j). i * c + j) (concat (map (\<lambda>i. map (\<lambda>j. (i, j)) [0..<c]) [0..<Suc r]))
      = [0..<r * c] @ [r * c..<r * c + c]"
    using Suc.IH m by simp
  then show ?case using u by (simp add: add.commute)
qed simp

lemma int_range_upt: "[0..n - 1] = map int [0..<nat n]"
  by (rule nth_equalityI) (auto simp: nth_upto)

lemma nth_concat_rows:
  assumes "i < r" and "j < c"
  shows "concat (map (\<lambda>i. map (g i) [0..<c]) [0..<r]) ! (i * c + j) = g i j"
  using assms
proof (induction r arbitrary: i)
  case 0
  then show ?case by simp
next
  case (Suc r)
  have split: "concat (map (\<lambda>i. map (g i) [0..<c]) [0..<Suc r])
      = concat (map (\<lambda>i. map (g i) [0..<c]) [0..<r]) @ map (g r) [0..<c]"
    by simp
  show ?case
  proof (cases "i < r")
    case True
    have "i * c + j < Suc i * c"
      using Suc.prems(2) by simp
    also have "\<dots> \<le> r * c"
      using True by (intro mult_le_mono1) simp
    finally have "i * c + j < r * c" .
    then show ?thesis
      using Suc.IH[OF True Suc.prems(2)] by (simp add: split nth_append)
  next
    case False
    with Suc.prems have "i = r" by simp
    then show ?thesis
      using Suc.prems(2) by (simp add: split nth_append)
  qed
qed


section \<open>Insertion into a concatenation\<close>

text \<open>\<open>insort_key\<close> walks past the elements whose key is below the new one and stops
  at the first whose key is not.\<close>

lemma insort_key_append_left:
  "\<forall>y\<in>set B. f x \<le> f y \<Longrightarrow> insort_key f x (A @ B) = insort_key f x A @ B"
  by (induction A) (cases B; simp)+

lemma insort_key_append_right:
  "\<forall>a\<in>set A. \<not> f x \<le> f a \<Longrightarrow> insort_key f x (A @ B) = A @ insort_key f x B"
  by (induction A) auto

section \<open>Maps updated along a list\<close>

lemma foldl_upd_other:
  "p \<notin> k ` set xs \<Longrightarrow> foldl (\<lambda>m x. m(k x \<mapsto> v x)) m xs p = m p"
  by (induction xs arbitrary: m) auto

lemma foldl_upd_inj:
  assumes "inj_on k (set xs)" and "x \<in> set xs"
  shows "foldl (\<lambda>m y. m(k y \<mapsto> v y)) m xs (k x) = Some (v x)"
  using assms
proof (induction xs arbitrary: m)
  case Nil
  then show ?case by simp
next
  case (Cons y ys)
  show ?case
  proof (cases "x \<in> set ys")
    case True
    with Cons show ?thesis by simp
  next
    case False
    with Cons.prems have xy: "x = y" by simp
    have "k x \<notin> k ` set ys"
    proof
      assume "k x \<in> k ` set ys"
      then obtain z where "z \<in> set ys" "k z = k x" by auto
      with Cons.prems(1) xy have "z = x" by (auto simp: inj_on_def)
      with False \<open>z \<in> set ys\<close> show False by simp
    qed
    then have "foldl (\<lambda>m x. m(k x \<mapsto> v x)) (m(k y \<mapsto> v y)) ys (k x) = (m(k y \<mapsto> v y)) (k x)"
      by (rule foldl_upd_other)
    then show ?thesis using xy by (simp only: foldl.simps(2) fun_upd_same)
  qed
qed

text \<open>A key written along a list ends with the value of its last write, whatever the map
  held before; so writes the list repeats later are overwritten.\<close>

lemma foldl_upd_start:
  "p \<in> k ` set xs \<Longrightarrow> foldl (\<lambda>m x. m(k x \<mapsto> v x)) m xs p = foldl (\<lambda>m x. m(k x \<mapsto> v x)) m' xs p"
proof (induction xs arbitrary: m m')
  case Nil
  then show ?case by simp
next
  case (Cons x xs)
  show ?case
  proof (cases "p \<in> k ` set xs")
    case True
    then show ?thesis using Cons.IH by simp
  next
    case False
    then have kx: "k x = p" using Cons.prems by simp
    have a: "foldl (\<lambda>m x. m(k x \<mapsto> v x)) (m(k x \<mapsto> v x)) xs p = (m(k x \<mapsto> v x)) p"
      by (rule foldl_upd_other[OF False])
    have b: "foldl (\<lambda>m x. m(k x \<mapsto> v x)) (m'(k x \<mapsto> v x)) xs p = (m'(k x \<mapsto> v x)) p"
      by (rule foldl_upd_other[OF False])
    show ?thesis by (simp only: foldl.simps(2) a b) (simp add: kx)
  qed
qed

lemma foldl_upd_prefix:
  assumes "k ` set ys \<subseteq> k ` set xs"
  shows "foldl (\<lambda>m x. m(k x \<mapsto> v x)) m (ys @ xs) = foldl (\<lambda>m x. m(k x \<mapsto> v x)) m xs"
proof
  fix p
  show "foldl (\<lambda>m x. m(k x \<mapsto> v x)) m (ys @ xs) p = foldl (\<lambda>m x. m(k x \<mapsto> v x)) m xs p"
  proof (cases "p \<in> k ` set xs")
    case True
    then show ?thesis by (simp only: foldl_append foldl_upd_start[OF True])
  next
    case False
    then have ys: "p \<notin> k ` set ys" using assms by blast
    have "foldl (\<lambda>m x. m(k x \<mapsto> v x)) (foldl (\<lambda>m x. m(k x \<mapsto> v x)) m ys) xs p
        = foldl (\<lambda>m x. m(k x \<mapsto> v x)) m ys p" by (rule foldl_upd_other[OF False])
    also have "\<dots> = m p" by (rule foldl_upd_other[OF ys])
    also have "\<dots> = foldl (\<lambda>m x. m(k x \<mapsto> v x)) m xs p" by (rule foldl_upd_other[OF False, symmetric])
    finally show ?thesis by (simp only: foldl_append)
  qed
qed

lemma foldl_upd_twice:
  "foldl (\<lambda>m x. m(k x \<mapsto> v x)) (foldl (\<lambda>m x. m(k x \<mapsto> v x)) m xs) xs = foldl (\<lambda>m x. m(k x \<mapsto> v x)) m xs"
  using foldl_upd_prefix[of k xs xs v m] by (simp only: foldl_append subset_refl)

end
