(* ===== verification/PyStr.thy ===== *)
theory PyStr
  imports Prelude
begin

text \<open>
  The Python string and path primitives flipbook_tool.py relies on, modelled on
  \<open>string\<close> (a list of \<open>char\<close>; a character stands for a Unicode code point below 256,
  i.e. Latin-1): decimal digits, \<open>str(n)\<close>, the \<open>{k:04d}\<close> format, \<open>int(s)\<close>,
  \<open>str.lower\<close>, \<open>str.endswith\<close>, \<open>str.split(sep)\<close>, \<open>str.strip\<close>, and
  \<open>os.path.basename\<close>, \<open>os.path.splitext\<close>, \<open>os.path.join\<close> (posixpath).
  These are library code, modelled from the Python reference semantics; the lemmas are
  the round trips the tool's file naming depends on: \<open>int(str(i)) = i\<close>, digits of a
  zero-padded index read back as the index, and \<open>split\<close> inverting a join.
\<close>

section \<open>Digits\<close>

definition is_digit :: "char \<Rightarrow> bool" where
  "is_digit c \<longleftrightarrow> (let n = (of_char c :: nat) in 48 \<le> n \<and> n \<le> 57)"

definition digit_val :: "char \<Rightarrow> nat" where
  "digit_val c = (of_char c :: nat) - 48"

definition digit_char :: "nat \<Rightarrow> char" where
  "digit_char d = char_of (48 + d)"

text \<open>\<open>int(ds)\<close> for a nonempty run of decimal digits: leading zeros are allowed.\<close>

definition nat_of_digits :: "string \<Rightarrow> nat" where
  "nat_of_digits ds = foldl (\<lambda>acc c. 10 * acc + digit_val c) 0 ds"

text \<open>\<open>str(n)\<close> for \<open>n \<ge> 0\<close>: the shortest decimal numeral.\<close>

fun str_of_nat :: "nat \<Rightarrow> string" where
  "str_of_nat n =
     (if n < 10 then [digit_char n] else str_of_nat (n div 10) @ [digit_char (n mod 10)])"

declare str_of_nat.simps [simp del]

definition str_of_int :: "int \<Rightarrow> string" where
  "str_of_int i = (if i < 0 then CHR ''-'' # str_of_nat (nat (- i)) else str_of_nat (nat i))"

text \<open>\<open>format(i, '04d')\<close>: zero padding to a total width of four, the sign counted.\<close>

definition fmt_04d :: "int \<Rightarrow> string" where
  "fmt_04d i =
     (if i < 0 then CHR ''-'' # (let s = str_of_nat (nat (- i)) in replicate (3 - length s) CHR ''0'' @ s)
      else (let s = str_of_nat (nat i) in replicate (4 - length s) CHR ''0'' @ s))"

section \<open>Characters: case and whitespace\<close>

text \<open>\<open>str.lower\<close> on Latin-1: \<open>A\<close>--\<open>Z\<close> and the Latin-1 capitals 192--222 (except 215, the multiplication sign) move down by 32.\<close>

definition lower_char :: "char \<Rightarrow> char" where
  "lower_char c =
     (let n = of_char c :: nat in
      if (65 \<le> n \<and> n \<le> 90) \<or> (192 \<le> n \<and> n \<le> 222 \<and> n \<noteq> 215) then char_of (n + 32) else c)"

definition py_lower :: "string \<Rightarrow> string" where
  "py_lower s = map lower_char s"

text \<open>\<open>str.isspace\<close> on Latin-1, the characters \<open>str.strip()\<close> and \<open>int()\<close> remove.\<close>

definition is_space :: "char \<Rightarrow> bool" where
  "is_space c \<longleftrightarrow> (of_char c :: nat) \<in> set [9, 10, 11, 12, 13, 28, 29, 30, 31, 32, 133, 160]"

definition py_strip :: "string \<Rightarrow> string" where
  "py_strip s = rev (dropWhile is_space (rev (dropWhile is_space s)))"

text \<open>\<open>s.endswith(t)\<close>, and \<open>s.endswith((t1, ..., tn))\<close> for a tuple of suffixes.\<close>

definition py_endswith :: "string \<Rightarrow> string list \<Rightarrow> bool" where
  "py_endswith s ts \<longleftrightarrow> list_ex (\<lambda>t. suffix t s) ts"

section \<open>Splitting and integer parsing\<close>

text \<open>\<open>s.split(sep)\<close> for a one-character separator: every occurrence splits, empty
  pieces are kept, and the result is never empty (\<open>''.split(':') == ['']\<close>).\<close>

fun py_split :: "char \<Rightarrow> string \<Rightarrow> string list" where
  "py_split c [] = [[]]"
| "py_split c (x # xs) =
     (let ws = py_split c xs in if x = c then [] # ws else (x # hd ws) # tl ws)"

text \<open>
  \<open>int(s)\<close> with base 10: surrounding whitespace is stripped, one optional sign, then
  decimal digits in groups separated by single underscores (\<open>int('1_000') == 1000\<close>);
  anything else raises \<open>ValueError\<close>, modelled as \<open>None\<close>.
\<close>

fun digits_ok :: "string \<Rightarrow> bool" where
  "digits_ok [] = False"
| "digits_ok (c # cs) =
     (is_digit c \<and> (case cs of [] \<Rightarrow> True | d # ds \<Rightarrow> if d = CHR ''_'' then digits_ok ds else digits_ok cs))"

definition unsigned_value :: "string \<Rightarrow> int option" where
  "unsigned_value ds = (if digits_ok ds then Some (int (nat_of_digits (filter is_digit ds))) else None)"

definition py_int :: "string \<Rightarrow> int option" where
  "py_int s =
     (case py_strip s of
        [] \<Rightarrow> None
      | c # r \<Rightarrow>
          if c = CHR ''-'' then map_option uminus (unsigned_value r)
          else if c = CHR ''+'' then unsigned_value r
          else unsigned_value (c # r))"

section \<open>Paths (posixpath)\<close>

definition py_basename :: "string \<Rightarrow> string" where
  "py_basename p = rev (takeWhile (\<lambda>c. c \<noteq> CHR ''/'') (rev p))"

text \<open>\<open>os.path.splitext(b)[0]\<close> for a name \<open>b\<close> without \<open>/\<close>: cut at the last dot,
  unless every character before it is a dot (\<open>'.png'\<close> and \<open>'..png'\<close> keep their name).\<close>

definition splitext_root :: "string \<Rightarrow> string" where
  "splitext_root b =
     (if CHR ''.'' \<notin> set b then b
      else let stem = rev (tl (dropWhile (\<lambda>c. c \<noteq> CHR ''.'') (rev b))) in
           if list_all (\<lambda>c. c = CHR ''.'') stem then b else stem)"

definition py_join :: "string \<Rightarrow> string \<Rightarrow> string" where
  "py_join a b =
     (if b \<noteq> [] \<and> hd b = CHR ''/'' then b
      else if a = [] \<or> last a = CHR ''/'' then a @ b
      else a @ CHR ''/'' # b)"

section \<open>Lemmas\<close>

lemma digit_val_digit_char [simp]: "d < 10 \<Longrightarrow> digit_val (digit_char d) = d"
  by (simp add: digit_val_def digit_char_def)

lemma is_digit_digit_char [simp]: "d < 10 \<Longrightarrow> is_digit (digit_char d)"
  by (simp add: is_digit_def digit_char_def)

lemma nat_of_digits_snoc [simp]:
  "nat_of_digits (ds @ [c]) = 10 * nat_of_digits ds + digit_val c"
  by (simp add: nat_of_digits_def)

lemma nat_of_digits_Nil [simp]: "nat_of_digits [] = 0"
  by (simp add: nat_of_digits_def)

lemma nat_of_digits_zeros [simp]:
  "nat_of_digits (replicate k CHR ''0'' @ ds) = nat_of_digits ds"
proof -
  have z: "foldl (\<lambda>acc c. 10 * acc + digit_val c) 0 (replicate k CHR ''0'') = 0"
    by (induction k) (simp_all add: digit_val_def)
  show ?thesis by (simp add: nat_of_digits_def z)
qed

lemma str_of_nat_digits: "nat_of_digits (str_of_nat n) = n"
proof (induction n rule: str_of_nat.induct)
  case (1 n)
  then show ?case
    by (cases "n < 10") (simp_all add: str_of_nat.simps [of n] nat_of_digits_def)
qed

lemma str_of_nat_all_digits: "list_all is_digit (str_of_nat n)"
proof (induction n rule: str_of_nat.induct)
  case (1 n)
  then show ?case by (cases "n < 10") (simp_all add: str_of_nat.simps [of n])
qed

lemma str_of_nat_not_Nil [simp]: "str_of_nat n \<noteq> []"
  by (subst str_of_nat.simps) simp

lemma str_of_nat_inj: "str_of_nat m = str_of_nat n \<longleftrightarrow> m = n"
  by (metis str_of_nat_digits)

lemma is_digit_not_space: "is_digit c \<Longrightarrow> \<not> is_space c"
  by (auto simp: is_digit_def is_space_def)

lemma is_digit_not_underscore: "is_digit c \<Longrightarrow> c \<noteq> CHR ''_''"
  by (auto simp: is_digit_def)

lemma digits_ok_all_digits: "xs \<noteq> [] \<Longrightarrow> list_all is_digit xs \<Longrightarrow> digits_ok xs"
proof (induction xs rule: digits_ok.induct)
  case (2 c cs)
  show ?case
  proof (cases cs)
    case Nil
    with "2.prems" show ?thesis by simp
  next
    case (Cons d ds)
    with "2.prems" have "is_digit c" "is_digit d" "list_all is_digit cs" by simp_all
    then have "d \<noteq> CHR ''_''" by (simp add: is_digit_not_underscore)
    with Cons "2.IH"(2) \<open>list_all is_digit cs\<close> \<open>is_digit c\<close> show ?thesis by simp
  qed
qed simp

lemma unsigned_value_str_of_nat [simp]: "unsigned_value (str_of_nat n) = Some (int n)"
proof -
  have all: "list_all is_digit (str_of_nat n)" by (rule str_of_nat_all_digits)
  then have "filter is_digit (str_of_nat n) = str_of_nat n"
    by (simp add: list_all_iff)
  with all show ?thesis
    by (simp add: unsigned_value_def digits_ok_all_digits str_of_nat_digits)
qed

lemma py_strip_id:
  assumes "s \<noteq> []" and "\<not> is_space (hd s)" and "\<not> is_space (last s)"
  shows "py_strip s = s"
proof -
  obtain c r where s: "s = c # r" using assms(1) by (cases s) auto
  have d: "dropWhile is_space s = s" using assms(2) s by simp
  have "rev s \<noteq> [] \<and> \<not> is_space (hd (rev s))" using assms by (simp add: hd_rev)
  then have "dropWhile is_space (rev s) = rev s" by (cases "rev s") auto
  with d show ?thesis by (simp add: py_strip_def)
qed

lemma str_of_nat_hd_last: "is_digit (hd (str_of_nat n)) \<and> is_digit (last (str_of_nat n))"
  using str_of_nat_all_digits[of n] str_of_nat_not_Nil[of n]
  by (simp add: list_all_iff)

lemma py_int_str_of_int: "py_int (str_of_int i) = Some i"
proof (cases "i < 0")
  case True
  have nosp: "\<not> is_space CHR ''-''" by (simp add: is_space_def)
  have "py_strip (CHR ''-'' # str_of_nat (nat (- i))) = CHR ''-'' # str_of_nat (nat (- i))"
    using str_of_nat_hd_last[of "nat (- i)"] nosp by (intro py_strip_id) (auto dest: is_digit_not_space)
  with True show ?thesis by (simp add: py_int_def str_of_int_def)
next
  case False
  obtain c r where cr: "str_of_nat (nat i) = c # r"
    using str_of_nat_not_Nil by (cases "str_of_nat (nat i)") auto
  have "is_digit c" using str_of_nat_hd_last[of "nat i"] cr by simp
  then have c: "c \<noteq> CHR ''-''" "c \<noteq> CHR ''+''" by (auto simp: is_digit_def)
  have "py_strip (str_of_nat (nat i)) = str_of_nat (nat i)"
    using str_of_nat_hd_last[of "nat i"] by (intro py_strip_id) (auto dest: is_digit_not_space)
  then show ?thesis
    using False cr c unsigned_value_str_of_nat[of "nat i"]
    by (simp add: py_int_def str_of_int_def)
qed

lemma py_split_not_Nil [simp]: "py_split c s \<noteq> []"
  by (induction s) (auto simp: Let_def)

lemma py_split_no_sep: "c \<notin> set s \<Longrightarrow> py_split c s = [s]"
  by (induction s) (auto simp: Let_def)

lemma py_split_append: "c \<notin> set a \<Longrightarrow> py_split c (a @ c # b) = a # py_split c b"
proof (induction a)
  case Nil
  then show ?case by simp
next
  case (Cons x a)
  then have "x \<noteq> c" "c \<notin> set a" by auto
  with Cons.IH show ?case by (simp add: Let_def)
qed

lemma fmt_04d_digits:
  assumes "0 \<le> i"
  shows "nat_of_digits (fmt_04d i) = nat i \<and> list_all is_digit (fmt_04d i) \<and> fmt_04d i \<noteq> []"
proof -
  have z: "list_all is_digit (replicate k CHR ''0'')" for k
    by (simp add: list_all_iff is_digit_def)
  show ?thesis
    using assms z str_of_nat_all_digits[of "nat i"]
    by (simp add: fmt_04d_def Let_def str_of_nat_digits)
qed

lemma py_join_plain:
  "b \<noteq> [] \<Longrightarrow> hd b \<noteq> CHR ''/'' \<Longrightarrow> a \<noteq> [] \<Longrightarrow> last a \<noteq> CHR ''/'' \<Longrightarrow> py_join a b = a @ CHR ''/'' # b"
  by (simp add: py_join_def)

lemma py_join_inj:
  assumes "b \<noteq> []" "hd b \<noteq> CHR ''/''" "b' \<noteq> []" "hd b' \<noteq> CHR ''/''"
  shows "py_join a b = py_join a b' \<longleftrightarrow> b = b'"
  using assms by (auto simp: py_join_def)

lemma py_join_neq_dir:
  assumes "b \<noteq> []" "hd b \<noteq> CHR ''/''"
  shows "py_join a b \<noteq> a"
  using assms by (auto simp: py_join_def)

lemma last_py_join: "b \<noteq> [] \<Longrightarrow> last (py_join a b) = last b"
  by (simp add: py_join_def)

lemma py_basename_plain:
  assumes "CHR ''/'' \<notin> set p"
  shows "py_basename p = p"
proof -
  have "takeWhile (\<lambda>c. c \<noteq> CHR ''/'') (rev p) = rev p"
    using assms by (auto simp: takeWhile_eq_all_conv)
  then show ?thesis unfolding py_basename_def by (simp only: rev_rev_ident)
qed

lemma splitext_root_no_dot: "CHR ''.'' \<notin> set b \<Longrightarrow> splitext_root b = b"
  by (simp add: splitext_root_def)

lemma fmt_04d_inj:
  assumes "0 \<le> i" and "0 \<le> j"
  shows "fmt_04d i = fmt_04d j \<longleftrightarrow> i = j"
  using fmt_04d_digits[OF assms(1)] fmt_04d_digits[OF assms(2)] assms by (metis nat_eq_iff2)

lemma py_basename_join:
  assumes "CHR ''/'' \<notin> set b" and "b \<noteq> []"
  shows "py_basename (py_join a b) = b"
proof -
  have tw: "takeWhile (\<lambda>c. c \<noteq> CHR ''/'') (rev b @ xs) = rev b" if "xs = [] \<or> hd xs = CHR ''/''" for xs
  proof -
    have "takeWhile (\<lambda>c. c \<noteq> CHR ''/'') (rev b @ xs) = rev b @ takeWhile (\<lambda>c. c \<noteq> CHR ''/'') xs"
      using assms(1) by (intro takeWhile_append2) auto
    then show ?thesis using that by (cases xs) auto
  qed
  have hb: "hd b \<noteq> CHR ''/''" using assms by (cases b) auto
  show ?thesis
  proof (cases "a = [] \<or> last a = CHR ''/''")
    case True
    then have "rev a = [] \<or> hd (rev a) = CHR ''/''" by (auto simp: hd_rev)
    then show ?thesis using True hb tw[of "rev a"] by (auto simp: py_join_def py_basename_def)
  next
    case False
    then show ?thesis using hb tw[of "CHR ''/'' # rev a"] by (simp add: py_join_def py_basename_def)
  qed
qed

lemma splitext_root_ext:
  assumes "CHR ''.'' \<notin> set s" and "s \<noteq> []" and "CHR ''.'' \<notin> set e"
  shows "splitext_root (s @ CHR ''.'' # e) = s"
proof -
  have d: "dropWhile (\<lambda>c. c \<noteq> CHR ''.'') (rev e @ CHR ''.'' # rev s) = CHR ''.'' # rev s"
  proof -
    have "dropWhile (\<lambda>c. c \<noteq> CHR ''.'') (rev e) = []" using assms(3) by auto
    then show ?thesis by (simp add: dropWhile_append3)
  qed
  have "\<not> list_all (\<lambda>c. c = CHR ''.'') s" using assms(1,2) by (cases s) auto
  then show ?thesis using d by (simp add: splitext_root_def Let_def)
qed

lemma str_of_nat_no_sep: "CHR ''/'' \<notin> set (str_of_nat n) \<and> CHR ''.'' \<notin> set (str_of_nat n)"
  using str_of_nat_all_digits[of n] by (auto simp: list_all_iff is_digit_def)

end
