(* ===== verification/Image.thy ===== *)
theory Image
  imports Prelude
begin

text \<open>
  The three Pillow operations flipbook_tool.py composes, by their documented pixel
  semantics (Pillow is a library the tool calls, so these are modelled from its
  reference, not from repository code): \<open>Image.new('RGBA', (w, h))\<close> (all pixels
  \<open>(0, 0, 0, 0)\<close>), \<open>im.paste(src, (x, y))\<close> (source pixels overwrite the destination,
  clipped to it) and \<open>im.crop((l, u, r, lo))\<close> (a new \<open>(r - l) \<times> (lo - u)\<close> image, zero
  outside the source; \<open>ValueError\<close> when \<open>r < l\<close> or \<open>lo < u\<close>).  A pixel is an RGBA
  quadruple of bytes; images from disk are taken as already converted to RGBA (mode
  conversion is not modelled).  An image is well formed (\<open>wf_image\<close>) when it is
  transparent outside its bounds; every operation keeps that, so two well-formed images
  with the same size and the same pixels inside are equal as HOL values.
\<close>

type_synonym rgba = "8 word \<times> 8 word \<times> 8 word \<times> 8 word"

definition transparent :: rgba where
  "transparent = (0, 0, 0, 0)"

record image =
  width :: nat
  height :: nat
  px :: "nat \<Rightarrow> nat \<Rightarrow> rgba"

definition new_image :: "nat \<Rightarrow> nat \<Rightarrow> image" where
  "new_image w h = \<lparr>width = w, height = h, px = (\<lambda>_ _. transparent)\<rparr>"

definition in_box :: "nat \<Rightarrow> nat \<Rightarrow> nat \<Rightarrow> nat \<Rightarrow> nat \<Rightarrow> nat \<Rightarrow> bool" where
  "in_box x y w h i j \<longleftrightarrow> x \<le> i \<and> i < x + w \<and> y \<le> j \<and> j < y + h"

definition paste :: "image \<Rightarrow> image \<Rightarrow> nat \<Rightarrow> nat \<Rightarrow> image" where
  "paste canvas img x y =
     canvas\<lparr>px := (\<lambda>i j.
        if in_box x y (width img) (height img) i j \<and> i < width canvas \<and> j < height canvas
        then px img (i - x) (j - y) else px canvas i j)\<rparr>"

definition crop :: "image \<Rightarrow> int \<Rightarrow> int \<Rightarrow> int \<Rightarrow> int \<Rightarrow> image py" where
  "crop src l u r lo =
     (if r < l then Inl ValueError
      else if lo < u then Inl ValueError
      else Inr \<lparr>width = nat (r - l), height = nat (lo - u),
                px = (\<lambda>i j. let x = l + int i; y = u + int j in
                        if int i < r - l \<and> int j < lo - u \<and> 0 \<le> x \<and> x < int (width src)
                           \<and> 0 \<le> y \<and> y < int (height src)
                        then px src (nat x) (nat y) else transparent)\<rparr>)"

text \<open>A frame of one colour, the test frames of the tool's documentation.\<close>

definition solid :: "nat \<Rightarrow> nat \<Rightarrow> rgba \<Rightarrow> image" where
  "solid w h colour = \<lparr>width = w, height = h, px = (\<lambda>i j. if i < w \<and> j < h then colour else transparent)\<rparr>"

definition wf_image :: "image \<Rightarrow> bool" where
  "wf_image im \<longleftrightarrow> (\<forall>i j. width im \<le> i \<or> height im \<le> j \<longrightarrow> px im i j = transparent)"

section \<open>Lemmas\<close>

lemma new_image_simps [simp]:
  "width (new_image w h) = w" "height (new_image w h) = h" "px (new_image w h) i j = transparent"
  by (simp_all add: new_image_def)

lemma wf_new_image [simp]: "wf_image (new_image w h)"
  by (simp add: wf_image_def)

lemma paste_size [simp]:
  "width (paste canvas img x y) = width canvas" "height (paste canvas img x y) = height canvas"
  by (simp_all add: paste_def)

lemma px_paste:
  "px (paste canvas img x y) i j =
     (if in_box x y (width img) (height img) i j \<and> i < width canvas \<and> j < height canvas
      then px img (i - x) (j - y) else px canvas i j)"
  by (simp add: paste_def)

lemma wf_paste: "wf_image canvas \<Longrightarrow> wf_image (paste canvas img x y)"
  by (auto simp: wf_image_def px_paste)

lemma crop_Inr_iff:
  "crop src l u r lo = Inr c \<longleftrightarrow>
     l \<le> r \<and> u \<le> lo \<and> c = \<lparr>width = nat (r - l), height = nat (lo - u),
        px = (\<lambda>i j. let x = l + int i; y = u + int j in
                if int i < r - l \<and> int j < lo - u \<and> 0 \<le> x \<and> x < int (width src)
                   \<and> 0 \<le> y \<and> y < int (height src)
                then px src (nat x) (nat y) else transparent)\<rparr>"
  by (auto simp: crop_def)

lemma wf_crop: "crop src l u r lo = Inr c \<Longrightarrow> wf_image c"
  by (auto simp: crop_Inr_iff wf_image_def Let_def)

lemma image_eqI:
  assumes "wf_image a" and "wf_image b" and "width a = width b" and "height a = height b"
    and "\<And>i j. i < width a \<Longrightarrow> j < height a \<Longrightarrow> px a i j = px b i j"
  shows "a = b"
proof -
  have "px a = px b"
  proof (intro ext)
    fix i j
    show "px a i j = px b i j"
    proof (cases "i < width a \<and> j < height a")
      case True
      then show ?thesis using assms(5) by simp
    next
      case False
      then show ?thesis using assms(1-4) by (auto simp: wf_image_def)
    qed
  qed
  then show ?thesis using assms(3,4) by simp
qed

text \<open>A crop whose box has natural coordinates, as all crops of the tool do.\<close>

lemma crop_nat_box:
  "crop src (int x0) (int y0) (int x0 + int w) (int y0 + int h) =
     Inr \<lparr>width = w, height = h,
          px = (\<lambda>i j. if i < w \<and> j < h \<and> x0 + i < width src \<and> y0 + j < height src
                      then px src (x0 + i) (y0 + j) else transparent)\<rparr>"
proof -
  have "(\<lambda>i j. let x = int x0 + int i; y = int y0 + int j in
           if int i < int x0 + int w - int x0 \<and> int j < int y0 + int h - int y0 \<and> 0 \<le> x
              \<and> x < int (width src) \<and> 0 \<le> y \<and> y < int (height src)
           then px src (nat x) (nat y) else transparent)
        = (\<lambda>i j. if i < w \<and> j < h \<and> x0 + i < width src \<and> y0 + j < height src
                then px src (x0 + i) (y0 + j) else transparent)"
    by (intro ext) (simp add: Let_def flip: of_nat_add)
  then show ?thesis by (simp add: crop_def)
qed

lemma solid_simps [simp]:
  "width (solid w h colour) = w" "height (solid w h colour) = h"
  by (simp_all add: solid_def)

lemma wf_solid [simp]: "wf_image (solid w h colour)"
  by (simp add: solid_def wf_image_def)

end
