(* ===== verification/World.thy ===== *)
theory World
  imports PyStr Image
begin

text \<open>
  The outside world of one run of flipbook_tool.py, as explicit state: the directories
  with their \<open>os.listdir\<close> listings (in the order the OS returns them), the regular files
  (a decodable image, or anything else), and the lines printed on standard output.
  Paths are compared as strings (no normalisation, no symbolic links).  An action
  \<open>'a act\<close> maps a world to a result (\<open>Inl\<close> an exception) and the world after it;
  \<open>act_bind\<close> stops at the first exception but keeps what was already written, as
  the Python process does.  The primitives are the library calls of the tool:
  \<open>os.path.isdir\<close>, \<open>os.path.isfile\<close>, \<open>os.listdir\<close>, \<open>os.makedirs(exist_ok=True)\<close>,
  \<open>Image.open\<close>, \<open>Image.save\<close> and \<open>print\<close>.  The invariant \<open>wf_world\<close> (every
  stored image is well formed, no path is both a file and a directory) is kept by all of
  them, and none removes a file, a directory, a listed name or a printed line
  (\<open>ensures\<close>, with the rules \<open>ensures_intros\<close> for composing actions).
\<close>

datatype entry = ImageFile image | OtherFile

record world =
  dirs :: "string \<Rightarrow> string list option"
  files :: "string \<Rightarrow> entry option"
  stdout :: "string list"

type_synonym 'a act = "world \<Rightarrow> 'a py \<times> world"

definition act_return :: "'a \<Rightarrow> 'a act" where
  "act_return a w = (Inr a, w)"

definition act_raise :: "py_error \<Rightarrow> 'a act" where
  "act_raise e w = (Inl e, w)"

definition act_lift :: "'a py \<Rightarrow> 'a act" where
  "act_lift r w = (r, w)"

definition act_bind :: "'a act \<Rightarrow> ('a \<Rightarrow> 'b act) \<Rightarrow> 'b act" where
  "act_bind m f w = (case m w of (Inl e, w') \<Rightarrow> (Inl e, w') | (Inr a, w') \<Rightarrow> f a w')"

section \<open>Library calls\<close>

definition is_dir :: "world \<Rightarrow> string \<Rightarrow> bool" where
  "is_dir w p \<longleftrightarrow> dirs w p \<noteq> None"

definition is_file :: "world \<Rightarrow> string \<Rightarrow> bool" where
  "is_file w p \<longleftrightarrow> files w p \<noteq> None"

definition os_listdir :: "string \<Rightarrow> string list act" where
  "os_listdir p w =
     (case dirs w p of
        Some l \<Rightarrow> (Inr l, w)
      | None \<Rightarrow> (Inl (if is_file w p then NotADirectoryError else FileNotFoundError), w))"

definition image_open :: "string \<Rightarrow> image act" where
  "image_open p w =
     (case files w p of
        Some (ImageFile im) \<Rightarrow> (Inr im, w)
      | Some OtherFile \<Rightarrow> (Inl UnidentifiedImageError, w)
      | None \<Rightarrow> (Inl (if is_dir w p then IsADirectoryError else FileNotFoundError), w))"

text \<open>\<open>im.save(os.path.join(folder, name))\<close>: the file is created or overwritten and,
  when new, appears in its directory's listing.\<close>

definition image_save :: "image \<Rightarrow> string \<Rightarrow> string \<Rightarrow> unit act" where
  "image_save im folder name w =
     (let p = py_join folder name in
      if is_dir w p then (Inl IsADirectoryError, w)
      else case dirs w folder of
        None \<Rightarrow> (Inl FileNotFoundError, w)
      | Some l \<Rightarrow>
          (Inr (), w\<lparr>files := (files w)(p \<mapsto> ImageFile im),
                     dirs := (dirs w)(folder \<mapsto> (if name \<in> set l then l else l @ [name]))\<rparr>))"

text \<open>\<open>os.makedirs(p, exist_ok=True)\<close> for a one-component relative path.\<close>

definition os_makedirs :: "string \<Rightarrow> unit act" where
  "os_makedirs p w =
     (if is_dir w p then (Inr (), w)
      else if is_file w p then (Inl FileExistsError, w)
      else if p = [] then (Inl FileNotFoundError, w)
      else (Inr (), w\<lparr>dirs := (dirs w)(p \<mapsto> [])\<rparr>))"

definition py_print :: "string \<Rightarrow> unit act" where
  "py_print s w = (Inr (), w\<lparr>stdout := stdout w @ [s]\<rparr>)"

text \<open>A directory's listing after a file is saved in it: a new name is appended at the
  end, as \<open>image_save\<close> does.\<close>

definition listing_add :: "string list \<Rightarrow> string \<Rightarrow> string list" where
  "listing_add l name = (if name \<in> set l then l else l @ [name])"

section \<open>The world invariant and how runs change the world\<close>

text \<open>The world is well formed when every stored image is well formed and no path is both a
  regular file and a directory.\<close>

definition wf_world :: "world \<Rightarrow> bool" where
  "wf_world w \<longleftrightarrow> (\<forall>p im. files w p = Some (ImageFile im) \<longrightarrow> wf_image im)
                 \<and> (\<forall>p. files w p \<noteq> None \<longrightarrow> dirs w p = None)"

text \<open>\<open>world_le w w'\<close>: nothing of \<open>w\<close> was removed in \<open>w'\<close>: every file still
  exists (perhaps overwritten), every directory still exists and its listing only had
  names appended, and the earlier output is a prefix of the later one.\<close>

definition world_le :: "world \<Rightarrow> world \<Rightarrow> bool" where
  "world_le w w' \<longleftrightarrow> dom (files w) \<subseteq> dom (files w')
     \<and> (\<forall>d l. dirs w d = Some l \<longrightarrow> (\<exists>l'. dirs w' d = Some l' \<and> prefix l l'))
     \<and> prefix (stdout w) (stdout w')"

definition evolves :: "world \<Rightarrow> world \<Rightarrow> bool" where
  "evolves w w' \<longleftrightarrow> world_le w w' \<and> (wf_world w \<longrightarrow> wf_world w')"

text \<open>\<open>ensures Q m\<close>: every run of the action \<open>m\<close> only makes the world evolve, and
  every normal result satisfies \<open>Q\<close>; exceptions carry no result.\<close>

definition ensures :: "('a \<Rightarrow> bool) \<Rightarrow> 'a act \<Rightarrow> bool" where
  "ensures Q m \<longleftrightarrow> (\<forall>w. evolves w (snd (m w)) \<and> (\<forall>a. fst (m w) = Inr a \<longrightarrow> Q a))"

named_theorems ensures_intros "actions that only make the world evolve"

text \<open>\<open>writes_within S m\<close>: every run of \<open>m\<close>, also one that raises, leaves the file and
  the listing of every path outside \<open>S\<close> as they were: the set of paths the action may
  write, as the kill set of a command in a live-variable analysis.\<close>

definition writes_within :: "(string \<Rightarrow> bool) \<Rightarrow> 'a act \<Rightarrow> bool" where
  "writes_within S m \<longleftrightarrow>
     (\<forall>w p. \<not> S p \<longrightarrow> files (snd (m w)) p = files w p \<and> dirs (snd (m w)) p = dirs w p)"

named_theorems writes_intros "actions that write only the paths of a set"

lemma act_return_Pair [simp]: "act_return a w = (Inr a, w)"
  by (simp add: act_return_def)

lemma act_raise_Pair [simp]: "act_raise e w = (Inl e, w)"
  by (simp add: act_raise_def)

lemma act_lift_Pair [simp]: "act_lift r w = (r, w)"
  by (simp add: act_lift_def)

lemma act_bind_Inr [simp]: "m w = (Inr a, w') \<Longrightarrow> act_bind m f w = f a w'"
  by (simp add: act_bind_def)

lemma act_bind_Inl [simp]: "m w = (Inl e, w') \<Longrightarrow> act_bind m f w = (Inl e, w')"
  by (simp add: act_bind_def)

lemma act_bind_lift [simp]: "act_bind (act_lift r) f w = (case r of Inl e \<Rightarrow> (Inl e, w) | Inr a \<Rightarrow> f a w)"
  by (cases r) (simp_all add: act_bind_def)

text \<open>The monad laws of actions.\<close>

lemma act_return_bind [simp]: "act_bind (act_return a) f = f a"
  by (intro ext) (simp add: act_bind_def)

lemma act_bind_return [simp]: "act_bind m act_return = m"
  by (intro ext) (simp add: act_bind_def split: prod.split sum.split)

lemma act_bind_assoc: "act_bind (act_bind m f) g = act_bind m (\<lambda>a. act_bind (f a) g)"
  by (intro ext) (simp add: act_bind_def split: prod.split sum.split)

lemma evolves_refl [simp]: "evolves w w"
  by (auto simp: evolves_def world_le_def)

lemma world_le_trans:
  assumes a: "world_le w1 w2" and b: "world_le w2 w3"
  shows "world_le w1 w3"
  unfolding world_le_def
proof (intro conjI allI impI)
  show "dom (files w1) \<subseteq> dom (files w3)" using a b unfolding world_le_def by blast
  show "prefix (stdout w1) (stdout w3)"
    using a b unfolding world_le_def by (meson prefix_order.trans)
  fix d l
  assume "dirs w1 d = Some l"
  then obtain l' where l': "dirs w2 d = Some l'" "prefix l l'" using a unfolding world_le_def by blast
  then obtain l'' where "dirs w3 d = Some l''" "prefix l' l''" using b unfolding world_le_def by blast
  then show "\<exists>l''. dirs w3 d = Some l'' \<and> prefix l l''" using l'(2) prefix_order.trans by blast
qed

lemma evolves_trans: "evolves w1 w2 \<Longrightarrow> evolves w2 w3 \<Longrightarrow> evolves w1 w3"
  unfolding evolves_def using world_le_trans by blast

lemma ensures_return [ensures_intros]: "Q a \<Longrightarrow> ensures Q (act_return a)"
  by (simp add: ensures_def)

lemma ensures_raise [ensures_intros]: "ensures Q (act_raise e)"
  by (simp add: ensures_def)

lemma ensures_lift: "(\<And>a. r = Inr a \<Longrightarrow> Q a) \<Longrightarrow> ensures Q (act_lift r)"
  by (simp add: ensures_def)

lemma ensures_bind:
  assumes m: "ensures P m" and f: "\<And>a. P a \<Longrightarrow> ensures Q (f a)"
  shows "ensures Q (act_bind m f)"
  unfolding ensures_def
proof (intro allI conjI impI)
  fix w b
  obtain r w1 where mw: "m w = (r, w1)" by (cases "m w")
  have e1: "evolves w w1" using m mw unfolding ensures_def by (metis snd_conv)
  show "evolves w (snd (act_bind m f w))"
  proof (cases r)
    case (Inl e)
    then show ?thesis using mw e1 by (simp add: act_bind_def)
  next
    case (Inr a)
    have "P a" using m mw Inr unfolding ensures_def by (metis fst_conv)
    then have "evolves w1 (snd (f a w1))" using f unfolding ensures_def by blast
    then show ?thesis using mw Inr e1 by (simp add: act_bind_def evolves_trans)
  qed
  show "fst (act_bind m f w) = Inr b \<Longrightarrow> Q b"
  proof (cases r)
    case (Inr a)
    have "P a" using m mw Inr unfolding ensures_def by (metis fst_conv)
    then show "fst (act_bind m f w) = Inr b \<Longrightarrow> Q b"
      using f mw Inr unfolding ensures_def by (simp add: act_bind_def)
  qed (simp add: mw act_bind_def)
qed

lemma ensures_bind_any [ensures_intros]:
  "ensures (\<lambda>_. True) m \<Longrightarrow> (\<And>a. ensures Q (f a)) \<Longrightarrow> ensures Q (act_bind m f)"
  by (rule ensures_bind) simp_all

lemma ensures_lift_any [ensures_intros]: "ensures (\<lambda>_. True) (act_lift r)"
  by (rule ensures_lift) simp

lemma ensures_if [ensures_intros]: "ensures Q a \<Longrightarrow> ensures Q b \<Longrightarrow> ensures Q (if c then a else b)"
  by simp

lemma ensures_case_prod [ensures_intros]:
  "(\<And>x y. p = (x, y) \<Longrightarrow> ensures Q (f x y)) \<Longrightarrow> ensures Q (case p of (x, y) \<Rightarrow> f x y)"
  by (cases p) simp

lemma ensures_listdir [ensures_intros]: "ensures (\<lambda>_. True) (os_listdir p)"
  by (simp add: ensures_def os_listdir_def split: option.splits)

lemma ensures_open [ensures_intros]: "ensures (\<lambda>_. True) (image_open p)"
  by (simp add: ensures_def image_open_def split: option.splits entry.splits)

lemma ensures_print [ensures_intros]: "ensures (\<lambda>_. True) (py_print s)"
  by (simp add: ensures_def py_print_def evolves_def world_le_def wf_world_def)

lemma ensures_makedirs [ensures_intros]: "ensures (\<lambda>_. True) (os_makedirs p)"
  by (auto simp: ensures_def os_makedirs_def evolves_def world_le_def wf_world_def is_file_def is_dir_def)

lemma ensures_save [ensures_intros]: "wf_image im \<Longrightarrow> ensures (\<lambda>_. True) (image_save im folder name)"
  by (auto simp: ensures_def image_save_def evolves_def world_le_def wf_world_def is_dir_def Let_def
      split: option.splits)

lemma foldl_listing_add:
  "distinct xs \<Longrightarrow> set xs \<inter> set l = {} \<Longrightarrow> foldl listing_add l xs = l @ xs"
  by (induction xs arbitrary: l) (auto simp: listing_add_def)

lemma set_foldl_listing_add [simp]: "set (foldl listing_add l xs) = set l \<union> set xs"
  by (induction xs arbitrary: l) (auto simp: listing_add_def)

lemma foldl_listing_add_present: "set xs \<subseteq> set l \<Longrightarrow> foldl listing_add l xs = l"
  by (induction xs) (auto simp: listing_add_def)

lemma foldl_listing_add_twice:
  "foldl listing_add (foldl listing_add l xs) xs = foldl listing_add l xs"
  by (rule foldl_listing_add_present) simp

lemma image_open_Inr: "image_open p w = (Inr im, w') \<Longrightarrow> w' = w \<and> files w p = Some (ImageFile im)"
  by (auto simp: image_open_def split: option.splits entry.splits if_splits)

lemma image_open_world [simp]: "snd (image_open p w) = w"
  by (simp add: image_open_def split: option.splits entry.splits)

lemma os_listdir_world [simp]: "snd (os_listdir p w) = w"
  by (simp add: os_listdir_def split: option.splits)

lemma image_save_ok:
  assumes "dirs w folder = Some l" and "\<not> is_dir w (py_join folder name)"
  shows "image_save im folder name w =
           (Inr (), w\<lparr>files := (files w)(py_join folder name \<mapsto> ImageFile im),
                      dirs := (dirs w)(folder \<mapsto> (if name \<in> set l then l else l @ [name]))\<rparr>)"
  using assms by (simp add: image_save_def)

lemma os_makedirs_ok:
  assumes "\<not> is_file w p" and "p \<noteq> []"
  shows "\<exists>w1. os_makedirs p w = (Inr (), w1) \<and> is_dir w1 p \<and> files w1 = files w
           \<and> stdout w1 = stdout w \<and> (\<forall>q. q \<noteq> p \<longrightarrow> dirs w1 q = dirs w q)"
proof (cases "is_dir w p")
  case True
  then show ?thesis by (simp add: os_makedirs_def)
next
  case False
  then show ?thesis using assms by (simp add: os_makedirs_def is_dir_def)
qed

section \<open>The paths an action writes\<close>

lemma writes_withinI:
  "(\<And>w p. \<not> S p \<Longrightarrow> files (snd (m w)) p = files w p \<and> dirs (snd (m w)) p = dirs w p)
   \<Longrightarrow> writes_within S m"
  by (simp add: writes_within_def)

lemma writes_withinD:
  "writes_within S m \<Longrightarrow> \<not> S p \<Longrightarrow> files (snd (m w)) p = files w p \<and> dirs (snd (m w)) p = dirs w p"
  by (simp add: writes_within_def)

lemma writes_within_mono:
  "writes_within S m \<Longrightarrow> (\<And>p. S p \<Longrightarrow> T p) \<Longrightarrow> writes_within T m"
  by (auto simp: writes_within_def)

text \<open>An action that leaves the files and the listings as they are writes nothing.\<close>

lemma writes_same:
  "(\<And>w. files (snd (m w)) = files w \<and> dirs (snd (m w)) = dirs w) \<Longrightarrow> writes_within S m"
  by (simp add: writes_within_def)

lemma writes_return [writes_intros]: "writes_within S (act_return a)"
  by (rule writes_same) simp

lemma writes_lift [writes_intros]: "writes_within S (act_lift r)"
  by (rule writes_same) simp

lemma writes_listdir [writes_intros]: "writes_within S (os_listdir p)"
  by (rule writes_same) simp

lemma writes_open [writes_intros]: "writes_within S (image_open p)"
  by (rule writes_same) simp

lemma writes_print [writes_intros]: "writes_within S (py_print s)"
  by (rule writes_same) (simp add: py_print_def)

lemma writes_makedirs [writes_intros]: "S p \<Longrightarrow> writes_within S (os_makedirs p)"
  by (auto simp: writes_within_def os_makedirs_def)

lemma writes_save [writes_intros]:
  "S folder \<Longrightarrow> S (py_join folder name) \<Longrightarrow> writes_within S (image_save im folder name)"
  by (auto simp: writes_within_def image_save_def Let_def split: option.splits)

lemma writes_bind [writes_intros]:
  assumes m: "writes_within S m" and f: "\<And>a. writes_within S (f a)"
  shows "writes_within S (act_bind m f)"
proof (rule writes_withinI)
  fix w p
  assume p: "\<not> S p"
  show "files (snd (act_bind m f w)) p = files w p \<and> dirs (snd (act_bind m f w)) p = dirs w p"
  proof (cases "m w")
    case (Pair r w1)
    have "files w1 p = files w p \<and> dirs w1 p = dirs w p"
      using writes_withinD[OF m p, of w] Pair by simp
    moreover have "files (snd (f a w1)) p = files w1 p \<and> dirs (snd (f a w1)) p = dirs w1 p" for a
      by (rule writes_withinD[OF f p])
    ultimately show ?thesis using Pair by (cases r) (simp_all add: act_bind_def)
  qed
qed

lemma writes_if [writes_intros]:
  "writes_within S a \<Longrightarrow> writes_within S b \<Longrightarrow> writes_within S (if c then a else b)"
  by simp

lemma writes_case_prod [writes_intros]:
  "(\<And>x y. writes_within S (f x y)) \<Longrightarrow> writes_within S (case p of (x, y) \<Rightarrow> f x y)"
  by (simp split: prod.split)

end
