(* ===== verification/Grid.thy ===== *)
theory Grid
  imports Prelude
begin

text \<open>
  The grid planner, \<open>calc_grid_size\<close> of src/flipbook_tool.py (lines 7--13): the
  integer square root \<open>int(math.sqrt(n))\<close>, the downward scan over candidate row
  counts, and the defensive fallback \<open>(1, n)\<close>.  The lemmas show that the scan finds the
  largest divisor of \<open>n\<close> not above \<open>\<surd>n\<close>, that the result is an exact factorisation
  with \<open>rows \<le> cols\<close>, that it is the most square such factorisation, and that the
  fallback is reached exactly for \<open>n = 0\<close>.
\<close>

section \<open>Integer square root\<close>

text \<open>
  \<open>int(math.sqrt(n))\<close> truncates the floating-point square root.  For the frame counts
  the tool handles (\<open>n < 2^52\<close>, where the double square root is correctly rounded and
  never reaches the next integer) this is the floor of the real square root; the model
  computes it exactly by the digit-pair recursion below, and \<open>isqrt_real\<close> shows it is
  \<open>\<lfloor>sqrt n\<rfloor>\<close>.
\<close>

fun isqrt :: "nat \<Rightarrow> nat" where
  "isqrt n =
     (if n = 0 then 0
      else let r = 2 * isqrt (n div 4) in if (r + 1) * (r + 1) \<le> n then r + 1 else r)"

declare isqrt.simps [simp del]

lemma isqrt_0 [simp]: "isqrt 0 = 0"
  by (simp add: isqrt.simps)

lemma isqrt_bounds: "isqrt n * isqrt n \<le> n \<and> n < Suc (isqrt n) * Suc (isqrt n)"
proof (induction n rule: isqrt.induct)
  case (1 n)
  show ?case
  proof (cases "n = 0")
    case True
    then show ?thesis by simp
  next
    case False
    define q where "q = isqrt (n div 4)"
    define r where "r = 2 * q"
    from "1.IH" False have IH: "q * q \<le> n div 4" "n div 4 < Suc q * Suc q"
      by (simp_all add: q_def)
    have lo: "r * r \<le> n"
    proof -
      have "r * r = 4 * (q * q)" by (simp add: r_def)
      also have "\<dots> \<le> 4 * (n div 4)" using IH(1) by simp
      also have "\<dots> \<le> n" by simp
      finally show ?thesis .
    qed
    have hi: "n < (r + 2) * (r + 2)"
    proof -
      have "n < 4 * (n div 4) + 4" by simp
      also have "\<dots> \<le> 4 * (Suc q * Suc q)" using IH(2) by simp
      also have "\<dots> = (r + 2) * (r + 2)" by (simp add: r_def algebra_simps)
      finally show ?thesis .
    qed
    have eq: "isqrt n = (if (r + 1) * (r + 1) \<le> n then r + 1 else r)"
      using False by (simp add: isqrt.simps [of n] r_def q_def Let_def)
    show ?thesis
      using lo hi by (simp add: eq)
  qed
qed

lemma sq_le_sq_mono:
  fixes a b :: nat
  shows "a * a \<le> b * b \<longleftrightarrow> a \<le> b"
proof
  assume "a * a \<le> b * b"
  show "a \<le> b"
  proof (rule ccontr)
    assume "\<not> a \<le> b"
    then have "b * b < a * a" by (intro mult_strict_mono) auto
    with \<open>a * a \<le> b * b\<close> show False by simp
  qed
next
  assume "a \<le> b"
  then show "a * a \<le> b * b" by (intro mult_le_mono)
qed

lemma le_isqrt_iff: "d \<le> isqrt n \<longleftrightarrow> d * d \<le> n"
proof
  assume "d \<le> isqrt n"
  then have "d * d \<le> isqrt n * isqrt n" by (simp add: mult_le_mono)
  then show "d * d \<le> n" using isqrt_bounds[of n] by linarith
next
  assume "d * d \<le> n"
  then have "d * d < Suc (isqrt n) * Suc (isqrt n)" using isqrt_bounds[of n] by linarith
  then show "d \<le> isqrt n" using sq_le_sq_mono[of "Suc (isqrt n)" d] by linarith
qed

lemma isqrt_unique:
  assumes "r * r \<le> n" and "n < Suc r * Suc r"
  shows "isqrt n = r"
proof -
  have "r \<le> isqrt n" using assms(1) le_isqrt_iff[of r n] by simp
  moreover have "\<not> Suc r \<le> isqrt n" using assms(2) le_isqrt_iff[of "Suc r" n] by simp
  ultimately show ?thesis by simp
qed

lemma isqrt_eq_0_iff [simp]: "isqrt n = 0 \<longleftrightarrow> n = 0"
  using le_isqrt_iff[of 1 n] by auto

section \<open>The row scan\<close>

text \<open>
  \<^verbatim>\<open>for rows in range(sqrt_val, 0, -1):
    if num_frames % rows == 0: return (rows, num_frames // rows)\<close>
  \<open>calc_grid_loop n r\<close> scans \<open>r, r - 1, \<dots>, 1\<close>; \<open>None\<close> is falling out of the loop.
\<close>

fun calc_grid_loop :: "nat \<Rightarrow> nat \<Rightarrow> (nat \<times> nat) option" where
  "calc_grid_loop n 0 = None"
| "calc_grid_loop n (Suc r) =
     (if n mod Suc r = 0 then Some (Suc r, n div Suc r) else calc_grid_loop n r)"

definition calc_grid_size :: "nat \<Rightarrow> nat \<times> nat" where
  "calc_grid_size num_frames =
     (let sqrt_val = isqrt num_frames in
      case calc_grid_loop num_frames sqrt_val of
        Some rc \<Rightarrow> rc
      | None \<Rightarrow> (1, num_frames))"

lemma calc_grid_loop_None_iff: "calc_grid_loop n r = None \<longleftrightarrow> r = 0"
  by (induction n r rule: calc_grid_loop.induct) auto

lemma calc_grid_loop_Some:
  "calc_grid_loop n r = Some (a, b) \<Longrightarrow>
     0 < a \<and> a \<le> r \<and> a dvd n \<and> b = n div a \<and> (\<forall>d. a < d \<and> d \<le> r \<longrightarrow> \<not> d dvd n)"
proof (induction n r rule: calc_grid_loop.induct)
  case (1 n)
  then show ?case by simp
next
  case (2 n r)
  show ?case
  proof (cases "n mod Suc r = 0")
    case True
    with "2.prems" show ?thesis by (auto simp: mod_eq_0_iff_dvd)
  next
    case False
    with "2.prems" have "calc_grid_loop n r = Some (a, b)" by simp
    with False have IH: "0 < a" "a \<le> r" "a dvd n" "b = n div a"
        "\<forall>d. a < d \<and> d \<le> r \<longrightarrow> \<not> d dvd n"
      using "2.IH" by simp_all
    have "\<not> Suc r dvd n" using False by (simp add: mod_eq_0_iff_dvd)
    with IH(5) have "\<forall>d. a < d \<and> d \<le> Suc r \<longrightarrow> \<not> d dvd n"
      by (metis le_Suc_eq)
    with IH(1-4) show ?thesis by simp
  qed
qed

lemma calc_grid_size_loop:
  "0 < n \<Longrightarrow> calc_grid_loop n (isqrt n) = Some (calc_grid_size n)"
  by (cases "calc_grid_loop n (isqrt n)")
     (auto simp: calc_grid_size_def calc_grid_loop_None_iff)

lemma calc_grid_size_rows:
  assumes "0 < n"
  shows "0 < fst (calc_grid_size n) \<and> fst (calc_grid_size n) \<le> isqrt n
    \<and> fst (calc_grid_size n) dvd n \<and> snd (calc_grid_size n) = n div fst (calc_grid_size n)
    \<and> (\<forall>d. fst (calc_grid_size n) < d \<and> d * d \<le> n \<longrightarrow> \<not> d dvd n)"
  using calc_grid_loop_Some[of n "isqrt n" "fst (calc_grid_size n)" "snd (calc_grid_size n)"]
    calc_grid_size_loop[OF assms] le_isqrt_iff
  by auto

text \<open>The chosen grid is an exact factorisation with no more rows than columns.\<close>

lemma calc_grid_size_exact:
  assumes "0 < n" and "calc_grid_size n = (r, c)"
  shows "r * c = n \<and> 0 < r \<and> r \<le> c"
proof -
  from calc_grid_size_rows[OF assms(1)] assms(2)
  have r: "0 < r" "r \<le> isqrt n" "r dvd n" "c = n div r" by simp_all
  then have rc: "r * c = n" by simp
  have "r * r \<le> n" using r(2) le_isqrt_iff by blast
  then have "r * r \<le> r * c" using rc by simp
  then have "r \<le> c" using r(1) by simp
  with rc r(1) show ?thesis by simp
qed

section \<open>Properties of the grid planner\<close>

text \<open>
  C4.  For a positive frame count, \<open>calc_grid_size\<close> returns an exact factorisation
  \<open>rows * cols = n\<close> with \<open>1 \<le> rows \<le> cols\<close>: every frame gets a cell, no cell is empty,
  and the sheet is at least as wide as it is tall.
\<close>

theorem calc_grid_size_factorisation:
  assumes "0 < n" and "calc_grid_size n = (r, c)"
  shows "r * c = n \<and> 1 \<le> r \<and> r \<le> c"
  using calc_grid_size_exact[OF assms] by simp

theorem calc_grid_size_factorisation_witness:
  "0 < (12::nat) \<and> calc_grid_size 12 = (3, 4) \<and> 3 * 4 = (12::nat) \<and> 1 \<le> (3::nat) \<and> (3::nat) \<le> 4"
proof -
  have g: "calc_grid_size 12 = (3, 4)" by code_simp
  show ?thesis using calc_grid_size_factorisation[OF _ g] g by simp
qed

text \<open>
  C5.  The layout is the most square one: every factorisation \<open>a * b = n\<close> with
  \<open>a \<le> b\<close> has at most as many rows as the one chosen, so no other exact grid with
  rows \<open>\<le>\<close> cols is closer to a square.
\<close>

theorem calc_grid_size_most_square:
  assumes "0 < n" and "a * b = n" and "a \<le> b"
  shows "a \<le> fst (calc_grid_size n)"
proof (rule ccontr)
  assume "\<not> a \<le> fst (calc_grid_size n)"
  then have gt: "fst (calc_grid_size n) < a" by simp
  have "a * a \<le> n" using assms(2,3) by (metis mult_le_mono2)
  moreover have "a dvd n" using assms(2) by (metis dvd_triv_left)
  ultimately show False using calc_grid_size_rows[OF assms(1)] gt by blast
qed

theorem calc_grid_size_most_square_witness:
  "0 < (36::nat) \<and> 4 * 9 = (36::nat) \<and> (4::nat) \<le> 9 \<and> 4 \<le> fst (calc_grid_size 36)"
  using calc_grid_size_most_square[of 36 4 9] by simp

text \<open>
  C21.  The defensive fallback \<open>return (1, num_frames)\<close> after the loop is reached
  exactly when \<open>num_frames = 0\<close> (then \<open>range(0, 0, -1)\<close> is empty), where it
  returns \<open>(1, 0)\<close>; for every positive count the loop returns.
\<close>

theorem calc_grid_size_fallback:
  "(calc_grid_loop n (isqrt n) = None) = (n = 0) \<and> calc_grid_size 0 = (1, 0)"
  by (simp add: calc_grid_loop_None_iff calc_grid_size_def)

text \<open>
  C20.  For a prime frame count the only exact grid is a single row:
  \<open>calc_grid_size p = (1, p)\<close>.
\<close>

theorem calc_grid_size_prime:
  assumes "1 < p" and "list_all (\<lambda>d. \<not> d dvd p) [2..<p]"
  shows "calc_grid_size p = (1, p)"
proof -
  obtain r c where rc: "calc_grid_size p = (r, c)" by (cases "calc_grid_size p")
  have p0: "0 < p" using assms(1) by simp
  from calc_grid_size_rows[OF p0] rc have r: "0 < r" "r dvd p" "c = p div r" by simp_all
  have "r * r \<le> p" using calc_grid_size_rows[OF p0] rc le_isqrt_iff by simp
  have "r \<noteq> p \<or> p = 1"
  proof (cases "r = p")
    case True
    with \<open>r * r \<le> p\<close> have "p * p \<le> p * 1" by simp
    then show ?thesis using p0 by simp
  qed simp
  then have "r < p" using r(2) assms(1) p0 by (auto dest: dvd_imp_le)
  then have "r = 1" using assms(2) r(1,2) by (cases "2 \<le> r") (auto simp: list_all_iff)
  with r(3) rc show ?thesis by simp
qed

theorem calc_grid_size_prime_witness:
  "1 < (7::nat) \<and> list_all (\<lambda>d. \<not> d dvd (7::nat)) [2..<7] \<and> calc_grid_size 7 = (1, 7)"
proof -
  have h: "list_all (\<lambda>d. \<not> d dvd (7::nat)) [2..<7]" by code_simp
  show ?thesis using calc_grid_size_prime[OF _ h] h by simp
qed


text \<open>The model of line 8: the digit-pair recursion \<open>isqrt\<close> is the floor of the real
  square root, for every \<open>n\<close>; this is what \<open>int(math.sqrt(n))\<close> computes wherever the
  double-precision square root is exact after truncation (every \<open>n < 2^52\<close>).\<close>

lemma isqrt_real: "isqrt n = nat \<lfloor>sqrt (real n)\<rfloor>"
proof (rule isqrt_unique)
  define k where "k = nat \<lfloor>sqrt (real n)\<rfloor>"
  have k_le: "real k \<le> sqrt (real n)" by (simp add: k_def)
  have k_gt: "sqrt (real n) < real k + 1" by (simp add: k_def)
  have sq: "sqrt (real n) * sqrt (real n) = real n" by simp
  have "real k * real k \<le> sqrt (real n) * sqrt (real n)"
    using k_le by (intro mult_mono) auto
  then have "real (k * k) \<le> real n" using sq by simp
  then show "k * k \<le> n" by (simp only: of_nat_le_iff)
  have "sqrt (real n) * sqrt (real n) < (real k + 1) * (real k + 1)"
    using k_gt by (intro mult_strict_mono) auto
  then have "real n < real (Suc k * Suc k)" using sq by (simp add: algebra_simps)
  then show "n < Suc k * Suc k" by (metis of_nat_less_iff)
qed

end
