(* ===== verification/FrameOrder.thy ===== *)
theory FrameOrder
  imports PyStr
begin

text \<open>
  Frame discovery and ordering: the extension filter of \<open>pack_spritesheet\<close> (line 25
  of src/flipbook_tool.py) and \<open>sort_image_files\<close> with its local \<open>extract_number\<close>
  (lines 15--21).  The key of a file name is its first run of decimal digits read as an
  integer, or \<open>float('inf')\<close> when it has none; the datatype \<open>sort_key\<close> is that
  union, ordered as Python compares an int with infinity.  Python's \<open>sorted\<close> is a stable
  sort; it is modelled by the library's stable insertion sort \<open>sort_key\<close>.  The lemmas
  connect the key to the names: a name built as a digit-free prefix, the decimal text of
  a number and a suffix gets that number, and a name without any digit gets
  \<open>float('inf')\<close>; so frames are ordered by their numbers, with ties in listing order.
\<close>

section \<open>Keys\<close>

datatype sort_key = Num nat | PosInf

instantiation sort_key :: linorder
begin

fun less_eq_sort_key :: "sort_key \<Rightarrow> sort_key \<Rightarrow> bool" where
  "less_eq_sort_key (Num a) (Num b) = (a \<le> b)"
| "less_eq_sort_key (Num a) PosInf = True"
| "less_eq_sort_key PosInf (Num b) = False"
| "less_eq_sort_key PosInf PosInf = True"

definition less_sort_key :: "sort_key \<Rightarrow> sort_key \<Rightarrow> bool" where
  "less_sort_key x y \<longleftrightarrow> x \<le> y \<and> \<not> y \<le> x"

instance
proof
  fix x y z :: sort_key
  show "(x < y) = (x \<le> y \<and> \<not> y \<le> x)" by (simp add: less_sort_key_def)
  show "x \<le> x" by (cases x) simp_all
  show "x \<le> y \<Longrightarrow> y \<le> z \<Longrightarrow> x \<le> z"
    by (cases x; cases y; cases z) simp_all
  show "x \<le> y \<Longrightarrow> y \<le> x \<Longrightarrow> x = y"
    by (cases x; cases y) simp_all
  show "x \<le> y \<or> y \<le> x"
    by (cases x; cases y) auto
qed

end

section \<open>extract_number and sort_image_files\<close>

text \<open>\<open>re.search(r'(\d+)', filename)\<close>: the leftmost match of a greedy \<open>\d+\<close> is the
  first maximal run of digits.\<close>

definition first_digit_run :: "string \<Rightarrow> string" where
  "first_digit_run s = takeWhile is_digit (dropWhile (\<lambda>c. \<not> is_digit c) s)"

definition extract_number :: "string \<Rightarrow> sort_key" where
  "extract_number filename =
     (let m = first_digit_run filename in if m = [] then PosInf else Num (nat_of_digits m))"

definition sort_image_files :: "string list \<Rightarrow> string list" where
  "sort_image_files image_files = sort_key extract_number image_files"

section \<open>The extension filter\<close>

definition image_extensions :: "string list" where
  "image_extensions = [''.png'', ''.jpg'', ''.jpeg'', ''.bmp'', ''.gif'']"

definition is_image_file :: "string \<Rightarrow> bool" where
  "is_image_file f \<longleftrightarrow> py_endswith (py_lower f) image_extensions"

definition list_image_files :: "string list \<Rightarrow> string list" where
  "list_image_files listing = filter is_image_file listing"

section \<open>Lemmas\<close>

lemma sort_key_Num_le [simp]: "Num a \<le> Num b \<longleftrightarrow> a \<le> b"
  by simp

lemma dropWhile_no_digits:
  "\<not> list_ex is_digit p \<Longrightarrow> dropWhile (\<lambda>c. \<not> is_digit c) (p @ s) = dropWhile (\<lambda>c. \<not> is_digit c) s"
  by (induction p) auto

lemma first_digit_run_append:
  assumes "\<not> list_ex is_digit p" and "ds \<noteq> []" and "list_all is_digit ds"
    and "s = [] \<or> \<not> is_digit (hd s)"
  shows "first_digit_run (p @ ds @ s) = ds"
proof -
  obtain d ds' where ds: "ds = d # ds'" using assms(2) by (cases ds) auto
  have "dropWhile (\<lambda>c. \<not> is_digit c) (p @ ds @ s) = ds @ s"
    using assms(1,3) ds by (simp add: dropWhile_no_digits)
  moreover have "takeWhile is_digit (ds @ s) = ds"
    using assms(3,4) by (cases s) (auto simp: list_all_iff takeWhile_append2)
  ultimately show ?thesis by (simp add: first_digit_run_def)
qed

lemma extract_number_run:
  assumes "\<not> list_ex is_digit p" and "ds \<noteq> []" and "list_all is_digit ds"
    and "s = [] \<or> \<not> is_digit (hd s)"
  shows "extract_number (p @ ds @ s) = Num (nat_of_digits ds)"
  using first_digit_run_append[OF assms] assms(2) by (simp add: extract_number_def)

lemma sort_key_map:
  "sort_key f (map g xs) = map g (sort_key (f \<circ> g) xs)"
proof -
  have ins: "insort_key f (g x) (map g ys) = map g (insort_key (f \<circ> g) x ys)" for x ys
    by (induction ys) auto
  show ?thesis by (induction xs) (simp_all add: ins o_def)
qed

lemma sort_key_Num: "sort_key (\<lambda>k. Num k) ks = sort ks"
proof -
  have ins: "insort_key (\<lambda>k. Num k) x ys = insort x ys" for x :: nat and ys
    by (induction ys) auto
  show ?thesis by (induction ks) (simp_all add: ins)
qed

lemma sort_key_PosInf_top [simp]: "k \<le> PosInf"
  by (cases k) simp_all

text \<open>A stable sort by a key with a greatest value puts the elements of that key last,
  in their input order.\<close>

lemma sort_key_top_last:
  fixes f :: "'a \<Rightarrow> 'b::linorder"
  assumes top: "\<And>y. f y \<le> t"
  shows "sort_key f xs = sort_key f (filter (\<lambda>x. f x \<noteq> t) xs) @ filter (\<lambda>x. f x = t) xs"
proof (induction xs)
  case Nil
  then show ?case by simp
next
  case (Cons x xs)
  let ?A = "sort_key f (filter (\<lambda>x. f x \<noteq> t) xs)" and ?B = "filter (\<lambda>x. f x = t) xs"
  have B: "\<forall>y\<in>set ?B. f y = t" by simp
  show ?case
  proof (cases "f x = t")
    case True
    have "\<forall>a\<in>set ?A. \<not> f x \<le> f a"
      using True top by (auto simp: antisym)
    then have "insort_key f x (?A @ ?B) = ?A @ insort_key f x ?B"
      by (rule insort_key_append_right)
    moreover have "insort_key f x ([] @ ?B) = insort_key f x [] @ ?B"
      using True by (intro insort_key_append_left) simp
    ultimately show ?thesis using Cons.IH True by simp
  next
    case False
    have "\<forall>y\<in>set ?B. f x \<le> f y" using B top by simp
    then have "insort_key f x (?A @ ?B) = insort_key f x ?A @ ?B"
      by (rule insort_key_append_left)
    then show ?thesis using Cons.IH False by simp
  qed
qed

lemma insort_key_cong:
  "\<forall>y\<in>set (x # ys). f y = g y \<Longrightarrow> insort_key f x ys = insort_key g x ys"
  by (induction ys) auto

lemma sort_key_cong: "(\<And>x. x \<in> set xs \<Longrightarrow> f x = g x) \<Longrightarrow> sort_key f xs = sort_key g xs"
proof (induction xs)
  case Nil
  then show ?case by simp
next
  case (Cons x xs)
  then have "sort_key f xs = sort_key g xs" by simp
  moreover have "\<forall>y\<in>set (x # sort_key g xs). f y = g y" using Cons.prems by simp
  ultimately show ?case by (simp add: insort_key_cong)
qed

lemma sort_key_Num_comp: "sort_key (\<lambda>x. Num (h x)) xs = sort_key h xs"
proof -
  have ins: "insort_key (\<lambda>x. Num (h x)) x ys = insort_key h x ys" for x ys
    by (induction ys) auto
  show ?thesis by (induction xs) (simp_all add: ins)
qed

text \<open>A name has the key \<open>float('inf')\<close> exactly when it has no digit at all.\<close>

lemma extract_number_PosInf_iff: "extract_number f = PosInf \<longleftrightarrow> \<not> list_ex is_digit f"
proof -
  have "first_digit_run f = [] \<longleftrightarrow> \<not> list_ex is_digit f"
    by (induction f) (simp_all add: first_digit_run_def)
  then show ?thesis by (simp add: extract_number_def Let_def)
qed

text \<open>Every accepted name ends, after \<open>lower()\<close>, in \<open>g\<close>, \<open>p\<close> or \<open>f\<close>.\<close>

lemma image_file_last:
  assumes "is_image_file f"
  shows "f \<noteq> [] \<and> lower_char (last f) \<in> {CHR ''g'', CHR ''p'', CHR ''f''}"
proof -
  obtain t where t: "t \<in> set image_extensions" "suffix t (map lower_char f)"
    using assms by (auto simp: is_image_file_def py_endswith_def py_lower_def list_ex_iff)
  have t_last: "t \<noteq> [] \<and> last t \<in> {CHR ''g'', CHR ''p'', CHR ''f''}"
    using t(1) by (auto simp: image_extensions_def)
  from t(2) obtain u where u: "map lower_char f = u @ t" by (auto simp: suffix_def)
  then have "f \<noteq> []" using t_last by auto
  moreover have "lower_char (last f) = last t"
    using u t_last \<open>f \<noteq> []\<close> by (metis last_appendR last_map)
  ultimately show ?thesis using t_last by simp
qed

section \<open>Properties of the frame orderer\<close>

text \<open>
  C6.  Frames are ordered by the number in their names: for names built as a prefix
  without digits, the decimal text of a number and a suffix that does not go on with a
  digit (\<open>frame_12.png\<close>, \<open>walk10.gif\<close>), \<open>sort_image_files\<close> orders them as the stable
  sort of the numbers does, so names with the same number keep their listing order.
\<close>

theorem sort_image_files_numeric:
  assumes "list_all (\<lambda>(p, n, s). \<not> list_ex is_digit p \<and> (s = [] \<or> \<not> is_digit (hd s))) xs"
  shows "sort_image_files (map (\<lambda>(p, n, s). p @ str_of_nat n @ s) xs)
           = map (\<lambda>(p, n, s). p @ str_of_nat n @ s) (sort_key (\<lambda>(p, n, s). n) xs)"
proof -
  let ?g = "\<lambda>(p, n, s). p @ str_of_nat n @ s" and ?h = "\<lambda>(p :: string, n :: nat, s :: string). n"
  have "extract_number (?g x) = Num (?h x)" if "x \<in> set xs" for x
  proof -
    obtain p n s where x: "x = (p, n, s)" by (cases x) auto
    have "\<not> list_ex is_digit p" "s = [] \<or> \<not> is_digit (hd s)"
      using assms that x by (auto simp: list_all_iff)
    then show ?thesis
      using extract_number_run[of p "str_of_nat n" s] str_of_nat_all_digits[of n]
      by (simp add: x str_of_nat_digits)
  qed
  then have "sort_key (extract_number \<circ> ?g) xs = sort_key (\<lambda>x. Num (?h x)) xs"
    by (intro sort_key_cong) simp
  then show ?thesis by (simp add: sort_image_files_def sort_key_map sort_key_Num_comp)
qed

theorem sort_image_files_numeric_witness:
  "list_all (\<lambda>(p, n, s). \<not> list_ex is_digit p \<and> (s = [] \<or> \<not> is_digit (hd s)))
     [(''walk'', 10, ''.png''), (''walk'', 2, ''.png''), (''run'', 2, ''.gif'')]
   \<and> sort_image_files [''walk10.png'', ''walk2.png'', ''run2.gif''] = [''walk2.png'', ''run2.gif'', ''walk10.png'']"
proof -
  let ?xs = "[(''walk'', 10::nat, ''.png''), (''walk'', 2, ''.png''), (''run'', 2, ''.gif'')]"
  have h: "list_all (\<lambda>(p, n, s). \<not> list_ex is_digit p \<and> (s = [] \<or> \<not> is_digit (hd s))) ?xs"
    by (simp add: is_digit_def)
  have e1: "map (\<lambda>(p, n, s). p @ str_of_nat n @ s) ?xs = [''walk10.png'', ''walk2.png'', ''run2.gif'']"
    by code_simp
  have e2: "map (\<lambda>(p, n, s). p @ str_of_nat n @ s) (sort_key (\<lambda>(p, n, s). n) ?xs)
      = [''walk2.png'', ''run2.gif'', ''walk10.png'']"
    by code_simp
  show ?thesis using sort_image_files_numeric[OF h] h unfolding e1 e2 by simp
qed

text \<open>
  C11.  The key of a name \<open>p @ ds @ s\<close>, whose prefix \<open>p\<close> has no digit, \<open>ds\<close> is the
  decimal text of \<open>n\<close> (possibly zero-padded) and \<open>s\<close> does not continue with a digit,
  is \<open>n\<close>: printing an index into a file name and extracting it back is the identity.
\<close>

theorem extract_number_roundtrip:
  assumes "\<not> list_ex is_digit p" and "s = [] \<or> \<not> is_digit (hd s)"
  shows "extract_number (p @ replicate z CHR ''0'' @ str_of_nat n @ s) = Num n"
proof -
  have "list_all is_digit (replicate z CHR ''0'')"
    by (induction z) (simp_all add: is_digit_def)
  then have "list_all is_digit (replicate z CHR ''0'' @ str_of_nat n)"
    using str_of_nat_all_digits[of n] by simp
  then show ?thesis
    using extract_number_run[OF assms(1) _ _ assms(2), of "replicate z CHR ''0'' @ str_of_nat n"]
    by (simp add: str_of_nat_digits)
qed

theorem extract_number_roundtrip_witness:
  "\<not> list_ex is_digit ''frame_'' \<and> (''.png'' = [] \<or> \<not> is_digit (hd ''.png''))
   \<and> extract_number (''frame_'' @ replicate 2 CHR ''0'' @ str_of_nat 42 @ ''.png'') = Num 42"
proof -
  have p: "\<not> list_ex is_digit ''frame_''" by (simp add: is_digit_def)
  have s: "''.png'' = [] \<or> \<not> is_digit (hd ''.png'')" by (simp add: is_digit_def)
  show ?thesis using extract_number_roundtrip[OF p s, of 2 42] p s by simp
qed

text \<open>
  C30.  Names without any digit get the key \<open>float('inf')\<close> and so come after every
  numbered frame, in the order \<open>os.listdir\<close> gave them; the numbered frames before them
  are sorted among themselves.
\<close>

theorem sort_image_files_unnumbered_last:
  "sort_image_files fs
     = sort_image_files (filter (\<lambda>f. list_ex is_digit f) fs) @ filter (\<lambda>f. \<not> list_ex is_digit f) fs"
proof -
  have "sort_key extract_number fs
      = sort_key extract_number (filter (\<lambda>f. extract_number f \<noteq> PosInf) fs)
        @ filter (\<lambda>f. extract_number f = PosInf) fs"
    by (rule sort_key_top_last) simp
  then show ?thesis by (simp add: sort_image_files_def extract_number_PosInf_iff)
qed

end
