(* ===== verification/Pack.thy ===== *)
theory Pack
  imports World Grid FrameOrder
begin

text \<open>
  The packer, \<open>pack_spritesheet\<close> of src/flipbook_tool.py (lines 23--58): list the
  folder, keep the image files, stop with a message if there are none, order them, read
  the frame size from the first, plan the grid, paste every frame at
  \<open>((index % cols) * fw, (index // cols) * fh)\<close> of a transparent RGBA canvas, and save
  it as \<open>flipbook_{rows}x{cols}.tga\<close> in the same folder.  \<open>paste_images\<close> is the
  loop of lines 48--52 (it opens each file, so it can raise); \<open>paste_frames\<close> is the
  same loop on images already opened.  \<open>grid_image\<close> is the abstract specification of
  the sheet (frame \<open>k\<close> occupies cell \<open>(k mod cols, k div cols)\<close>), and
  \<open>paste_frames_grid_image\<close> is the refinement: for frames of one size the loop builds
  exactly that image.
\<close>

section \<open>Definitions\<close>

fun paste_frames :: "nat \<Rightarrow> nat \<Rightarrow> nat \<Rightarrow> nat \<Rightarrow> image \<Rightarrow> image list \<Rightarrow> image" where
  "paste_frames cols fw fh index sheet [] = sheet"
| "paste_frames cols fw fh index sheet (img # imgs) =
     paste_frames cols fw fh (Suc index)
       (paste sheet img ((index mod cols) * fw) ((index div cols) * fh)) imgs"

fun paste_images ::
  "string \<Rightarrow> nat \<Rightarrow> nat \<Rightarrow> nat \<Rightarrow> nat \<Rightarrow> image \<Rightarrow> string list \<Rightarrow> image act" where
  "paste_images folder cols fw fh index sheet [] = act_return sheet"
| "paste_images folder cols fw fh index sheet (f # fs) =
     act_bind (image_open (py_join folder f)) (\<lambda>img.
       paste_images folder cols fw fh (Suc index)
         (paste sheet img ((index mod cols) * fw) ((index div cols) * fh)) fs)"

definition output_filename :: "nat \<Rightarrow> nat \<Rightarrow> string" where
  "output_filename rows cols = ''flipbook_'' @ str_of_nat rows @ ''x'' @ str_of_nat cols @ ''.tga''"

definition no_images_msg :: string where
  "no_images_msg = ''No images found in the specified folder.''"

definition pack_spritesheet :: "string \<Rightarrow> unit act" where
  "pack_spritesheet folder_path =
     act_bind (os_listdir folder_path) (\<lambda>listing.
       let image_files = list_image_files listing;
           num_frames = length image_files
       in if num_frames = 0 then py_print no_images_msg
       else
         let image_files = sort_image_files image_files in
         act_bind (image_open (py_join folder_path (hd image_files))) (\<lambda>first_image.
           let frame_width = width first_image;
               frame_height = height first_image
           in case calc_grid_size num_frames of (rows, cols) \<Rightarrow>
             let spritesheet = new_image (cols * frame_width) (rows * frame_height) in
             act_bind (paste_images folder_path cols frame_width frame_height 0 spritesheet image_files)
               (\<lambda>spritesheet.
                  let output_filename = output_filename rows cols in
                  act_bind (image_save spritesheet folder_path output_filename) (\<lambda>_.
                    py_print (''Spritesheet created at: '' @ py_join folder_path output_filename)))))"

text \<open>The images the loop opens, read without running it: the first failing open's
  exception, or all images in order.\<close>

fun load_images :: "world \<Rightarrow> string \<Rightarrow> string list \<Rightarrow> image list py" where
  "load_images w folder [] = Inr []"
| "load_images w folder (f # fs) =
     py_bind (fst (image_open (py_join folder f) w)) (\<lambda>im.
       py_bind (load_images w folder fs) (\<lambda>ims. Inr (im # ims)))"

text \<open>The specification of the sheet: pixel \<open>(i, j)\<close> inside the canvas belongs to cell
  \<open>cell_index\<close> and shows that frame's pixel at the offset inside the cell.\<close>

definition cell_index :: "nat \<Rightarrow> nat \<Rightarrow> nat \<Rightarrow> nat \<Rightarrow> nat \<Rightarrow> nat" where
  "cell_index cols fw fh i j = (j div fh) * cols + i div fw"

definition grid_image :: "nat \<Rightarrow> nat \<Rightarrow> nat \<Rightarrow> nat \<Rightarrow> image list \<Rightarrow> image" where
  "grid_image rows cols fw fh frames =
     \<lparr>width = cols * fw, height = rows * fh,
      px = (\<lambda>i j. if i < cols * fw \<and> j < rows * fh \<and> cell_index cols fw fh i j < length frames
                  then px (frames ! cell_index cols fw fh i j) (i mod fw) (j mod fh)
                  else transparent)\<rparr>"

definition uniform_frames :: "nat \<Rightarrow> nat \<Rightarrow> image list \<Rightarrow> bool" where
  "uniform_frames fw fh frames \<longleftrightarrow> list_all (\<lambda>f. width f = fw \<and> height f = fh \<and> wf_image f) frames"

text \<open>Example data: two colours and three folders of frames.\<close>

definition red :: rgba where "red = (255, 0, 0, 255)"
definition blue :: rgba where "blue = (0, 0, 255, 255)"

definition pack_example_world :: world where
  "pack_example_world =
     \<lparr>dirs = [''f'' \<mapsto> [''b2.png'', ''a1.png'']],
      files = [''f/a1.png'' \<mapsto> ImageFile (solid 1 1 red), ''f/b2.png'' \<mapsto> ImageFile (solid 1 1 blue)],
      stdout = []\<rparr>"

text \<open>A folder whose second frame is not an image Pillow can decode, and a folder whose
  frames differ in size.\<close>

definition bad_frame_world :: world where
  "bad_frame_world =
     \<lparr>dirs = [''f'' \<mapsto> [''b2.png'', ''notes.txt'', ''a1.png'']],
      files = [''f/a1.png'' \<mapsto> ImageFile (solid 1 1 red), ''f/b2.png'' \<mapsto> OtherFile,
               ''f/notes.txt'' \<mapsto> OtherFile],
      stdout = []\<rparr>"

definition subdir_world :: world where
  "subdir_world =
     \<lparr>dirs = [''f'' \<mapsto> [''b2.png'', ''a1.png''], ''f/b2.png'' \<mapsto> []],
      files = [''f/a1.png'' \<mapsto> ImageFile (solid 1 1 red)],
      stdout = []\<rparr>"

definition mixed_sizes_world :: world where
  "mixed_sizes_world =
     \<lparr>dirs = [''f'' \<mapsto> [''b2.png'', ''a1.png'']],
      files = [''f/a1.png'' \<mapsto> ImageFile (solid 1 1 red), ''f/b2.png'' \<mapsto> ImageFile (solid 2 2 blue)],
      stdout = []\<rparr>"

section \<open>Cell arithmetic\<close>

lemma div_eq_iff_bounds:
  fixes i d q :: nat
  assumes "0 < d"
  shows "i div d = q \<longleftrightarrow> q * d \<le> i \<and> i < q * d + d"
proof
  assume "i div d = q"
  then show "q * d \<le> i \<and> i < q * d + d"
    using assms by (metis div_times_less_eq_dividend dividend_less_div_times add.commute)
next
  assume "q * d \<le> i \<and> i < q * d + d"
  then show "i div d = q"
    using assms by (intro div_nat_eqI) (simp_all add: mult.commute)
qed

lemma in_box_cell:
  assumes "0 < fw" and "0 < fh"
  shows "in_box ((n mod c) * fw) ((n div c) * fh) fw fh i j \<longleftrightarrow>
           i div fw = n mod c \<and> j div fh = n div c"
  using div_eq_iff_bounds[OF assms(1), of i "n mod c"] div_eq_iff_bounds[OF assms(2), of j "n div c"]
  by (auto simp: in_box_def)

lemma cell_index_eq_iff:
  assumes "0 < fw" and "0 < fh" and "i < c * fw"
  shows "cell_index c fw fh i j = n \<longleftrightarrow> i div fw = n mod c \<and> j div fh = n div c"
proof -
  have lt: "i div fw < c" using assms(1,3) by (simp add: div_less_iff_less_mult mult.commute)
  then have c0: "0 < c" by simp
  show ?thesis
  proof
    assume "cell_index c fw fh i j = n"
    then have n: "n = (j div fh) * c + i div fw" by (simp add: cell_index_def)
    show "i div fw = n mod c \<and> j div fh = n div c"
      using lt c0 by (simp add: n)
  next
    assume "i div fw = n mod c \<and> j div fh = n div c"
    then show "cell_index c fw fh i j = n"
      by (simp add: cell_index_def)
  qed
qed

lemma cell_offsets:
  fixes i j fw fh a b :: nat
  assumes "i div fw = a" and "j div fh = b"
  shows "i - a * fw = i mod fw \<and> j - b * fh = j mod fh"
  using assms minus_div_mult_eq_mod[of i fw] minus_div_mult_eq_mod[of j fh] by simp

section \<open>The paste loop\<close>

lemma paste_frames_snoc:
  "paste_frames c fw fh idx sheet (xs @ [x]) =
     paste (paste_frames c fw fh idx sheet xs) x (((idx + length xs) mod c) * fw) (((idx + length xs) div c) * fh)"
  by (induction xs arbitrary: idx sheet) simp_all

lemma paste_frames_size [simp]:
  "width (paste_frames c fw fh idx sheet xs) = width sheet"
  "height (paste_frames c fw fh idx sheet xs) = height sheet"
  by (induction xs arbitrary: idx sheet) simp_all

lemma wf_paste_frames: "wf_image sheet \<Longrightarrow> wf_image (paste_frames c fw fh idx sheet xs)"
  by (induction xs arbitrary: idx sheet) (simp_all add: wf_paste)

lemma paste_images_load:
  "paste_images folder c fw fh idx sheet fs w =
     (case load_images w folder fs of
        Inl e \<Rightarrow> (Inl e, w)
      | Inr ims \<Rightarrow> (Inr (paste_frames c fw fh idx sheet ims), w))"
proof (induction fs arbitrary: idx sheet)
  case Nil
  then show ?case by simp
next
  case (Cons f fs)
  show ?case
  proof (cases "image_open (py_join folder f) w")
    case (Pair r w')
    then have w': "w' = w" using image_open_world[of "py_join folder f" w] by simp
    show ?thesis
    proof (cases r)
      case (Inl e)
      then show ?thesis using Pair w' by simp
    next
      case (Inr im)
      then show ?thesis using Pair w' Cons.IH by (simp split: sum.splits)
    qed
  qed
qed

lemma grid_image_Nil: "grid_image rows cols fw fh [] = new_image (cols * fw) (rows * fh)"
  by (simp add: grid_image_def new_image_def)

lemma px_grid_image:
  "px (grid_image rows cols fw fh frames) i j =
     (if i < cols * fw \<and> j < rows * fh \<and> cell_index cols fw fh i j < length frames
      then px (frames ! cell_index cols fw fh i j) (i mod fw) (j mod fh) else transparent)"
  by (simp add: grid_image_def)

lemma grid_image_size [simp]:
  "width (grid_image rows cols fw fh frames) = cols * fw"
  "height (grid_image rows cols fw fh frames) = rows * fh"
  by (simp_all add: grid_image_def)

lemma paste_grid_step:
  assumes fw: "0 < fw" and fh: "0 < fh" and x: "width x = fw" "height x = fh"
  shows "paste (grid_image rows cols fw fh xs) x
           ((length xs mod cols) * fw) ((length xs div cols) * fh)
         = grid_image rows cols fw fh (xs @ [x])"
    (is "paste ?g x ?x0 ?y0 = ?g'")
proof -
  let ?n = "length xs"
  have "px (paste ?g x ?x0 ?y0) i j = px ?g' i j" for i j
  proof (cases "i < cols * fw \<and> j < rows * fh")
    case True
    then have i: "i < cols * fw" by simp
    show ?thesis
    proof (cases "in_box ?x0 ?y0 fw fh i j")
      case inb: True
      then have d: "i div fw = ?n mod cols" "j div fh = ?n div cols"
        using in_box_cell[OF fw fh] by blast+
      then have k: "cell_index cols fw fh i j = ?n"
        using cell_index_eq_iff[OF fw fh i] by blast
      have "i - ?x0 = i mod fw" "j - ?y0 = j mod fh"
        using cell_offsets[OF d] by simp_all
      then show ?thesis using True inb k x by (simp add: px_paste px_grid_image)
    next
      case outb: False
      then have "cell_index cols fw fh i j \<noteq> ?n"
        using in_box_cell[OF fw fh] cell_index_eq_iff[OF fw fh i] by blast
      then show ?thesis using True outb x
        by (simp add: px_paste px_grid_image nth_append less_Suc_eq)
    qed
  next
    case False
    then show ?thesis by (auto simp: px_paste px_grid_image)
  qed
  then have "px (paste ?g x ?x0 ?y0) = px ?g'" by (intro ext)
  then show ?thesis by (simp add: paste_def grid_image_def)
qed

lemma paste_frames_grid_image:
  assumes "0 < fw" and "0 < fh" and "uniform_frames fw fh frames"
  shows "paste_frames cols fw fh 0 (new_image (cols * fw) (rows * fh)) frames
         = grid_image rows cols fw fh frames"
  using assms(3)
proof (induction frames rule: rev_induct)
  case Nil
  then show ?case by (simp add: grid_image_Nil)
next
  case (snoc x xs)
  then have "uniform_frames fw fh xs" "width x = fw" "height x = fh"
    by (simp_all add: uniform_frames_def)
  with snoc.IH show ?case
    using paste_grid_step[OF assms(1,2)] by (simp add: paste_frames_snoc)
qed

lemma crop_grid_image:
  assumes fw: "0 < fw" and fh: "0 < fh" and u: "uniform_frames fw fh frames"
    and k: "k < length frames" and len: "length frames \<le> rows * cols"
  shows "crop (grid_image rows cols fw fh frames)
           (int ((k mod cols) * fw)) (int ((k div cols) * fh))
           (int ((k mod cols) * fw) + int fw) (int ((k div cols) * fh) + int fh)
         = Inr (frames ! k)"
proof -
  let ?g = "grid_image rows cols fw fh frames"
  let ?x0 = "(k mod cols) * fw" and ?y0 = "(k div cols) * fh"
  have kc: "k < rows * cols" using k len by simp
  then have c0: "0 < cols" by (cases cols) simp_all
  have col: "k mod cols < cols" using c0 by simp
  have row: "k div cols < rows" using kc c0 by (simp add: div_less_iff_less_mult)
  have fk: "width (frames ! k) = fw" "height (frames ! k) = fh" "wf_image (frames ! k)"
    using u k by (simp_all add: uniform_frames_def list_all_length)
  note cb = crop_nat_box[of ?g ?x0 ?y0 fw fh]
  obtain c where c: "crop ?g (int ?x0) (int ?y0) (int ?x0 + int fw) (int ?y0 + int fh) = Inr c"
    using cb by blast
  have csz: "width c = fw" "height c = fh" using c cb by auto
  have "px c i j = px (frames ! k) i j" if ij: "i < fw" "j < fh" for i j
  proof -
    have xi: "(?x0 + i) div fw = k mod cols" "(?y0 + j) div fh = k div cols"
      using ij fw fh by (simp_all add: div_eq_iff_bounds)
    have xin: "?x0 + i < cols * fw"
    proof -
      have "?x0 + i < Suc (k mod cols) * fw" using ij by simp
      also have "\<dots> \<le> cols * fw" using col by (intro mult_le_mono1) simp
      finally show ?thesis .
    qed
    have yin: "?y0 + j < rows * fh"
    proof -
      have "?y0 + j < Suc (k div cols) * fh" using ij by simp
      also have "\<dots> \<le> rows * fh" using row by (intro mult_le_mono1) simp
      finally show ?thesis .
    qed
    have ci: "cell_index cols fw fh (?x0 + i) (?y0 + j) = k"
      using cell_index_eq_iff[OF fw fh xin] xi by blast
    have "(?x0 + i) mod fw = i" "(?y0 + j) mod fh = j" using ij by simp_all
    then have "px ?g (?x0 + i) (?y0 + j) = px (frames ! k) i j"
      using xin yin ci k by (simp add: px_grid_image)
    then show ?thesis
      using c cb ij xin yin by auto
  qed
  then have "c = frames ! k"
    using wf_crop[OF c] fk csz by (intro image_eqI) simp_all
  with c show ?thesis by simp
qed

lemma load_images_Cons_Inr:
  assumes "load_images w folder (f # fs) = Inr ims"
  shows "\<exists>im ims'. ims = im # ims' \<and> image_open (py_join folder f) w = (Inr im, w)
           \<and> load_images w folder fs = Inr ims'"
proof (cases "image_open (py_join folder f) w")
  case (Pair r w')
  then have w': "w' = w" using image_open_world[of "py_join folder f" w] by simp
  with Pair assms show ?thesis by (cases r) (auto simp: py_bind_eq_Inr)
qed

lemma load_images_length: "load_images w folder fs = Inr ims \<Longrightarrow> length ims = length fs"
proof (induction fs arbitrary: ims)
  case (Cons f fs)
  then obtain im ims' where "ims = im # ims'" "load_images w folder fs = Inr ims'"
    by (blast dest: load_images_Cons_Inr)
  with Cons.IH show ?case by simp
qed simp

lemma load_images_error:
  "load_images w folder fs = Inl e \<Longrightarrow> e \<in> {FileNotFoundError, IsADirectoryError, UnidentifiedImageError}"
proof (induction fs)
  case (Cons f fs)
  then show ?case
    by (cases "fst (image_open (py_join folder f) w)")
       (auto simp: image_open_def py_bind_eq_Inl split: option.splits entry.splits if_splits)
qed simp

text \<open>The packer when a frame cannot be opened: the exception of the first such frame,
  and the world as it was.\<close>

lemma pack_run_fail:
  assumes listing: "dirs w folder = Some listing"
    and fs: "fs = sort_image_files (list_image_files listing)" and ne: "fs \<noteq> []"
    and load: "load_images w folder fs = Inl e"
  shows "pack_spritesheet folder w = (Inl e, w)"
proof -
  obtain f fs' where fcons: "fs = f # fs'" using ne by (cases fs) auto
  have n: "length (list_image_files listing) = length fs" by (simp add: fs sort_image_files_def)
  have ne': "list_image_files listing \<noteq> []" using n ne by auto
  have hd: "hd fs = f" by (simp add: fcons)
  obtain r where op: "image_open (py_join folder f) w = (r, w)"
    using image_open_world[of "py_join folder f" w] by (metis prod.collapse)
  show ?thesis
  proof (cases r)
    case (Inl e')
    then have "e' = e" using load fcons op by simp
    then show ?thesis using listing ne' n op Inl hd
      by (simp add: pack_spritesheet_def os_listdir_def fs[symmetric] Let_def)
  next
    case (Inr im)
    have "paste_images folder c fw fh 0 sheet fs w = (Inl e, w)" for c fw fh sheet
      using load by (simp add: paste_images_load)
    then show ?thesis using listing ne' n op Inr hd
      by (simp add: pack_spritesheet_def os_listdir_def fs[symmetric] Let_def split: prod.split)
  qed
qed

text \<open>The packer on any frames it can open: the cells are sized after the first frame,
  whatever the sizes of the others.\<close>

lemma pack_run_any:
  assumes listing: "dirs w folder = Some listing"
    and fs: "fs = sort_image_files (list_image_files listing)" and ne: "fs \<noteq> []"
    and load: "load_images w folder fs = Inr ims"
    and grid: "calc_grid_size (length fs) = (rows, cols)"
    and out: "\<not> is_dir w (py_join folder (output_filename rows cols))"
  shows "pack_spritesheet folder w =
           (Inr (), w\<lparr>files := (files w)(py_join folder (output_filename rows cols) \<mapsto>
                        ImageFile (paste_frames cols (width (hd ims)) (height (hd ims)) 0
                          (new_image (cols * width (hd ims)) (rows * height (hd ims))) ims)),
                      dirs := (dirs w)(folder \<mapsto> (if output_filename rows cols \<in> set listing then listing
                                                      else listing @ [output_filename rows cols])),
                      stdout := stdout w @ [''Spritesheet created at: '' @ py_join folder (output_filename rows cols)]\<rparr>)"
proof -
  obtain f fs' where fcons: "fs = f # fs'" using ne by (cases fs) auto
  from load fcons obtain im ims' where ims: "ims = im # ims'"
    and op: "image_open (py_join folder f) w = (Inr im, w)"
    using load_images_Cons_Inr by blast
  let ?fw = "width im" and ?fh = "height im"
  let ?sheet = "paste_frames cols ?fw ?fh 0 (new_image (cols * ?fw) (rows * ?fh)) ims"
  have n: "length (list_image_files listing) = length fs" by (simp add: fs sort_image_files_def)
  have paste: "paste_images folder cols ?fw ?fh 0 (new_image (cols * ?fw) (rows * ?fh)) fs w = (Inr ?sheet, w)"
    using load by (simp add: paste_images_load)
  let ?out = "output_filename rows cols"
  let ?w' = "w\<lparr>files := (files w)(py_join folder ?out \<mapsto> ImageFile ?sheet),
               dirs := (dirs w)(folder \<mapsto> (if ?out \<in> set listing then listing else listing @ [?out]))\<rparr>"
  have save: "image_save ?sheet folder ?out w = (Inr (), ?w')"
    using out listing by (simp add: image_save_def)
  have ne': "list_image_files listing \<noteq> []" using n ne by auto
  have hd: "hd fs = f" by (simp add: fcons)
  have "pack_spritesheet folder w =
      py_print (''Spritesheet created at: '' @ py_join folder ?out) ?w'"
    using listing ne' n op grid paste save hd
    by (simp add: pack_spritesheet_def os_listdir_def fs[symmetric] Let_def)
  then show ?thesis by (simp add: py_print_def ims)
qed

lemma pack_run:
  assumes listing: "dirs w folder = Some listing"
    and fs: "fs = sort_image_files (list_image_files listing)" and ne: "fs \<noteq> []"
    and load: "load_images w folder fs = Inr ims"
    and uni: "uniform_frames fw fh ims" and fw: "0 < fw" and fh: "0 < fh"
    and grid: "calc_grid_size (length fs) = (rows, cols)"
    and out: "\<not> is_dir w (py_join folder (output_filename rows cols))"
  shows "pack_spritesheet folder w =
           (Inr (), w\<lparr>files := (files w)(py_join folder (output_filename rows cols) \<mapsto> ImageFile (grid_image rows cols fw fh ims)),
                      dirs := (dirs w)(folder \<mapsto> (if output_filename rows cols \<in> set listing then listing
                                                      else listing @ [output_filename rows cols])),
                      stdout := stdout w @ [''Spritesheet created at: '' @ py_join folder (output_filename rows cols)]\<rparr>)"
proof -
  have "ims \<noteq> []" using load_images_length[OF load] ne by auto
  then have "width (hd ims) = fw" "height (hd ims) = fh"
    using uni by (cases ims; simp add: uniform_frames_def)+
  then show ?thesis
    using pack_run_any[OF listing fs ne load grid out] paste_frames_grid_image[OF fw fh uni] by simp
qed

text \<open>The sheet is not an image file of the filter (\<open>.tga\<close> is not in the list), and its
  path differs from that of every image file of the same folder: the two end in different
  characters.\<close>

lemma output_filename_last: "output_filename r c \<noteq> [] \<and> last (output_filename r c) = CHR ''a''"
  by (simp add: output_filename_def)

lemma lower_char_a: "lower_char CHR ''a'' = CHR ''a''"
  by (simp add: lower_char_def)

lemma output_filename_not_image: "\<not> is_image_file (output_filename r c)"
  using image_file_last[of "output_filename r c"] output_filename_last[of r c] lower_char_a by auto

lemma image_file_path_neq:
  assumes "is_image_file f"
  shows "py_join folder f \<noteq> py_join folder (output_filename r c)"
proof
  assume eq: "py_join folder f = py_join folder (output_filename r c)"
  have "f \<noteq> []" "lower_char (last f) \<in> {CHR ''g'', CHR ''p'', CHR ''f''}"
    using image_file_last[OF assms] by simp_all
  moreover have "last f = CHR ''a''"
    using eq last_py_join[of f folder] last_py_join[of "output_filename r c" folder] output_filename_last[of r c]
      \<open>f \<noteq> []\<close> by simp
  ultimately show False using lower_char_a by simp
qed

lemma load_images_cong:
  assumes "\<And>p. is_dir w' p = is_dir w p"
    and "\<And>f. f \<in> set fs \<Longrightarrow> files w' (py_join folder f) = files w (py_join folder f)"
  shows "load_images w' folder fs = load_images w folder fs"
  using assms(2)
proof (induction fs)
  case (Cons f fs)
  have "fst (image_open (py_join folder f) w') = fst (image_open (py_join folder f) w)"
    using Cons.prems assms(1) by (simp add: image_open_def split: option.split entry.split)
  with Cons show ?case by simp
qed simp

lemma set_sort_image_files [simp]: "set (sort_image_files fs) = set fs"
  by (simp add: sort_image_files_def)

text \<open>Packing again a world whose files and directories are those a first pack left:
  the same listing, frames and grid, so the same sheet, and only the output grows.\<close>

lemma repack_run:
  assumes listing: "dirs w folder = Some listing"
    and fs: "fs = sort_image_files (list_image_files listing)" and ne: "fs \<noteq> []"
    and load: "load_images w folder fs = Inr ims"
    and uni: "uniform_frames fw fh ims" and fw: "0 < fw" and fh: "0 < fh"
    and grid: "calc_grid_size (length fs) = (rows, cols)"
    and out: "\<not> is_dir w (py_join folder (output_filename rows cols))"
    and vf: "files v = (files w)(py_join folder (output_filename rows cols) \<mapsto> ImageFile (grid_image rows cols fw fh ims))"
    and vd: "dirs v = (dirs w)(folder \<mapsto> (if output_filename rows cols \<in> set listing then listing
                                         else listing @ [output_filename rows cols]))"
  shows "pack_spritesheet folder v
           = (Inr (), v\<lparr>stdout := stdout v @ [''Spritesheet created at: '' @ py_join folder (output_filename rows cols)]\<rparr>)"
proof -
  let ?out = "output_filename rows cols" and ?G = "grid_image rows cols fw fh ims"
  let ?sp = "py_join folder ?out"
  define L1 where "L1 = (if ?out \<in> set listing then listing else listing @ [?out])"
  have l1: "dirs v folder = Some L1" by (simp add: vd L1_def)
  have "list_image_files L1 = list_image_files listing"
    by (simp add: L1_def list_image_files_def output_filename_not_image)
  then have f1: "fs = sort_image_files (list_image_files L1)" by (simp add: fs)
  have isd: "is_dir v p = is_dir w p" for p using listing by (auto simp: vd is_dir_def)
  have "files v (py_join folder f) = files w (py_join folder f)" if "f \<in> set fs" for f
  proof -
    have "is_image_file f" using that by (simp add: fs list_image_files_def)
    then show ?thesis by (simp add: vf image_file_path_neq)
  qed
  then have ld1: "load_images v folder fs = Inr ims"
    using load load_images_cong[of v w fs folder] isd by simp
  have o1: "\<not> is_dir v ?sp" using out isd by simp
  have p2: "pack_spritesheet folder v =
      (Inr (), v\<lparr>files := (files v)(?sp \<mapsto> ImageFile ?G),
                   dirs := (dirs v)(folder \<mapsto> (if ?out \<in> set L1 then L1 else L1 @ [?out])),
                   stdout := stdout v @ [''Spritesheet created at: '' @ ?sp]\<rparr>)"
    by (rule pack_run[OF l1 f1 ne ld1 uni fw fh grid o1])
  have "(files v)(?sp \<mapsto> ImageFile ?G) = files v" by (simp add: vf)
  moreover have "?out \<in> set L1" by (simp add: L1_def)
  moreover have "(dirs v)(folder \<mapsto> L1) = dirs v" using l1 by (rule fun_upd_idem)
  ultimately show ?thesis using p2 by simp
qed

text \<open>The packer only makes the world evolve: the pasting loop returns a well-formed
  sheet, so the sheet it saves keeps the world invariant.\<close>

lemma ensures_paste_images:
  "wf_image sheet \<Longrightarrow> ensures wf_image (paste_images folder cols fw fh index sheet fs)"
proof (induction fs arbitrary: index sheet)
  case Nil
  then show ?case by (simp only: paste_images.simps ensures_return)
next
  case (Cons f fs)
  show ?case
    unfolding paste_images.simps
    by (intro ensures_bind_any ensures_open Cons.IH wf_paste Cons.prems)
qed

lemma ensures_pack_spritesheet: "ensures (\<lambda>_. True) (pack_spritesheet folder)"
  unfolding pack_spritesheet_def Let_def
  by (intro ensures_bind[OF ensures_paste_images] ensures_intros wf_new_image) simp_all

lemma load_images_map:
  "(\<And>x. x \<in> set xs \<Longrightarrow> files w (py_join folder (f x)) = Some (ImageFile (g x)))
   \<Longrightarrow> load_images w folder (map f xs) = Inr (map g xs)"
  by (induction xs) (simp_all add: image_open_def)

lemma wf_grid_image: "wf_image (grid_image rows cols fw fh frames)"
  by (simp add: wf_image_def grid_image_def)

text \<open>The packer writes only the folder's listing and the sheet file in it.\<close>

lemma writes_paste_images: "writes_within S (paste_images folder cols fw fh index sheet fs)"
  by (induction fs arbitrary: index sheet) (simp_all add: writes_intros)

lemma writes_pack_spritesheet:
  "writes_within (\<lambda>q. q = folder \<or> (\<exists>r c. q = py_join folder (output_filename r c))) (pack_spritesheet folder)"
  unfolding pack_spritesheet_def Let_def
  by (intro writes_intros writes_paste_images) auto

section \<open>Facts of the example data\<close>

lemma example_listing_order:
  "[''a1.png'', ''b2.png''] = sort_image_files (list_image_files [''b2.png'', ''a1.png''])
   \<and> [''a1.png'', ''b2.png''] = sort_image_files (list_image_files [''b2.png'', ''notes.txt'', ''a1.png''])"
  by (simp add: list_image_files_def is_image_file_def py_endswith_def image_extensions_def
        py_lower_def lower_char_def suffix_to_prefix sort_image_files_def extract_number_def
        first_digit_run_def is_digit_def nat_of_digits_def digit_val_def)

text \<open>The facts of the example world that the packing contract needs.\<close>

lemma pack_example_facts:
  "dirs pack_example_world ''f'' = Some [''b2.png'', ''a1.png'']
   \<and> [''a1.png'', ''b2.png''] = sort_image_files (list_image_files [''b2.png'', ''a1.png''])
   \<and> load_images pack_example_world ''f'' [''a1.png'', ''b2.png''] = Inr [solid 1 1 red, solid 1 1 blue]
   \<and> uniform_frames 1 1 [solid 1 1 red, solid 1 1 blue]
   \<and> calc_grid_size 2 = (1, 2)
   \<and> \<not> is_dir pack_example_world (py_join ''f'' (output_filename 1 2))"
proof -
  have d: "dirs pack_example_world ''f'' = Some [''b2.png'', ''a1.png'']"
    by (simp add: pack_example_world_def)
  have s: "[''a1.png'', ''b2.png''] = sort_image_files (list_image_files [''b2.png'', ''a1.png''])"
    using example_listing_order by blast
  have l: "load_images pack_example_world ''f'' [''a1.png'', ''b2.png''] = Inr [solid 1 1 red, solid 1 1 blue]"
    by (simp add: pack_example_world_def image_open_def py_join_def)
  have u: "uniform_frames 1 1 [solid 1 1 red, solid 1 1 blue]"
    by (simp add: uniform_frames_def)
  have g: "calc_grid_size 2 = (1, 2)" by code_simp
  have o: "\<not> is_dir pack_example_world (py_join ''f'' (output_filename 1 2))"
    by (simp add: pack_example_world_def is_dir_def py_join_def output_filename_def str_of_nat.simps
        digit_char_def)
  show ?thesis by (intro conjI d s l u g o)
qed

lemma mixed_sizes_facts:
  "dirs mixed_sizes_world ''f'' = Some [''b2.png'', ''a1.png'']
   \<and> load_images mixed_sizes_world ''f'' [''a1.png'', ''b2.png''] = Inr [solid 1 1 red, solid 2 2 blue]
   \<and> \<not> is_dir mixed_sizes_world (py_join ''f'' (output_filename 1 2))"
proof -
  have d: "dirs mixed_sizes_world ''f'' = Some [''b2.png'', ''a1.png'']"
    by (simp add: mixed_sizes_world_def)
  have l: "load_images mixed_sizes_world ''f'' [''a1.png'', ''b2.png''] = Inr [solid 1 1 red, solid 2 2 blue]"
    by (simp add: mixed_sizes_world_def image_open_def py_join_def)
  have o: "\<not> is_dir mixed_sizes_world (py_join ''f'' (output_filename 1 2))"
    by (simp add: mixed_sizes_world_def is_dir_def py_join_def output_filename_def str_of_nat.simps
        digit_char_def)
  show ?thesis by (intro conjI d l o)
qed

lemma grid_two_frames: "calc_grid_size (length [''a1.png'', ''b2.png'']) = (1, 2)"
proof -
  have g: "calc_grid_size 2 = (1, 2)" by code_simp
  have len: "length [''a1.png'', ''b2.png''] = (2::nat)" by simp
  show ?thesis unfolding len by (rule g)
qed

section \<open>Properties of the packer\<close>

text \<open>
  C17.  Packing a folder without image files prints the documented message and
  changes nothing else: no file is written and the run ends normally.
\<close>

theorem pack_spritesheet_no_images:
  assumes "dirs w folder = Some listing" and "list_image_files listing = []"
  shows "pack_spritesheet folder w = (Inr (), w\<lparr>stdout := stdout w @ [no_images_msg]\<rparr>)"
  using assms by (simp add: pack_spritesheet_def os_listdir_def py_print_def)

theorem pack_spritesheet_no_images_witness:
  "dirs \<lparr>dirs = [''frames'' \<mapsto> [''notes.txt'', ''clip.MP4'']], files = Map.empty, stdout = []\<rparr> ''frames''
     = Some [''notes.txt'', ''clip.MP4'']
   \<and> list_image_files [''notes.txt'', ''clip.MP4''] = []
   \<and> pack_spritesheet ''frames'' \<lparr>dirs = [''frames'' \<mapsto> [''notes.txt'', ''clip.MP4'']], files = Map.empty, stdout = []\<rparr>
     = (Inr (), \<lparr>dirs = [''frames'' \<mapsto> [''notes.txt'', ''clip.MP4'']], files = Map.empty, stdout = [no_images_msg]\<rparr>)"
proof -
  let ?w = "\<lparr>dirs = [''frames'' \<mapsto> [''notes.txt'', ''clip.MP4'']], files = Map.empty, stdout = []\<rparr>"
  have d: "dirs ?w ''frames'' = Some [''notes.txt'', ''clip.MP4'']" by simp
  have l: "list_image_files [''notes.txt'', ''clip.MP4''] = []"
    by (simp add: list_image_files_def is_image_file_def py_endswith_def image_extensions_def
        py_lower_def lower_char_def suffix_to_prefix)
  show ?thesis using pack_spritesheet_no_images[OF d l] d l by simp
qed

text \<open>
  C2.  The packing contract.  When the folder's image files, ordered by
  \<open>sort_image_files\<close>, all open to well-formed images of one size \<open>fw \<times> fh\<close>, the run
  succeeds, writes \<open>flipbook_{rows}x{cols}.tga\<close> into the folder holding exactly
  \<open>grid_image rows cols fw fh\<close> of those frames (frame \<open>k\<close> in cell
  \<open>(k mod cols, k div cols)\<close>, with \<open>(rows, cols) = calc_grid_size n\<close>), and prints the
  path it wrote.
\<close>

theorem pack_spritesheet_packs:
  assumes listing: "dirs w folder = Some listing"
    and fs: "fs = sort_image_files (list_image_files listing)" and ne: "fs \<noteq> []"
    and load: "load_images w folder fs = Inr ims"
    and uni: "uniform_frames fw fh ims" and fw: "0 < fw" and fh: "0 < fh"
    and grid: "calc_grid_size (length fs) = (rows, cols)"
    and out: "\<not> is_dir w (py_join folder (output_filename rows cols))"
  shows "\<exists>w'. pack_spritesheet folder w = (Inr (), w')
           \<and> files w' (py_join folder (output_filename rows cols))
               = Some (ImageFile (grid_image rows cols fw fh ims))
           \<and> stdout w' = stdout w @ [''Spritesheet created at: '' @ py_join folder (output_filename rows cols)]"
  using pack_run[OF assms] by simp

theorem pack_spritesheet_packs_witness:
  "dirs pack_example_world ''f'' = Some [''b2.png'', ''a1.png'']
   \<and> [''a1.png'', ''b2.png''] = sort_image_files (list_image_files [''b2.png'', ''a1.png''])
   \<and> load_images pack_example_world ''f'' [''a1.png'', ''b2.png''] = Inr [solid 1 1 red, solid 1 1 blue]
   \<and> uniform_frames 1 1 [solid 1 1 red, solid 1 1 blue]
   \<and> calc_grid_size 2 = (1, 2)
   \<and> \<not> is_dir pack_example_world (py_join ''f'' (output_filename 1 2))
   \<and> (\<exists>w'. pack_spritesheet ''f'' pack_example_world = (Inr (), w')
         \<and> files w' (py_join ''f'' (output_filename 1 2))
             = Some (ImageFile (grid_image 1 2 1 1 [solid 1 1 red, solid 1 1 blue]))
         \<and> stdout w' = stdout pack_example_world @ [''Spritesheet created at: '' @ py_join ''f'' (output_filename 1 2)])"
proof -
  have d: "dirs pack_example_world ''f'' = Some [''b2.png'', ''a1.png'']"
    and s: "[''a1.png'', ''b2.png''] = sort_image_files (list_image_files [''b2.png'', ''a1.png''])"
    and l: "load_images pack_example_world ''f'' [''a1.png'', ''b2.png''] = Inr [solid 1 1 red, solid 1 1 blue]"
    and u: "uniform_frames 1 1 [solid 1 1 red, solid 1 1 blue]"
    and g: "calc_grid_size 2 = (1, 2)"
    and o: "\<not> is_dir pack_example_world (py_join ''f'' (output_filename 1 2))"
    using pack_example_facts by blast+
  have len: "length [''a1.png'', ''b2.png''] = (2::nat)" by simp
  have g': "calc_grid_size (length [''a1.png'', ''b2.png'']) = (1, 2)" unfolding len by (rule g)
  have ne: "[''a1.png'', ''b2.png''] \<noteq> []" by simp
  have one: "0 < (1::nat)" by simp
  note main = pack_spritesheet_packs[OF d s ne l u one one g' o]
  show ?thesis by (intro conjI d s l u g o main)
qed


text \<open>
  C9.  Packing is stable under repetition: the sheet is written into the folder it
  packs, but as a \<open>.tga\<close> file the extension filter skips it, so packing the same
  folder again succeeds with the same frames and grid, rewrites the same sheet, and
  changes nothing but the printed output.
\<close>

theorem pack_spritesheet_repack:
  assumes listing: "dirs w folder = Some listing"
    and fs: "fs = sort_image_files (list_image_files listing)" and ne: "fs \<noteq> []"
    and load: "load_images w folder fs = Inr ims"
    and uni: "uniform_frames fw fh ims" and fw: "0 < fw" and fh: "0 < fh"
    and grid: "calc_grid_size (length fs) = (rows, cols)"
    and out: "\<not> is_dir w (py_join folder (output_filename rows cols))"
  shows "\<exists>w1. pack_spritesheet folder w = (Inr (), w1)
           \<and> pack_spritesheet folder w1
               = (Inr (), w1\<lparr>stdout := stdout w1 @ [''Spritesheet created at: '' @ py_join folder (output_filename rows cols)]\<rparr>)"
proof -
  note p1 = pack_run[OF assms]
  have "pack_spritesheet folder (snd (pack_spritesheet folder w))
      = (Inr (), (snd (pack_spritesheet folder w))\<lparr>stdout := stdout (snd (pack_spritesheet folder w))
           @ [''Spritesheet created at: '' @ py_join folder (output_filename rows cols)]\<rparr>)"
    using p1 by (intro repack_run[OF assms]) simp_all
  then show ?thesis using p1 by auto
qed

theorem pack_spritesheet_repack_witness:
  "dirs pack_example_world ''f'' = Some [''b2.png'', ''a1.png'']
   \<and> [''a1.png'', ''b2.png''] = sort_image_files (list_image_files [''b2.png'', ''a1.png''])
   \<and> load_images pack_example_world ''f'' [''a1.png'', ''b2.png''] = Inr [solid 1 1 red, solid 1 1 blue]
   \<and> uniform_frames 1 1 [solid 1 1 red, solid 1 1 blue]
   \<and> calc_grid_size 2 = (1, 2)
   \<and> \<not> is_dir pack_example_world (py_join ''f'' (output_filename 1 2))
   \<and> (\<exists>w1. pack_spritesheet ''f'' pack_example_world = (Inr (), w1)
         \<and> pack_spritesheet ''f'' w1
             = (Inr (), w1\<lparr>stdout := stdout w1 @ [''Spritesheet created at: '' @ py_join ''f'' (output_filename 1 2)]\<rparr>))"
proof -
  have d: "dirs pack_example_world ''f'' = Some [''b2.png'', ''a1.png'']"
    and s: "[''a1.png'', ''b2.png''] = sort_image_files (list_image_files [''b2.png'', ''a1.png''])"
    and l: "load_images pack_example_world ''f'' [''a1.png'', ''b2.png''] = Inr [solid 1 1 red, solid 1 1 blue]"
    and u: "uniform_frames 1 1 [solid 1 1 red, solid 1 1 blue]"
    and g: "calc_grid_size 2 = (1, 2)"
    and o: "\<not> is_dir pack_example_world (py_join ''f'' (output_filename 1 2))"
    using pack_example_facts by blast+
  have len: "length [''a1.png'', ''b2.png''] = (2::nat)" by simp
  have g': "calc_grid_size (length [''a1.png'', ''b2.png'']) = (1, 2)" unfolding len by (rule g)
  have ne: "[''a1.png'', ''b2.png''] \<noteq> []" by simp
  have one: "0 < (1::nat)" by simp
  note main = pack_spritesheet_repack[OF d s ne l u one one g' o]
  show ?thesis by (intro conjI d s l u g o main)
qed


text \<open>
  C8.  A frame that cannot be opened stops the packer with that frame's exception
  (\<open>FileNotFoundError\<close>, \<open>IsADirectoryError\<close> or \<open>UnidentifiedImageError\<close>; the
  tool does not catch it) and leaves the world as it was: the sheet is saved only after
  every frame was pasted, so no partial sheet is written and nothing is printed.
\<close>

theorem pack_spritesheet_unreadable_frame:
  assumes "dirs w folder = Some listing"
    and "fs = sort_image_files (list_image_files listing)" and "fs \<noteq> []"
    and "load_images w folder fs = Inl e"
  shows "pack_spritesheet folder w = (Inl e, w)
         \<and> e \<in> {FileNotFoundError, IsADirectoryError, UnidentifiedImageError}"
  using pack_run_fail[OF assms] load_images_error[OF assms(4)] by simp

theorem pack_spritesheet_unreadable_frame_witness:
  "dirs bad_frame_world ''f'' = Some [''b2.png'', ''notes.txt'', ''a1.png'']
   \<and> [''a1.png'', ''b2.png''] = sort_image_files (list_image_files [''b2.png'', ''notes.txt'', ''a1.png''])
   \<and> load_images bad_frame_world ''f'' [''a1.png'', ''b2.png''] = Inl UnidentifiedImageError
   \<and> pack_spritesheet ''f'' bad_frame_world = (Inl UnidentifiedImageError, bad_frame_world)
   \<and> UnidentifiedImageError \<in> {FileNotFoundError, IsADirectoryError, UnidentifiedImageError}"
proof -
  have d: "dirs bad_frame_world ''f'' = Some [''b2.png'', ''notes.txt'', ''a1.png'']"
    by (simp add: bad_frame_world_def)
  have s: "[''a1.png'', ''b2.png''] = sort_image_files (list_image_files [''b2.png'', ''notes.txt'', ''a1.png''])"
    using example_listing_order by blast
  have l: "load_images bad_frame_world ''f'' [''a1.png'', ''b2.png''] = Inl UnidentifiedImageError"
    by (simp add: bad_frame_world_def image_open_def py_join_def)
  have ne: "[''a1.png'', ''b2.png''] \<noteq> []" by simp
  show ?thesis using pack_spritesheet_unreadable_frame[OF d s ne l] d s l by blast
qed

text \<open>
  C22.  A subdirectory whose name ends in an image extension passes the filter (the
  filter reads names only, not whether an entry is a file) and crashes the packer with
  \<open>IsADirectoryError\<close>; nothing is written.
\<close>

theorem pack_image_named_directory:
  "pack_spritesheet ''f'' subdir_world = (Inl IsADirectoryError, subdir_world)"
proof -
  have d: "dirs subdir_world ''f'' = Some [''b2.png'', ''a1.png'']" by (simp add: subdir_world_def)
  have s: "[''a1.png'', ''b2.png''] = sort_image_files (list_image_files [''b2.png'', ''a1.png''])"
    using example_listing_order by blast
  have l: "load_images subdir_world ''f'' [''a1.png'', ''b2.png''] = Inl IsADirectoryError"
    by (simp add: subdir_world_def image_open_def py_join_def is_dir_def)
  show ?thesis using pack_run_fail[OF d s _ l] by simp
qed

text \<open>
  C26.  Whatever the frames, the sheet the packer writes is a well-formed image whose size
  is the grid's: \<open>cols\<close> cells of the first frame's width across and \<open>rows\<close> cells of its
  height down (the canvas of line 45; pasting never resizes it).
\<close>

theorem pack_sheet_type:
  assumes "dirs w folder = Some listing"
    and "fs = sort_image_files (list_image_files listing)" and "fs \<noteq> []"
    and "load_images w folder fs = Inr ims"
    and "calc_grid_size (length fs) = (rows, cols)"
    and "\<not> is_dir w (py_join folder (output_filename rows cols))"
  shows "\<exists>w' G. pack_spritesheet folder w = (Inr (), w')
           \<and> files w' (py_join folder (output_filename rows cols)) = Some (ImageFile G)
           \<and> wf_image G \<and> width G = cols * width (hd ims) \<and> height G = rows * height (hd ims)"
  using pack_run_any[OF assms] by (simp add: wf_paste_frames)

theorem pack_sheet_type_witness:
  "dirs mixed_sizes_world ''f'' = Some [''b2.png'', ''a1.png'']
   \<and> [''a1.png'', ''b2.png''] = sort_image_files (list_image_files [''b2.png'', ''a1.png''])
   \<and> load_images mixed_sizes_world ''f'' [''a1.png'', ''b2.png''] = Inr [solid 1 1 red, solid 2 2 blue]
   \<and> calc_grid_size 2 = (1, 2)
   \<and> \<not> is_dir mixed_sizes_world (py_join ''f'' (output_filename 1 2))
   \<and> (\<exists>w' G. pack_spritesheet ''f'' mixed_sizes_world = (Inr (), w')
         \<and> files w' (py_join ''f'' (output_filename 1 2)) = Some (ImageFile G)
         \<and> wf_image G \<and> width G = 2 \<and> height G = 1)"
proof -
  have d: "dirs mixed_sizes_world ''f'' = Some [''b2.png'', ''a1.png'']"
    and l: "load_images mixed_sizes_world ''f'' [''a1.png'', ''b2.png''] = Inr [solid 1 1 red, solid 2 2 blue]"
    and o: "\<not> is_dir mixed_sizes_world (py_join ''f'' (output_filename 1 2))"
    using mixed_sizes_facts by blast+
  have s: "[''a1.png'', ''b2.png''] = sort_image_files (list_image_files [''b2.png'', ''a1.png''])"
    using example_listing_order by blast
  have g: "calc_grid_size 2 = (1, 2)" by code_simp
  have ne: "[''a1.png'', ''b2.png''] \<noteq> []" by simp
  have main: "\<exists>w' G. pack_spritesheet ''f'' mixed_sizes_world = (Inr (), w')
           \<and> files w' (py_join ''f'' (output_filename 1 2)) = Some (ImageFile G)
           \<and> wf_image G \<and> width G = 2 * width (hd [solid 1 1 red, solid 2 2 blue])
           \<and> height G = 1 * height (hd [solid 1 1 red, solid 2 2 blue])"
    by (rule pack_sheet_type[OF d s ne l grid_two_frames o])
  have "\<exists>w' G. pack_spritesheet ''f'' mixed_sizes_world = (Inr (), w')
         \<and> files w' (py_join ''f'' (output_filename 1 2)) = Some (ImageFile G)
         \<and> wf_image G \<and> width G = 2 \<and> height G = 1"
    using main by simp
  then show ?thesis by (intro conjI d s l g o)
qed

end
