(* ===== verification/Unpack.thy ===== *)
theory Unpack
  imports World
begin

text \<open>
  The unpacker, \<open>unpack_spritesheet\<close> of src/flipbook_tool.py (lines 60--85): the
  output folder is the stem of the sheet's file name, created first; then the sheet is
  opened, \<open>rows:cols\<close> is parsed with \<open>map(int, dimensions.split(':'))\<close>, the frame size
  is the floor quotient of the sheet size (\<open>ZeroDivisionError\<close> on a zero count), and
  the nested loops crop every cell in row-major order and save it as
  \<open>frame_{row * cols + col:04d}.png\<close>.  Rows and columns are Python ints, so the model
  keeps them as \<open>int\<close>: negative counts are accepted by the code and make the loops
  empty.  \<open>sheet_cell\<close> is the specification of one cell, the rectangle
  \<open>[col * fw, row * fh, col * fw + fw, row * fh + fh)\<close> of the sheet.
\<close>

section \<open>Definitions\<close>

definition parse_dims :: "string \<Rightarrow> (int \<times> int) py" where
  "parse_dims dimensions =
     (case py_split CHR '':'' dimensions of
        [a, b] \<Rightarrow>
          (case py_int a of
             None \<Rightarrow> Inl ValueError
           | Some rows \<Rightarrow> (case py_int b of None \<Rightarrow> Inl ValueError | Some cols \<Rightarrow> Inr (rows, cols)))
      | _ \<Rightarrow> Inl ValueError)"

definition frame_name :: "int \<Rightarrow> string" where
  "frame_name k = ''frame_'' @ fmt_04d k @ ''.png''"

definition output_folder_of :: "string \<Rightarrow> string" where
  "output_folder_of image_path = splitext_root (py_basename image_path)"

fun extract_cols :: "image \<Rightarrow> string \<Rightarrow> int \<Rightarrow> int \<Rightarrow> int \<Rightarrow> int \<Rightarrow> int list \<Rightarrow> unit act" where
  "extract_cols sheet folder cols fw fh row [] = act_return ()"
| "extract_cols sheet folder cols fw fh row (col # cs) =
     (let left = col * fw; upper = row * fh; right = left + fw; lower = upper + fh in
      act_bind (act_lift (crop sheet left upper right lower)) (\<lambda>frame.
        act_bind (image_save frame folder (frame_name (row * cols + col))) (\<lambda>_.
          extract_cols sheet folder cols fw fh row cs)))"

fun extract_rows :: "image \<Rightarrow> string \<Rightarrow> int \<Rightarrow> int \<Rightarrow> int \<Rightarrow> int list \<Rightarrow> unit act" where
  "extract_rows sheet folder cols fw fh [] = act_return ()"
| "extract_rows sheet folder cols fw fh (row # rs) =
     act_bind (extract_cols sheet folder cols fw fh row [0..cols - 1]) (\<lambda>_.
       extract_rows sheet folder cols fw fh rs)"

text \<open>The reference for the two nested loops: one loop over the cells in row-major order,
  each cropped and saved as in the body of lines 78--83.\<close>

fun save_cells :: "image \<Rightarrow> string \<Rightarrow> int \<Rightarrow> int \<Rightarrow> int \<Rightarrow> (int \<times> int) list \<Rightarrow> unit act" where
  "save_cells sheet folder cols fw fh [] = act_return ()"
| "save_cells sheet folder cols fw fh ((row, col) # cells) =
     (let left = col * fw; upper = row * fh; right = left + fw; lower = upper + fh in
      act_bind (act_lift (crop sheet left upper right lower)) (\<lambda>frame.
        act_bind (image_save frame folder (frame_name (row * cols + col))) (\<lambda>_.
          save_cells sheet folder cols fw fh cells)))"

definition unpack_spritesheet :: "string \<Rightarrow> string \<Rightarrow> unit act" where
  "unpack_spritesheet image_path dimensions =
     (let output_folder = output_folder_of image_path in
      act_bind (os_makedirs output_folder) (\<lambda>_.
      act_bind (image_open image_path) (\<lambda>spritesheet.
      act_bind (act_lift (parse_dims dimensions)) (\<lambda>(rows, cols).
      act_bind (act_lift (py_floordiv (int (width spritesheet)) cols)) (\<lambda>frame_width.
      act_bind (act_lift (py_floordiv (int (height spritesheet)) rows)) (\<lambda>frame_height.
      act_bind (extract_rows spritesheet output_folder cols frame_width frame_height [0..rows - 1]) (\<lambda>_.
        py_print (''Unpacked '' @ str_of_int (rows * cols) @ '' frames into folder: '' @ output_folder))))))))"

definition sheet_cell :: "image \<Rightarrow> int \<Rightarrow> int \<Rightarrow> int \<Rightarrow> int \<Rightarrow> image" where
  "sheet_cell sheet fw fh row col =
     \<lparr>width = nat fw, height = nat fh,
      px = (\<lambda>i j. if i < nat fw \<and> j < nat fh \<and> nat (col * fw) + i < width sheet
                     \<and> nat (row * fh) + j < height sheet
                  then px sheet (nat (col * fw) + i) (nat (row * fh) + j) else transparent)\<rparr>"

text \<open>The file written for cell \<open>(row, col)\<close>: its path and its content.\<close>

definition cell_name :: "int \<Rightarrow> int \<times> int \<Rightarrow> string" where
  "cell_name cols rc = (case rc of (row, col) \<Rightarrow> frame_name (row * cols + col))"

definition cell_path :: "string \<Rightarrow> int \<Rightarrow> int \<times> int \<Rightarrow> string" where
  "cell_path folder cols rc = (case rc of (row, col) \<Rightarrow> py_join folder (frame_name (row * cols + col)))"

definition cell_file :: "image \<Rightarrow> int \<Rightarrow> int \<Rightarrow> int \<times> int \<Rightarrow> entry" where
  "cell_file sheet fw fh rc = (case rc of (row, col) \<Rightarrow> ImageFile (sheet_cell sheet fw fh row col))"

definition store_cell ::
  "string \<Rightarrow> int \<Rightarrow> image \<Rightarrow> int \<Rightarrow> int \<Rightarrow> (string \<Rightarrow> entry option) \<Rightarrow> int \<times> int \<Rightarrow> (string \<Rightarrow> entry option)" where
  "store_cell folder cols sheet fw fh m x = m(cell_path folder cols x \<mapsto> cell_file sheet fw fh x)"

definition grid_cells :: "int \<Rightarrow> int \<Rightarrow> (int \<times> int) list" where
  "grid_cells rows cols = concat (map (\<lambda>row. map (\<lambda>col. (row, col)) [0..cols - 1]) [0..rows - 1])"

text \<open>The loops can save every frame: the folder exists and no frame path is a directory.\<close>

definition frames_free :: "world \<Rightarrow> string \<Rightarrow> bool" where
  "frames_free w folder \<longleftrightarrow> dirs w folder \<noteq> None \<and> (\<forall>k. \<not> is_dir w (py_join folder (frame_name k)))"

text \<open>Example data: the solid red \<open>300 \<times> 200\<close> sheet of the documentation's example.\<close>

definition unpack_example_world :: world where
  "unpack_example_world =
     \<lparr>dirs = Map.empty, files = [''sheet.png'' \<mapsto> ImageFile (solid 300 200 (255, 0, 0, 255))], stdout = []\<rparr>"

text \<open>Example data: the same folder name, with a directory already in the place of
  \<open>frame_0001.png\<close>, and a sheet Pillow cannot decode.\<close>

definition blocked_frame_world :: world where
  "blocked_frame_world =
     \<lparr>dirs = [''sheet'' \<mapsto> [''frame_0001.png''], ''sheet/frame_0001.png'' \<mapsto> []],
      files = [''sheet.png'' \<mapsto> ImageFile (solid 2 1 (255, 0, 0, 255))], stdout = []\<rparr>"

definition undecodable_world :: world where
  "undecodable_world = \<lparr>dirs = Map.empty, files = [''sheet.png'' \<mapsto> OtherFile], stdout = []\<rparr>"

section \<open>Lemmas\<close>

lemma crop_sheet_cell:
  assumes "0 \<le> fw" and "0 \<le> fh" and "0 \<le> row" and "0 \<le> col"
  shows "crop sheet (col * fw) (row * fh) (col * fw + fw) (row * fh + fh) = Inr (sheet_cell sheet fw fh row col)"
proof -
  have e: "col * fw = int (nat (col * fw))" "row * fh = int (nat (row * fh))"
    "fw = int (nat fw)" "fh = int (nat fh)"
    using assms by simp_all
  have "crop sheet (int (nat (col * fw))) (int (nat (row * fh)))
          (int (nat (col * fw)) + int (nat fw)) (int (nat (row * fh)) + int (nat fh))
        = Inr (sheet_cell sheet fw fh row col)"
    by (simp only: crop_nat_box) (simp add: sheet_cell_def)
  then show ?thesis using e by metis
qed

lemma wf_sheet_cell [simp]: "wf_image (sheet_cell sheet fw fh row col)"
  by (simp add: sheet_cell_def wf_image_def)

lemma sheet_cell_size [simp]:
  "width (sheet_cell sheet fw fh row col) = nat fw" "height (sheet_cell sheet fw fh row col) = nat fh"
  by (simp_all add: sheet_cell_def)

lemma frame_name_plain [simp]: "frame_name k \<noteq> []" "hd (frame_name k) \<noteq> CHR ''/''"
  by (simp_all add: frame_name_def)

lemma save_frame_ok:
  assumes "frames_free w folder"
  shows "\<exists>w'. image_save im folder (frame_name k) w = (Inr (), w') \<and> frames_free w' folder
           \<and> files w' = (files w)(py_join folder (frame_name k) \<mapsto> ImageFile im) \<and> stdout w' = stdout w
           \<and> dirs w' = (dirs w)(folder := map_option (\<lambda>l. listing_add l (frame_name k)) (dirs w folder))"
proof -
  from assms obtain l where l: "dirs w folder = Some l" by (auto simp: frames_free_def)
  have nd: "\<not> is_dir w (py_join folder (frame_name k))" using assms by (simp add: frames_free_def)
  have ne: "py_join folder (frame_name k') \<noteq> folder" for k'
    by (intro py_join_neq_dir) simp_all
  show ?thesis
    using image_save_ok[OF l nd, of im] assms ne l by (auto simp: frames_free_def is_dir_def listing_add_def)
qed

lemma extract_cols_ok:
  assumes "frames_free w folder" and "0 \<le> fw" and "0 \<le> fh" and "0 \<le> row"
    and "\<forall>c \<in> set cs. 0 \<le> c"
  shows "\<exists>w'. extract_cols sheet folder cols fw fh row cs w = (Inr (), w') \<and> frames_free w' folder
           \<and> stdout w' = stdout w
           \<and> files w' = foldl (store_cell folder cols sheet fw fh)
                         (files w) (map (\<lambda>c. (row, c)) cs)
           \<and> dirs w' = (dirs w)(folder := map_option (\<lambda>l. foldl listing_add l (map (cell_name cols) (map (\<lambda>c. (row, c)) cs)))
                                              (dirs w folder))"
  using assms(1,5)
proof (induction cs arbitrary: w)
  case Nil
  then show ?case by (simp add: option.map_ident)
next
  case (Cons c cs)
  have crop: "crop sheet (c * fw) (row * fh) (c * fw + fw) (row * fh + fh) = Inr (sheet_cell sheet fw fh row c)"
    using Cons.prems(2) assms(2-4) by (intro crop_sheet_cell) simp_all
  obtain w1 where w1: "image_save (sheet_cell sheet fw fh row c) folder (frame_name (row * cols + c)) w = (Inr (), w1)"
      "frames_free w1 folder"
      "files w1 = (files w)(py_join folder (frame_name (row * cols + c)) \<mapsto> ImageFile (sheet_cell sheet fw fh row c))"
      "stdout w1 = stdout w"
      "dirs w1 = (dirs w)(folder := map_option (\<lambda>l. listing_add l (frame_name (row * cols + c))) (dirs w folder))"
    using save_frame_ok[OF Cons.prems(1)] by blast
  obtain w' where w': "extract_cols sheet folder cols fw fh row cs w1 = (Inr (), w')" "frames_free w' folder"
      "stdout w' = stdout w1"
      "files w' = foldl (store_cell folder cols sheet fw fh) (files w1) (map (\<lambda>c. (row, c)) cs)"
      "dirs w' = (dirs w1)(folder := map_option (\<lambda>l. foldl listing_add l (map (cell_name cols) (map (\<lambda>c. (row, c)) cs)))
                                              (dirs w1 folder))"
  proof -
    have "\<forall>c \<in> set cs. 0 \<le> c" using Cons.prems(2) by simp
    from Cons.IH[OF w1(2) this] show ?thesis using that by blast
  qed
  have "extract_cols sheet folder cols fw fh row (c # cs) w = (Inr (), w')"
    using crop w1(1) w'(1) by (simp add: Let_def)
  moreover have "files w' = foldl (store_cell folder cols sheet fw fh)
                         (files w) (map (\<lambda>c. (row, c)) (c # cs))"
  proof -
    have "store_cell folder cols sheet fw fh (files w) (row, c) = files w1"
      using w1(3) by (simp add: store_cell_def cell_path_def cell_file_def)
    then show ?thesis using w'(4) by simp
  qed
  moreover have "dirs w' = (dirs w)(folder := map_option (\<lambda>l. foldl listing_add l (map (cell_name cols) (map (\<lambda>c. (row, c)) (c # cs))))
                                              (dirs w folder))"
    using w'(5) w1(5) by (simp add: option.map_comp o_def cell_name_def)
  ultimately show ?case using w'(2,3) w1(4) by auto
qed

lemma extract_rows_ok:
  assumes "frames_free w folder" and "0 \<le> fw" and "0 \<le> fh" and "\<forall>r \<in> set rs. 0 \<le> r"
  shows "\<exists>w'. extract_rows sheet folder cols fw fh rs w = (Inr (), w') \<and> frames_free w' folder
           \<and> stdout w' = stdout w
           \<and> files w' = foldl (store_cell folder cols sheet fw fh)
                         (files w) (concat (map (\<lambda>row. map (\<lambda>col. (row, col)) [0..cols - 1]) rs))
           \<and> dirs w' = (dirs w)(folder := map_option (\<lambda>l. foldl listing_add l
                           (map (cell_name cols) (concat (map (\<lambda>row. map (\<lambda>col. (row, col)) [0..cols - 1]) rs))))
                         (dirs w folder))"
  using assms(1,4)
proof (induction rs arbitrary: w)
  case Nil
  then show ?case by (simp add: option.map_ident)
next
  case (Cons r rs)
  obtain w1 where w1: "extract_cols sheet folder cols fw fh r [0..cols - 1] w = (Inr (), w1)"
      "frames_free w1 folder" "stdout w1 = stdout w"
      "files w1 = foldl (store_cell folder cols sheet fw fh)
                    (files w) (map (\<lambda>c. (r, c)) [0..cols - 1])"
      "dirs w1 = (dirs w)(folder := map_option (\<lambda>l. foldl listing_add l (map (cell_name cols) (map (\<lambda>c. (r, c)) [0..cols - 1])))
                                              (dirs w folder))"
    using extract_cols_ok[OF Cons.prems(1) assms(2,3), of r "[0..cols - 1]" sheet cols] Cons.prems(2)
    by auto
  obtain w' where w': "extract_rows sheet folder cols fw fh rs w1 = (Inr (), w')" "frames_free w' folder"
      "stdout w' = stdout w1"
      "files w' = foldl (store_cell folder cols sheet fw fh)
                    (files w1) (concat (map (\<lambda>row. map (\<lambda>col. (row, col)) [0..cols - 1]) rs))"
      "dirs w' = (dirs w1)(folder := map_option (\<lambda>l. foldl listing_add l
                           (map (cell_name cols) (concat (map (\<lambda>row. map (\<lambda>col. (row, col)) [0..cols - 1]) rs))))
                         (dirs w1 folder))"
  proof -
    have "\<forall>r \<in> set rs. 0 \<le> r" using Cons.prems(2) by simp
    from Cons.IH[OF w1(2) this] show ?thesis using that by blast
  qed
  have "dirs w' = (dirs w)(folder := map_option (\<lambda>l. foldl listing_add l
                           (map (cell_name cols) (concat (map (\<lambda>row. map (\<lambda>col. (row, col)) [0..cols - 1]) (r # rs)))))
                         (dirs w folder))"
    using w'(5) w1(5) by (simp add: option.map_comp o_def)
  moreover have "extract_rows sheet folder cols fw fh (r # rs) w = (Inr (), w')"
    using w1(1) w'(1) by simp
  moreover have "files w' = foldl (store_cell folder cols sheet fw fh)
                         (files w) (concat (map (\<lambda>row. map (\<lambda>col. (row, col)) [0..cols - 1]) (r # rs)))"
    using w1(4) w'(4) by simp
  ultimately show ?case using w1(3) w'(2,3) by (intro exI[of _ w']) simp
qed

lemma cell_path_inj:
  assumes "0 < cols"
  shows "inj_on (cell_path folder cols) (set (grid_cells rows cols))"
proof (rule inj_onI)
  fix x y
  assume x: "x \<in> set (grid_cells rows cols)" and y: "y \<in> set (grid_cells rows cols)"
    and eq: "cell_path folder cols x = cell_path folder cols y"
  obtain r1 c1 where x': "x = (r1, c1)" "0 \<le> r1" "0 \<le> c1" "c1 < cols"
    using x by (auto simp: grid_cells_def)
  obtain r2 c2 where y': "y = (r2, c2)" "0 \<le> r2" "0 \<le> c2" "c2 < cols"
    using y by (auto simp: grid_cells_def)
  have k1: "0 \<le> r1 * cols + c1" and k2: "0 \<le> r2 * cols + c2" using x' y' assms by simp_all
  have "frame_name (r1 * cols + c1) = frame_name (r2 * cols + c2)"
    using eq x' y' py_join_inj[of "frame_name (r1 * cols + c1)" "frame_name (r2 * cols + c2)" folder]
    by (simp add: cell_path_def)
  then have k: "r1 * cols + c1 = r2 * cols + c2"
    using fmt_04d_inj[OF k1 k2] by (simp add: frame_name_def)
  have "(r1 * cols + c1) div cols = r1" "(r2 * cols + c2) div cols = r2"
    "(r1 * cols + c1) mod cols = c1" "(r2 * cols + c2) mod cols = c2"
    using x' y' assms by simp_all
  with k x'(1) y'(1) show "x = y" by metis
qed

lemma grid_cells_mem: "(row, col) \<in> set (grid_cells rows cols) \<longleftrightarrow> 0 \<le> row \<and> row < rows \<and> 0 \<le> col \<and> col < cols"
proof
  assume "(row, col) \<in> set (grid_cells rows cols)"
  then show "0 \<le> row \<and> row < rows \<and> 0 \<le> col \<and> col < cols" by (auto simp: grid_cells_def)
next
  assume a: "0 \<le> row \<and> row < rows \<and> 0 \<le> col \<and> col < cols"
  then have "row \<in> set [0..rows - 1]" "(row, col) \<in> set (map (\<lambda>c. (row, c)) [0..cols - 1])" by auto
  then show "(row, col) \<in> set (grid_cells rows cols)" unfolding grid_cells_def by auto
qed

lemma store_cell_eq: "store_cell folder cols sheet fw fh = (\<lambda>m x. m(cell_path folder cols x \<mapsto> cell_file sheet fw fh x))"
  by (intro ext) (simp add: store_cell_def)

lemma makedirs_frames_free:
  assumes "\<not> is_file w p" and "p \<noteq> []" and "\<forall>k. \<not> is_dir w (py_join p (frame_name k))"
  shows "\<exists>w1. os_makedirs p w = (Inr (), w1) \<and> frames_free w1 p \<and> files w1 = files w \<and> stdout w1 = stdout w
           \<and> dirs w1 = (dirs w)(p \<mapsto> (case dirs w p of None \<Rightarrow> [] | Some l \<Rightarrow> l))"
proof -
  have ne: "py_join p (frame_name k) \<noteq> p" for k by (intro py_join_neq_dir) simp_all
  show ?thesis
    using assms ne by (auto simp: os_makedirs_def frames_free_def is_dir_def fun_upd_idem split: option.split)
qed

lemma unpack_run:
  assumes img: "files w image_path = Some (ImageFile sheet)"
    and out: "output_folder_of image_path = out" "\<not> is_file w out" "out \<noteq> []"
    and nodir: "\<forall>k. \<not> is_dir w (py_join out (frame_name k))"
    and dims: "parse_dims dims = Inr (rows, cols)" "0 < rows" "0 < cols"
  shows "\<exists>w'. unpack_spritesheet image_path dims w = (Inr (), w')
    \<and> files w' = foldl (store_cell out cols sheet (int (width sheet) div cols) (int (height sheet) div rows))
                   (files w) (grid_cells rows cols)
    \<and> stdout w' = stdout w @ [''Unpacked '' @ str_of_int (rows * cols) @ '' frames into folder: '' @ out]
    \<and> dirs w' = (dirs w)(out \<mapsto> foldl listing_add (case dirs w out of None \<Rightarrow> [] | Some l \<Rightarrow> l)
                              (map (cell_name cols) (grid_cells rows cols)))"
proof -
  let ?fw = "int (width sheet) div cols" and ?fh = "int (height sheet) div rows"
  obtain w1 where w1: "os_makedirs out w = (Inr (), w1)" "frames_free w1 out" "files w1 = files w"
      "stdout w1 = stdout w" "dirs w1 = (dirs w)(out \<mapsto> (case dirs w out of None \<Rightarrow> [] | Some l \<Rightarrow> l))"
    using makedirs_frames_free[OF out(2,3) nodir] by blast
  have op: "image_open image_path w1 = (Inr sheet, w1)"
    using img w1(3) by (simp add: image_open_def)
  have fw: "0 \<le> ?fw" using dims(3) by (simp add: pos_imp_zdiv_nonneg_iff)
  have fh: "0 \<le> ?fh" using dims(2) by (simp add: pos_imp_zdiv_nonneg_iff)
  obtain w2 where w2: "extract_rows sheet out cols ?fw ?fh [0..rows - 1] w1 = (Inr (), w2)"
      "stdout w2 = stdout w1"
      "files w2 = foldl (store_cell out cols sheet ?fw ?fh) (files w1) (grid_cells rows cols)"
      "dirs w2 = (dirs w)(out \<mapsto> foldl listing_add (case dirs w out of None \<Rightarrow> [] | Some l \<Rightarrow> l)
                              (map (cell_name cols) (grid_cells rows cols)))"
    using extract_rows_ok[OF w1(2) fw fh, of "[0..rows - 1]" sheet cols] w1(5)
    unfolding grid_cells_def by auto
  have "unpack_spritesheet image_path dims w =
      py_print (''Unpacked '' @ str_of_int (rows * cols) @ '' frames into folder: '' @ out) w2"
    using w1(1) op dims w2(1) out(1) by (simp add: unpack_spritesheet_def)
  then show ?thesis using w1 w2 by (simp add: py_print_def)
qed

lemma grid_cells_nat:
  "grid_cells rows cols = concat (map (\<lambda>i. map (\<lambda>j. (int i, int j)) [0..<nat cols]) [0..<nat rows])"
  by (simp add: grid_cells_def int_range_upt map_concat o_def)

text \<open>The frame names the loops write, in the order they write them: \<open>frame_0000.png\<close>,
  \<open>frame_0001.png\<close>, ..., row by row.\<close>

lemma grid_cell_names:
  assumes "0 \<le> cols"
  shows "map (cell_name cols) (grid_cells rows cols) = map (\<lambda>k. frame_name (int k)) [0..<nat rows * nat cols]"
proof -
  have "cell_name cols (int i, int j) = frame_name (int (i * nat cols + j))" for i j
    using assms by (simp add: cell_name_def)
  then have "map (cell_name cols) (grid_cells rows cols)
      = map (\<lambda>k. frame_name (int k)) (map (\<lambda>(i, j). i * nat cols + j)
          (concat (map (\<lambda>i. map (\<lambda>j. (i, j)) [0..<nat cols]) [0..<nat rows])))"
    by (simp add: grid_cells_nat map_concat o_def)
  then show ?thesis by (simp only: concat_rows_index)
qed

lemma frame_name_inj: "0 \<le> a \<Longrightarrow> 0 \<le> b \<Longrightarrow> frame_name a = frame_name b \<longleftrightarrow> a = b"
  by (simp add: frame_name_def fmt_04d_inj)

lemma distinct_frame_names: "distinct (map (\<lambda>k. frame_name (int k)) [0..<n])"
  by (simp add: distinct_map inj_on_def frame_name_inj)

lemma store_grid_lookup:
  assumes "0 < cols" and "0 \<le> row" "row < rows" "0 \<le> col" "col < cols"
  shows "foldl (store_cell out cols sheet fw fh) m (grid_cells rows cols) (py_join out (frame_name (row * cols + col)))
           = Some (ImageFile (sheet_cell sheet fw fh row col))"
proof -
  have mem: "(row, col) \<in> set (grid_cells rows cols)" using assms(2-5) by (simp add: grid_cells_mem)
  have "foldl (\<lambda>m x. m(cell_path out cols x \<mapsto> cell_file sheet fw fh x)) m (grid_cells rows cols)
          (cell_path out cols (row, col)) = Some (cell_file sheet fw fh (row, col))"
    by (rule foldl_upd_inj[OF cell_path_inj[OF assms(1)] mem])
  then show ?thesis by (simp add: store_cell_eq cell_path_def cell_file_def)
qed

lemma store_grid_other:
  assumes "\<forall>k. p \<noteq> py_join out (frame_name k)"
  shows "foldl (store_cell out cols sheet fw fh) m (grid_cells rows cols) p = m p"
proof -
  have "p \<notin> cell_path out cols ` set (grid_cells rows cols)"
    using assms by (auto simp: cell_path_def)
  then have "foldl (\<lambda>m x. m(cell_path out cols x \<mapsto> cell_file sheet fw fh x)) m (grid_cells rows cols) p = m p"
    by (rule foldl_upd_other)
  then show ?thesis by (simp add: store_cell_eq)
qed

lemma extract_rows_no_cols:
  assumes "cols \<le> 0"
  shows "extract_rows sheet folder cols fw fh rs w = (Inr (), w)"
proof -
  have "[0..cols - 1] = []" using assms by simp
  then show ?thesis by (induction rs) simp_all
qed

lemma colon_not_in_str_of_int: "CHR '':'' \<notin> set (str_of_int i)"
proof -
  have "\<forall>c \<in> set (str_of_nat n). c \<noteq> CHR '':''" for n
    using str_of_nat_all_digits[of n] by (auto simp: list_all_iff is_digit_def)
  then show ?thesis by (auto simp: str_of_int_def)
qed

lemma py_split_dims:
  "py_split CHR '':'' (str_of_int rows @ CHR '':'' # str_of_int cols) = [str_of_int rows, str_of_int cols]"
  using colon_not_in_str_of_int by (simp add: py_split_append py_split_no_sep)

text \<open>The unpacker only makes the world evolve: every frame it saves is a crop, and
  crops are well formed.\<close>

lemma ensures_crop: "ensures wf_image (act_lift (crop src l u r lo))"
  by (rule ensures_lift) (rule wf_crop)

lemma ensures_extract_cols: "ensures (\<lambda>_. True) (extract_cols sheet folder cols fw fh row cs)"
proof (induction cs)
  case Nil
  show ?case by (simp only: extract_cols.simps) (rule ensures_return, rule TrueI)
next
  case (Cons col cs)
  show ?case
    unfolding extract_cols.simps Let_def
    by (intro ensures_bind[OF ensures_crop] ensures_intros Cons.IH)
qed

lemma ensures_extract_rows: "ensures (\<lambda>_. True) (extract_rows sheet folder cols fw fh rs)"
proof (induction rs)
  case Nil
  show ?case by (simp only: extract_rows.simps) (rule ensures_return, rule TrueI)
next
  case (Cons row rs)
  show ?case
    unfolding extract_rows.simps by (intro ensures_intros ensures_extract_cols Cons.IH)
qed

lemma ensures_unpack_spritesheet: "ensures (\<lambda>_. True) (unpack_spritesheet image_path dimensions)"
  unfolding unpack_spritesheet_def Let_def
  by (intro ensures_intros ensures_extract_rows)

text \<open>The nested loops are the flat loop over the cells: a loop over an append is the
  first loop followed by the second.\<close>

lemma save_cells_append:
  "save_cells sheet folder cols fw fh (xs @ ys)
     = act_bind (save_cells sheet folder cols fw fh xs) (\<lambda>_. save_cells sheet folder cols fw fh ys)"
proof (induction xs)
  case Nil
  show ?case by simp
next
  case (Cons x xs)
  then show ?case by (cases x) (simp add: Let_def act_bind_assoc del: act_bind_lift)
qed

lemma extract_cols_flat:
  "extract_cols sheet folder cols fw fh row cs = save_cells sheet folder cols fw fh (map (\<lambda>c. (row, c)) cs)"
  by (induction cs) (simp_all add: Let_def)

lemma extract_rows_flat:
  "extract_rows sheet folder cols fw fh rs
     = save_cells sheet folder cols fw fh (concat (map (\<lambda>row. map (\<lambda>col. (row, col)) [0..cols - 1]) rs))"
  by (induction rs) (simp_all add: extract_cols_flat save_cells_append)

lemma cell_path_name: "cell_path folder cols x = py_join folder (cell_name cols x)"
  by (cases x) (simp add: cell_path_def cell_name_def)

lemma cell_path_neq_folder: "cell_path folder cols x \<noteq> folder"
  unfolding cell_path_name by (intro py_join_neq_dir) (simp_all add: cell_name_def split: prod.split)

text \<open>The flat loop when the path of cell \<open>j\<close> is a directory and the cells before it are
  free: the cells before \<open>j\<close> are saved, then \<open>IsADirectoryError\<close> stops the loop.\<close>

lemma save_cells_blocked:
  assumes "dirs w folder = Some l" and fw: "0 \<le> fw" and fh: "0 \<le> fh"
    and "\<forall>x \<in> set cells. 0 \<le> fst x \<and> 0 \<le> snd x"
    and "j < length cells" and "is_dir w (cell_path folder cols (cells ! j))"
    and "\<forall>x \<in> set (take j cells). \<not> is_dir w (cell_path folder cols x)"
  shows "\<exists>w'. save_cells sheet folder cols fw fh cells w = (Inl IsADirectoryError, w')
           \<and> files w' = foldl (store_cell folder cols sheet fw fh) (files w) (take j cells)
           \<and> stdout w' = stdout w \<and> dirs w' folder \<noteq> None"
  using assms(1,4-7)
proof (induction cells arbitrary: w l j)
  case Nil
  then show ?case by simp
next
  case (Cons x cells)
  obtain r c where x: "x = (r, c)" by (cases x)
  have rc: "0 \<le> r" "0 \<le> c" using Cons.prems(2) x by auto
  have crop: "crop sheet (c * fw) (r * fh) (c * fw + fw) (r * fh + fh) = Inr (sheet_cell sheet fw fh r c)"
    using rc fw fh by (intro crop_sheet_cell) simp_all
  let ?p = "py_join folder (frame_name (r * cols + c))"
  have cp: "cell_path folder cols x = ?p" by (simp add: x cell_path_def)
  show ?case
  proof (cases j)
    case 0
    then have "is_dir w ?p" using Cons.prems(4) cp by simp
    then have "save_cells sheet folder cols fw fh (x # cells) w = (Inl IsADirectoryError, w)"
      using crop by (simp add: x Let_def image_save_def)
    then show ?thesis using 0 Cons.prems(1) by simp
  next
    case (Suc j')
    have free: "\<not> is_dir w ?p" using Cons.prems(5) Suc cp by simp
    define w1 where "w1 = w\<lparr>files := (files w)(?p \<mapsto> ImageFile (sheet_cell sheet fw fh r c)),
        dirs := (dirs w)(folder \<mapsto> listing_add l (frame_name (r * cols + c)))\<rparr>"
    have sv: "image_save (sheet_cell sheet fw fh r c) folder (frame_name (r * cols + c)) w = (Inr (), w1)"
      using image_save_ok[OF Cons.prems(1) free] by (simp add: w1_def listing_add_def)
    have isd: "is_dir w1 (cell_path folder cols y) = is_dir w (cell_path folder cols y)" for y
      using cell_path_neq_folder[of folder cols y] by (simp add: w1_def is_dir_def)
    have d1: "dirs w1 folder = Some (listing_add l (frame_name (r * cols + c)))" by (simp add: w1_def)
    obtain w' where w': "save_cells sheet folder cols fw fh cells w1 = (Inl IsADirectoryError, w')"
        "files w' = foldl (store_cell folder cols sheet fw fh) (files w1) (take j' cells)"
        "stdout w' = stdout w1" "dirs w' folder \<noteq> None"
    proof -
      have "\<forall>x \<in> set cells. 0 \<le> fst x \<and> 0 \<le> snd x" "j' < length cells"
        "is_dir w1 (cell_path folder cols (cells ! j'))"
        "\<forall>x \<in> set (take j' cells). \<not> is_dir w1 (cell_path folder cols x)"
        using Cons.prems(2-5) Suc isd by simp_all
      from Cons.IH[OF d1 this] show ?thesis using that by blast
    qed
    have "save_cells sheet folder cols fw fh (x # cells) w = (Inl IsADirectoryError, w')"
      using crop sv w'(1) by (simp add: x Let_def)
    moreover have "store_cell folder cols sheet fw fh (files w) x = files w1"
      by (simp add: x store_cell_def cell_path_def cell_file_def w1_def)
    ultimately show ?thesis using w'(2-4) Suc by (simp add: w1_def)
  qed
qed

section \<open>Facts of the example data\<close>

lemma unpack_example_facts:
  "files unpack_example_world ''sheet.png'' = Some (ImageFile (solid 300 200 (255, 0, 0, 255)))"
  "output_folder_of ''sheet.png'' = ''sheet''"
  "\<not> is_file unpack_example_world ''sheet''"
  "''sheet'' \<noteq> []"
  "\<forall>k. \<not> is_dir unpack_example_world (py_join ''sheet'' (frame_name k))"
  by (simp_all add: unpack_example_world_def is_file_def is_dir_def) code_simp

text \<open>The unpacker writes only the output folder and the frame files in it.\<close>

lemma writes_extract_cols:
  "writes_within (\<lambda>q. q = folder \<or> (\<exists>k. q = py_join folder (frame_name k)))
     (extract_cols sheet folder cols fw fh row cs)"
proof (induction cs)
  case Nil
  show ?case unfolding extract_cols.simps by (rule writes_return)
next
  case (Cons c cs)
  show ?case unfolding extract_cols.simps Let_def
    by (intro writes_bind writes_lift writes_save Cons.IH) auto
qed

lemma writes_extract_rows:
  "writes_within (\<lambda>q. q = folder \<or> (\<exists>k. q = py_join folder (frame_name k)))
     (extract_rows sheet folder cols fw fh rs)"
proof (induction rs)
  case Nil
  show ?case unfolding extract_rows.simps by (rule writes_return)
next
  case (Cons r rs)
  show ?case unfolding extract_rows.simps by (intro writes_bind writes_extract_cols Cons.IH)
qed

lemma writes_unpack_spritesheet:
  "writes_within (\<lambda>q. q = output_folder_of image_path \<or> (\<exists>k. q = py_join (output_folder_of image_path) (frame_name k)))
     (unpack_spritesheet image_path dims)"
  unfolding unpack_spritesheet_def Let_def
  by (intro writes_intros writes_extract_rows) simp

text \<open>Saving the same cells again overwrites every frame with the same image.\<close>

lemma store_grid_twice:
  "foldl (store_cell out cols sheet fw fh) (foldl (store_cell out cols sheet fw fh) m cs) cs
     = foldl (store_cell out cols sheet fw fh) m cs"
  unfolding store_cell_eq by (rule foldl_upd_twice)

text \<open>After an unpack the sheet is still there when it is not one of the frame files, the
  output folder is a directory, not a file, and the frame paths are files, not directories:
  the hypotheses of \<open>unpack_run\<close> hold again.\<close>

lemma unpack_run_again:
  assumes img: "files w image_path = Some (ImageFile sheet)"
    and out: "\<not> is_file w out"
    and nodir: "\<forall>k. \<not> is_dir w (py_join out (frame_name k))"
    and self: "\<forall>k. image_path \<noteq> py_join out (frame_name k)"
    and f1: "files w1 = foldl (store_cell out cols sheet fw fh) (files w) cs"
    and d1: "dirs w1 = (dirs w)(out \<mapsto> l)"
  shows "files w1 image_path = Some (ImageFile sheet) \<and> \<not> is_file w1 out
         \<and> (\<forall>k. \<not> is_dir w1 (py_join out (frame_name k)))"
proof -
  have "image_path \<notin> cell_path out cols ` set cs" using self by (auto simp: cell_path_def)
  then have "files w1 image_path = files w image_path"
    unfolding f1 store_cell_eq by (rule foldl_upd_other)
  moreover have "out \<notin> cell_path out cols ` set cs" using cell_path_neq_folder[of out cols] by (metis imageE)
  then have "files w1 out = files w out"
    unfolding f1 store_cell_eq by (rule foldl_upd_other)
  moreover have "py_join out (frame_name k) \<noteq> out" for k
    by (intro py_join_neq_dir) (simp_all add: frame_name_def)
  ultimately show ?thesis using img out nodir by (simp add: is_file_def is_dir_def d1)
qed

section \<open>Properties of the unpacker\<close>

text \<open>
  C3.  The unpacking contract.  For an image file, an output folder name that is not a
  regular file, no directory in the way of a frame file, and \<open>rows:cols\<close> parsing to
  positive counts, the run succeeds; for every cell \<open>(row, col)\<close> of the grid,
  \<open>frame_{row * cols + col:04d}.png\<close> in the folder holds the cell
  \<open>[col * fw, row * fh, col * fw + fw, row * fh + fh)\<close> of the sheet with
  \<open>fw = width // cols\<close>, \<open>fh = height // rows\<close>; every other file is unchanged; and the
  count \<open>rows * cols\<close> is printed.
\<close>

theorem unpack_spritesheet_frames:
  assumes img: "files w image_path = Some (ImageFile sheet)"
    and out: "output_folder_of image_path = out" "\<not> is_file w out" "out \<noteq> []"
    and nodir: "\<forall>k. \<not> is_dir w (py_join out (frame_name k))"
    and dims: "parse_dims dims = Inr (rows, cols)" "0 < rows" "0 < cols"
  shows "\<exists>w'. unpack_spritesheet image_path dims w = (Inr (), w')
    \<and> (\<forall>row col. 0 \<le> row \<and> row < rows \<and> 0 \<le> col \<and> col < cols \<longrightarrow>
         files w' (py_join out (frame_name (row * cols + col)))
           = Some (ImageFile (sheet_cell sheet (int (width sheet) div cols) (int (height sheet) div rows) row col)))
    \<and> (\<forall>p. (\<forall>k. p \<noteq> py_join out (frame_name k)) \<longrightarrow> files w' p = files w p)
    \<and> stdout w' = stdout w @ [''Unpacked '' @ str_of_int (rows * cols) @ '' frames into folder: '' @ out]"
proof -
  let ?fw = "int (width sheet) div cols" and ?fh = "int (height sheet) div rows"
  let ?m = "foldl (store_cell out cols sheet ?fw ?fh) (files w) (grid_cells rows cols)"
  obtain w' where w': "unpack_spritesheet image_path dims w = (Inr (), w')" "files w' = ?m"
      "stdout w' = stdout w @ [''Unpacked '' @ str_of_int (rows * cols) @ '' frames into folder: '' @ out]"
    using unpack_run[OF assms] by blast
  have cells: "?m (py_join out (frame_name (row * cols + col)))
        = Some (ImageFile (sheet_cell sheet ?fw ?fh row col))"
    if "0 \<le> row" "row < rows" "0 \<le> col" "col < cols" for row col
    using store_grid_lookup[OF dims(3) that] by simp
  have others: "?m p = files w p" if "\<forall>k. p \<noteq> py_join out (frame_name k)" for p
    using store_grid_other[OF that] by simp
  show ?thesis using w' cells others by auto
qed

theorem unpack_spritesheet_frames_witness:
  "files unpack_example_world ''sheet.png'' = Some (ImageFile (solid 300 200 (255, 0, 0, 255)))
   \<and> output_folder_of ''sheet.png'' = ''sheet'' \<and> \<not> is_file unpack_example_world ''sheet''
   \<and> parse_dims ''3:2'' = Inr (3, 2)
   \<and> (\<exists>w'. unpack_spritesheet ''sheet.png'' ''3:2'' unpack_example_world = (Inr (), w')
         \<and> files w' (py_join ''sheet'' (frame_name 5))
             = Some (ImageFile (sheet_cell (solid 300 200 (255, 0, 0, 255)) 150 66 2 1)))"
proof -
  note f = unpack_example_facts
  have p: "parse_dims ''3:2'' = Inr (3, 2)" by code_simp
  have pos: "(0::int) < 3" "(0::int) < 2" by simp_all
  from unpack_spritesheet_frames[OF f(1,2,3,4,5) p pos]
  obtain w' where A: "unpack_spritesheet ''sheet.png'' ''3:2'' unpack_example_world = (Inr (), w')"
    and B: "\<forall>row col. 0 \<le> row \<and> row < 3 \<and> 0 \<le> col \<and> col < 2 \<longrightarrow>
         files w' (py_join ''sheet'' (frame_name (row * 2 + col)))
           = Some (ImageFile (sheet_cell (solid 300 200 (255, 0, 0, 255))
                (int (width (solid 300 200 (255, 0, 0, 255))) div 2)
                (int (height (solid 300 200 (255, 0, 0, 255))) div 3) row col))"
    by blast
  have "files w' (py_join ''sheet'' (frame_name 5))
      = Some (ImageFile (sheet_cell (solid 300 200 (255, 0, 0, 255)) 150 66 2 1))"
    using B[rule_format, of 2 1] by simp
  then show ?thesis using f(1,2,3) p A by blast
qed

text \<open>
  C13.  The worked example of the documentation, as the code computes it: a
  \<open>300 \<times> 200\<close> sheet unpacked with \<open>"3:2"\<close> (three rows, two columns) gives six
  frames \<open>frame_0000.png\<close> \<dots> \<open>frame_0005.png\<close> of \<open>150 \<times> 66\<close> pixels
  (\<open>300 // 2\<close> by \<open>200 // 3\<close>), not \<open>100 \<times> 100\<close>; the bottom \<open>2\<close> pixel rows are dropped.
\<close>

theorem unpack_300x200_rows3_cols2:
  "\<exists>w'. unpack_spritesheet ''sheet.png'' ''3:2'' unpack_example_world = (Inr (), w')
     \<and> list_all (\<lambda>(name, r, c). files w' (''sheet/'' @ name)
                   = Some (ImageFile (sheet_cell (solid 300 200 (255, 0, 0, 255)) 150 66 r c)))
         [(''frame_0000.png'', 0, 0), (''frame_0001.png'', 0, 1), (''frame_0002.png'', 1, 0),
          (''frame_0003.png'', 1, 1), (''frame_0004.png'', 2, 0), (''frame_0005.png'', 2, 1)]
     \<and> width (sheet_cell (solid 300 200 (255, 0, 0, 255)) 150 66 0 0) = 150
     \<and> height (sheet_cell (solid 300 200 (255, 0, 0, 255)) 150 66 0 0) = 66
     \<and> stdout w' = [''Unpacked 6 frames into folder: sheet'']"
proof -
  note f = unpack_example_facts
  have p: "parse_dims ''3:2'' = Inr (3, 2)" by code_simp
  have fw: "int (width (solid 300 200 (255, 0, 0, 255))) div 2 = 150" by simp
  have fh: "int (height (solid 300 200 (255, 0, 0, 255))) div 3 = 66" by simp
  obtain w' where w': "unpack_spritesheet ''sheet.png'' ''3:2'' unpack_example_world = (Inr (), w')"
    "files w' = foldl (store_cell ''sheet'' 2 (solid 300 200 (255, 0, 0, 255)) 150 66)
                  (files unpack_example_world) (grid_cells 3 2)"
    "stdout w' = stdout unpack_example_world @ [''Unpacked '' @ str_of_int (3 * 2) @ '' frames into folder: '' @ ''sheet'']"
    using unpack_run[OF f(1,2,3,4,5) p] fw fh by auto
  have s: "stdout w' = [''Unpacked 6 frames into folder: sheet'']"
    using w'(3) by (simp add: unpack_example_world_def) code_simp
  have names: "map (\<lambda>k. py_join ''sheet'' (frame_name k)) [0, 1, 2, 3, 4, 5] =
     map (\<lambda>n. ''sheet/'' @ n) [''frame_0000.png'', ''frame_0001.png'', ''frame_0002.png'',
       ''frame_0003.png'', ''frame_0004.png'', ''frame_0005.png'']"
    by code_simp
  note look = store_grid_lookup[of 2 _ 3 _ "''sheet''" "solid 300 200 (255, 0, 0, 255)" 150 66
      "files unpack_example_world", simplified]
  have l: "list_all (\<lambda>(name, r, c). files w' (''sheet/'' @ name)
                   = Some (ImageFile (sheet_cell (solid 300 200 (255, 0, 0, 255)) 150 66 r c)))
         [(''frame_0000.png'', 0, 0), (''frame_0001.png'', 0, 1), (''frame_0002.png'', 1, 0),
          (''frame_0003.png'', 1, 1), (''frame_0004.png'', 2, 0), (''frame_0005.png'', 2, 1)]"
    using names look[of 0 0] look[of 0 1] look[of 1 0] look[of 1 1] look[of 2 0] look[of 2 1]
    by (simp add: w'(2))
  show ?thesis using w'(1) s l by (simp add: sheet_cell_def)
qed

text \<open>
  C15.  A dimension string that is not two integers separated by one colon makes the
  run raise \<open>ValueError\<close>, but only after \<open>os.makedirs\<close>: the output folder exists
  afterwards, while no file is written and nothing is printed.
\<close>

theorem unpack_malformed_dims:
  assumes img: "files w image_path = Some (ImageFile sheet)"
    and out: "output_folder_of image_path = out" "\<not> is_file w out" "out \<noteq> []"
    and bad: "parse_dims dims = Inl ValueError"
  shows "\<exists>w'. unpack_spritesheet image_path dims w = (Inl ValueError, w')
           \<and> is_dir w' out \<and> files w' = files w \<and> stdout w' = stdout w"
proof -
  obtain w1 where w1: "os_makedirs out w = (Inr (), w1)" "is_dir w1 out" "files w1 = files w"
      "stdout w1 = stdout w"
    using os_makedirs_ok[OF out(2,3)] by blast
  have op: "image_open image_path w1 = (Inr sheet, w1)"
    using img w1(3) by (simp add: image_open_def)
  show ?thesis using w1 op bad out(1) by (simp add: unpack_spritesheet_def)
qed

theorem unpack_malformed_dims_witness:
  "files unpack_example_world ''sheet.png'' = Some (ImageFile (solid 300 200 (255, 0, 0, 255)))
   \<and> output_folder_of ''sheet.png'' = ''sheet'' \<and> \<not> is_file unpack_example_world ''sheet''
   \<and> parse_dims ''3x2'' = Inl ValueError
   \<and> (\<exists>w'. unpack_spritesheet ''sheet.png'' ''3x2'' unpack_example_world = (Inl ValueError, w')
         \<and> is_dir w' ''sheet'')"
proof -
  note f = unpack_example_facts
  have p: "parse_dims ''3x2'' = Inl ValueError" by code_simp
  show ?thesis using unpack_malformed_dims[OF f(1,2,3,4) p] f p by blast
qed

text \<open>
  C16.  A zero row or column count raises \<open>ZeroDivisionError\<close> (from \<open>width // cols\<close>
  or \<open>height // rows\<close>), again after the output folder was created and before any
  frame is written.
\<close>

theorem unpack_zero_dims:
  assumes img: "files w image_path = Some (ImageFile sheet)"
    and out: "output_folder_of image_path = out" "\<not> is_file w out" "out \<noteq> []"
    and dims: "parse_dims dims = Inr (rows, cols)" and zero: "rows = 0 \<or> cols = 0"
  shows "\<exists>w'. unpack_spritesheet image_path dims w = (Inl ZeroDivisionError, w')
           \<and> is_dir w' out \<and> files w' = files w \<and> stdout w' = stdout w"
proof -
  obtain w1 where w1: "os_makedirs out w = (Inr (), w1)" "is_dir w1 out" "files w1 = files w"
      "stdout w1 = stdout w"
    using os_makedirs_ok[OF out(2,3)] by blast
  have op: "image_open image_path w1 = (Inr sheet, w1)"
    using img w1(3) by (simp add: image_open_def)
  show ?thesis
  proof (cases "cols = 0")
    case True
    then show ?thesis using w1 op dims out(1) by (simp add: unpack_spritesheet_def)
  next
    case False
    with zero have "rows = 0" by simp
    then show ?thesis using False w1 op dims out(1) by (simp add: unpack_spritesheet_def)
  qed
qed

theorem unpack_zero_dims_witness:
  "files unpack_example_world ''sheet.png'' = Some (ImageFile (solid 300 200 (255, 0, 0, 255)))
   \<and> output_folder_of ''sheet.png'' = ''sheet'' \<and> \<not> is_file unpack_example_world ''sheet''
   \<and> parse_dims ''0:2'' = Inr (0, 2)
   \<and> (\<exists>w'. unpack_spritesheet ''sheet.png'' ''0:2'' unpack_example_world = (Inl ZeroDivisionError, w')
         \<and> is_dir w' ''sheet'')"
proof -
  note f = unpack_example_facts
  have p: "parse_dims ''0:2'' = Inr (0, 2)" by code_simp
  have z: "(0::int) = 0 \<or> (2::int) = 0" by simp
  show ?thesis using unpack_zero_dims[OF f(1,2,3,4) p z] f p by blast
qed

text \<open>
  C14.  Negative counts are not rejected: with \<open>rows < 0\<close> or \<open>cols < 0\<close> (both non-zero)
  the loops are empty, so no frame is written, yet the run ends normally and reports
  \<open>rows * cols\<close> frames; for \<open>"-2:-3"\<close> it prints \<open>Unpacked 6 frames\<close> having written none.
\<close>

theorem unpack_negative_dims:
  assumes img: "files w image_path = Some (ImageFile sheet)"
    and out: "output_folder_of image_path = out" "\<not> is_file w out" "out \<noteq> []"
    and dims: "parse_dims dims = Inr (rows, cols)" "rows \<noteq> 0" "cols \<noteq> 0"
    and neg: "rows < 0 \<or> cols < 0"
  shows "\<exists>w'. unpack_spritesheet image_path dims w = (Inr (), w') \<and> files w' = files w
           \<and> stdout w' = stdout w @ [''Unpacked '' @ str_of_int (rows * cols) @ '' frames into folder: '' @ out]"
proof -
  obtain w1 where w1: "os_makedirs out w = (Inr (), w1)" "files w1 = files w" "stdout w1 = stdout w"
    using os_makedirs_ok[OF out(2,3)] by blast
  have op: "image_open image_path w1 = (Inr sheet, w1)"
    using img w1(2) by (simp add: image_open_def)
  have loops: "extract_rows sheet out cols fw fh [0..rows - 1] w1 = (Inr (), w1)" for fw fh
  proof (cases "rows < 0")
    case True
    then have "[0..rows - 1] = []" by simp
    then show ?thesis by simp
  next
    case False
    with neg have "cols \<le> 0" by simp
    then show ?thesis by (rule extract_rows_no_cols)
  qed
  show ?thesis
    using w1 op dims loops out(1) by (simp add: unpack_spritesheet_def py_print_def)
qed

theorem unpack_negative_dims_witness:
  "files unpack_example_world ''sheet.png'' = Some (ImageFile (solid 300 200 (255, 0, 0, 255)))
   \<and> output_folder_of ''sheet.png'' = ''sheet'' \<and> \<not> is_file unpack_example_world ''sheet''
   \<and> parse_dims ''-2:-3'' = Inr (-2, -3)
   \<and> (\<exists>w'. unpack_spritesheet ''sheet.png'' ''-2:-3'' unpack_example_world = (Inr (), w')
         \<and> files w' = files unpack_example_world
         \<and> stdout w' = [''Unpacked 6 frames into folder: sheet''])"
proof -
  note f = unpack_example_facts
  have p: "parse_dims ''-2:-3'' = Inr (-2, -3)" by code_simp
  have d: "(-2::int) \<noteq> 0" "(-3::int) \<noteq> 0" "(-2::int) < 0 \<or> (-3::int) < 0" by simp_all
  have m: "''Unpacked '' @ str_of_int (-2 * -3) @ '' frames into folder: '' @ ''sheet''
      = ''Unpacked 6 frames into folder: sheet''" by code_simp
  show ?thesis
    using unpack_negative_dims[OF f(1,2,3,4) p d] f p m by (simp add: unpack_example_world_def)
qed

text \<open>
  C12.  Printing a pair of integers as \<open>rows:cols\<close> and parsing it back with
  \<open>map(int, dimensions.split(':'))\<close> gives the pair.
\<close>

theorem parse_dims_roundtrip:
  "parse_dims (str_of_int rows @ CHR '':'' # str_of_int cols) = Inr (rows, cols)"
  by (simp add: parse_dims_def py_split_dims py_int_str_of_int)


text \<open>
  C27.  The two nested loops of lines 76--83 are one loop over the cells in row-major
  order: \<open>extract_rows\<close> over \<open>range(rows)\<close> is \<open>save_cells\<close> over \<open>grid_cells\<close>, and
  the frames it saves are named \<open>frame_0000.png\<close>, \<open>frame_0001.png\<close>, ... in that
  order.
\<close>

theorem extract_rows_row_major:
  assumes "0 \<le> cols"
  shows "extract_rows sheet folder cols fw fh [0..rows - 1] = save_cells sheet folder cols fw fh (grid_cells rows cols)
         \<and> map (cell_name cols) (grid_cells rows cols) = map (\<lambda>k. frame_name (int k)) [0..<nat rows * nat cols]"
  using grid_cell_names[OF assms, of rows] by (simp add: extract_rows_flat grid_cells_def)

theorem extract_rows_row_major_witness:
  "0 \<le> (2::int)
   \<and> extract_rows (solid 2 1 (255, 0, 0, 255)) ''sheet'' 2 1 1 [0..1 - 1]
       = save_cells (solid 2 1 (255, 0, 0, 255)) ''sheet'' 2 1 1 (grid_cells 1 2)
   \<and> map (cell_name 2) (grid_cells 1 2) = map (\<lambda>k. frame_name (int k)) [0..<nat 1 * nat 2]"
proof -
  have h: "0 \<le> (2::int)" by simp
  show ?thesis using extract_rows_row_major[OF h, of "solid 2 1 (255, 0, 0, 255)" "''sheet''" 1 1 1] h by blast
qed

text \<open>
  C28.  A frame that cannot be written stops the unpacker half-way, and nothing is
  cleaned up: when the path of frame \<open>j\<close> is a directory and no earlier frame's path is,
  the run raises \<open>IsADirectoryError\<close> after writing exactly the frames
  \<open>0, ..., j - 1\<close> (the first \<open>j\<close> cells in row-major order, as a full run writes them),
  with the output folder created and nothing printed.
\<close>

theorem unpack_blocked_frame:
  assumes img: "files w image_path = Some (ImageFile sheet)"
    and out: "output_folder_of image_path = out" "\<not> is_file w out" "out \<noteq> []"
    and dims: "parse_dims dims = Inr (rows, cols)" "0 < rows" "0 < cols"
    and j: "j < nat rows * nat cols" and blocked: "is_dir w (py_join out (frame_name (int j)))"
    and free: "\<forall>k < j. \<not> is_dir w (py_join out (frame_name (int k)))"
  shows "\<exists>w'. unpack_spritesheet image_path dims w = (Inl IsADirectoryError, w')
     \<and> files w' = foldl (store_cell out cols sheet (int (width sheet) div cols) (int (height sheet) div rows))
                    (files w) (take j (grid_cells rows cols))
     \<and> stdout w' = stdout w \<and> is_dir w' out"
proof -
  let ?fw = "int (width sheet) div cols" and ?fh = "int (height sheet) div rows"
  let ?g = "grid_cells rows cols"
  have len: "length ?g = nat rows * nat cols" by (simp add: grid_cells_nat)
  have nm: "cell_path out cols (?g ! i) = py_join out (frame_name (int i))" if "i < length ?g" for i
  proof -
    have "map (cell_name cols) ?g ! i = frame_name (int i)"
      using grid_cell_names[of cols rows] dims(3) that len by simp
    then show ?thesis using that by (simp add: cell_path_name)
  qed
  obtain w1 where w1: "os_makedirs out w = (Inr (), w1)" "is_dir w1 out" "files w1 = files w"
      "stdout w1 = stdout w" "\<forall>q. q \<noteq> out \<longrightarrow> dirs w1 q = dirs w q"
    using os_makedirs_ok[OF out(2,3)] by blast
  obtain l where l: "dirs w1 out = Some l" using w1(2) by (auto simp: is_dir_def)
  have isd: "is_dir w1 (cell_path out cols x) = is_dir w (cell_path out cols x)" for x
    using w1(5) cell_path_neq_folder[of out cols x] by (simp add: is_dir_def)
  have nonneg: "\<forall>x \<in> set ?g. 0 \<le> fst x \<and> 0 \<le> snd x" by (auto simp: grid_cells_def)
  have jl: "j < length ?g" using j len by simp
  have bl: "is_dir w1 (cell_path out cols (?g ! j))" using blocked isd[of "?g ! j"] nm[OF jl] by simp
  have fr: "\<forall>x \<in> set (take j ?g). \<not> is_dir w1 (cell_path out cols x)"
  proof
    fix x
    assume "x \<in> set (take j ?g)"
    then obtain i where i: "i < j" "x = ?g ! i" using jl by (auto simp: in_set_conv_nth)
    then have "cell_path out cols x = py_join out (frame_name (int i))" using nm jl by simp
    then show "\<not> is_dir w1 (cell_path out cols x)" using free i(1) isd[of x] by simp
  qed
  have fw: "0 \<le> ?fw" "0 \<le> ?fh" using dims by (simp_all add: pos_imp_zdiv_nonneg_iff)
  obtain w' where w': "save_cells sheet out cols ?fw ?fh ?g w1 = (Inl IsADirectoryError, w')"
      "files w' = foldl (store_cell out cols sheet ?fw ?fh) (files w1) (take j ?g)"
      "stdout w' = stdout w1" "dirs w' out \<noteq> None"
    using save_cells_blocked[OF l fw(1) fw(2) nonneg jl bl fr] by blast
  have op: "image_open image_path w1 = (Inr sheet, w1)" using img w1(3) by (simp add: image_open_def)
  have ex: "extract_rows sheet out cols ?fw ?fh [0..rows - 1] = save_cells sheet out cols ?fw ?fh ?g"
    by (simp add: extract_rows_flat grid_cells_def)
  have "unpack_spritesheet image_path dims w = (Inl IsADirectoryError, w')"
    using w1(1) op dims w'(1) out(1) ex by (simp add: unpack_spritesheet_def)
  then show ?thesis using w' w1 by (auto simp: is_dir_def)
qed

theorem unpack_blocked_frame_witness:
  "files blocked_frame_world ''sheet.png'' = Some (ImageFile (solid 2 1 (255, 0, 0, 255)))
   \<and> output_folder_of ''sheet.png'' = ''sheet'' \<and> \<not> is_file blocked_frame_world ''sheet''
   \<and> parse_dims ''1:2'' = Inr (1, 2)
   \<and> (1::nat) < nat 1 * nat 2 \<and> is_dir blocked_frame_world (py_join ''sheet'' (frame_name (int 1)))
   \<and> \<not> is_dir blocked_frame_world (py_join ''sheet'' (frame_name (int 0)))
   \<and> (\<exists>w'. unpack_spritesheet ''sheet.png'' ''1:2'' blocked_frame_world = (Inl IsADirectoryError, w')
        \<and> files w' = foldl (store_cell ''sheet'' 2 (solid 2 1 (255, 0, 0, 255))
                         (int (width (solid 2 1 (255, 0, 0, 255))) div 2) (int (height (solid 2 1 (255, 0, 0, 255))) div 1))
                         (files blocked_frame_world) (take 1 (grid_cells 1 2))
        \<and> stdout w' = stdout blocked_frame_world \<and> is_dir w' ''sheet'')"
proof -
  have img: "files blocked_frame_world ''sheet.png'' = Some (ImageFile (solid 2 1 (255, 0, 0, 255)))"
    and nf: "\<not> is_file blocked_frame_world ''sheet''"
    by (simp_all add: blocked_frame_world_def is_file_def)
  have o: "output_folder_of ''sheet.png'' = ''sheet''" and ne: "''sheet'' \<noteq> []"
    using unpack_example_facts by simp_all
  have p: "parse_dims ''1:2'' = Inr (1, 2)" by code_simp
  have pos: "0 < (1::int)" "0 < (2::int)" by simp_all
  have j: "(1::nat) < nat 1 * nat 2" by simp
  have n1: "py_join ''sheet'' (frame_name (int 1)) = ''sheet/frame_0001.png''"
    and n0: "py_join ''sheet'' (frame_name (int 0)) = ''sheet/frame_0000.png''" by code_simp+
  have b: "is_dir blocked_frame_world (py_join ''sheet'' (frame_name (int 1)))"
    unfolding n1 by (simp add: blocked_frame_world_def is_dir_def)
  have f0: "\<not> is_dir blocked_frame_world (py_join ''sheet'' (frame_name (int 0)))"
    unfolding n0 by (simp add: blocked_frame_world_def is_dir_def)
  have fr: "\<forall>k < (1::nat). \<not> is_dir blocked_frame_world (py_join ''sheet'' (frame_name (int k)))"
    using f0 by simp
  show ?thesis using unpack_blocked_frame[OF img o nf ne p pos j b fr] img o nf p j b f0 by blast
qed

text \<open>
  C29.  A spritesheet Pillow cannot decode makes the unpacker raise
  \<open>UnidentifiedImageError\<close> after the output folder was created (line 63 runs before
  line 66): the folder is left behind, no file is written and nothing is printed.
\<close>

theorem unpack_undecodable_sheet:
  assumes "files w image_path = Some OtherFile"
    and "output_folder_of image_path = out" "\<not> is_file w out" "out \<noteq> []"
  shows "\<exists>w'. unpack_spritesheet image_path dims w = (Inl UnidentifiedImageError, w')
           \<and> is_dir w' out \<and> files w' = files w \<and> stdout w' = stdout w"
proof -
  obtain w1 where w1: "os_makedirs out w = (Inr (), w1)" "is_dir w1 out" "files w1 = files w"
      "stdout w1 = stdout w"
    using os_makedirs_ok[OF assms(3,4)] by blast
  have "image_open image_path w1 = (Inl UnidentifiedImageError, w1)"
    using assms(1) w1(3) by (simp add: image_open_def)
  then show ?thesis using w1 assms(2) by (simp add: unpack_spritesheet_def)
qed

theorem unpack_undecodable_sheet_witness:
  "files undecodable_world ''sheet.png'' = Some OtherFile
   \<and> output_folder_of ''sheet.png'' = ''sheet'' \<and> \<not> is_file undecodable_world ''sheet''
   \<and> (\<exists>w'. unpack_spritesheet ''sheet.png'' ''2:2'' undecodable_world = (Inl UnidentifiedImageError, w')
        \<and> is_dir w' ''sheet'' \<and> files w' = files undecodable_world \<and> stdout w' = [])"
proof -
  have f: "files undecodable_world ''sheet.png'' = Some OtherFile"
    and nf: "\<not> is_file undecodable_world ''sheet''"
    by (simp_all add: undecodable_world_def is_file_def)
  have o: "output_folder_of ''sheet.png'' = ''sheet''" and ne: "''sheet'' \<noteq> []"
    using unpack_example_facts by simp_all
  show ?thesis using unpack_undecodable_sheet[OF f o nf ne, of "''2:2''"] f o nf
    by (simp add: undecodable_world_def)
qed

text \<open>
  C31.  Unpacking is idempotent: when the sheet is not itself one of the frame files, a
  second unpack of the same sheet with the same \<open>rows:cols\<close> succeeds, leaves every
  file and every directory listing as the first run left them (each frame is overwritten
  with the same cell, \<open>os.makedirs\<close> accepts the existing folder) and only prints the
  message again.
\<close>

theorem unpack_twice:
  assumes img: "files w image_path = Some (ImageFile sheet)"
    and out: "output_folder_of image_path = out" "\<not> is_file w out" "out \<noteq> []"
    and nodir: "\<forall>k. \<not> is_dir w (py_join out (frame_name k))"
    and dims: "parse_dims dims = Inr (rows, cols)" "0 < rows" "0 < cols"
    and self: "\<forall>k. image_path \<noteq> py_join out (frame_name k)"
  shows "\<exists>w1 w2. unpack_spritesheet image_path dims w = (Inr (), w1)
           \<and> unpack_spritesheet image_path dims w1 = (Inr (), w2)
           \<and> files w2 = files w1 \<and> dirs w2 = dirs w1
           \<and> stdout w2 = stdout w1 @ [''Unpacked '' @ str_of_int (rows * cols) @ '' frames into folder: '' @ out]"
proof -
  let ?fw = "int (width sheet) div cols" and ?fh = "int (height sheet) div rows"
  let ?names = "map (cell_name cols) (grid_cells rows cols)"
  let ?l = "foldl listing_add (case dirs w out of None \<Rightarrow> [] | Some l \<Rightarrow> l) ?names"
  obtain w1 where w1: "unpack_spritesheet image_path dims w = (Inr (), w1)"
      "files w1 = foldl (store_cell out cols sheet ?fw ?fh) (files w) (grid_cells rows cols)"
      "dirs w1 = (dirs w)(out \<mapsto> ?l)"
    using unpack_run[OF img out nodir dims] by blast
  have again: "files w1 image_path = Some (ImageFile sheet) \<and> \<not> is_file w1 out
      \<and> (\<forall>k. \<not> is_dir w1 (py_join out (frame_name k)))"
    by (rule unpack_run_again[OF img out(2) nodir self w1(2,3)])
  then obtain w2 where w2: "unpack_spritesheet image_path dims w1 = (Inr (), w2)"
      "files w2 = foldl (store_cell out cols sheet ?fw ?fh) (files w1) (grid_cells rows cols)"
      "stdout w2 = stdout w1 @ [''Unpacked '' @ str_of_int (rows * cols) @ '' frames into folder: '' @ out]"
      "dirs w2 = (dirs w1)(out \<mapsto> foldl listing_add (case dirs w1 out of None \<Rightarrow> [] | Some l \<Rightarrow> l) ?names)"
    using unpack_run[OF _ out(1) _ out(3) _ dims] by blast
  have "files w2 = files w1" by (simp only: w2(2) w1(2) store_grid_twice)
  moreover have "dirs w2 = dirs w1"
    by (simp add: w2(4) w1(3) foldl_listing_add_twice)
  ultimately show ?thesis using w1(1) w2(1,3) by blast
qed

theorem unpack_twice_witness:
  "files unpack_example_world ''sheet.png'' = Some (ImageFile (solid 300 200 (255, 0, 0, 255)))
   \<and> output_folder_of ''sheet.png'' = ''sheet'' \<and> \<not> is_file unpack_example_world ''sheet''
   \<and> parse_dims ''3:2'' = Inr (3, 2)
   \<and> (\<forall>k. ''sheet.png'' \<noteq> py_join ''sheet'' (frame_name k))
   \<and> (\<exists>w1 w2. unpack_spritesheet ''sheet.png'' ''3:2'' unpack_example_world = (Inr (), w1)
         \<and> unpack_spritesheet ''sheet.png'' ''3:2'' w1 = (Inr (), w2)
         \<and> files w2 = files w1 \<and> dirs w2 = dirs w1
         \<and> stdout w2 = stdout w1 @ [''Unpacked '' @ str_of_int (3 * 2) @ '' frames into folder: '' @ ''sheet''])"
proof -
  note f = unpack_example_facts
  have p: "parse_dims ''3:2'' = Inr (3, 2)" by code_simp
  have pos: "(0::int) < 3" "(0::int) < 2" by simp_all
  have self: "\<forall>k. ''sheet.png'' \<noteq> py_join ''sheet'' (frame_name k)" by (simp add: py_join_def)
  show ?thesis using unpack_twice[OF f(1-5) p pos self] f(1-3) p self by blast
qed

end
