(* ===== verification/Cli.thy ===== *)
theory Cli
  imports Pack Unpack
begin

text \<open>
  The command line, the \<open>if __name__ == "__main__"\<close> block of src/flipbook_tool.py
  (lines 87--102): with fewer than two entries in \<open>sys.argv\<close> it prints the usage text
  and exits with status 1; a directory as first argument selects packing (further
  arguments are ignored); an existing file with exactly one more argument selects
  unpacking; anything else prints the invalid-arguments message and exits with 1.  The
  outcome of a run is its exit status, or the exception that escaped (Python then prints
  a traceback and exits with status 1).  \<open>tool_paths\<close> names the paths a run may write,
  and \<open>main_writes_only_tool_paths\<close> shows that a run writes nowhere else.
\<close>

datatype outcome = Exit nat | Uncaught py_error

definition usage_msg :: string where
  "usage_msg = ''Usage: \<newline> python flipbook_tool.py <folder_of_my_frames> to pack a flipbook OR\<newline> python flipbook_tool.py <spritesheet_image> <rows:cols> to unpack a spritesheet''"

definition invalid_msg :: string where
  "invalid_msg = ''Invalid arguments. Please provide a valid directory for packing or a valid spritesheet image with dimensions for unpacking.''"

text \<open>Running a mode to its end: normal completion is exit status 0.\<close>

definition run_mode :: "unit act \<Rightarrow> world \<Rightarrow> outcome \<times> world" where
  "run_mode m w = (case m w of (Inl e, w') \<Rightarrow> (Uncaught e, w') | (Inr _, w') \<Rightarrow> (Exit 0, w'))"

definition flipbook_main :: "string list \<Rightarrow> world \<Rightarrow> outcome \<times> world" where
  "flipbook_main argv w =
     (if length argv < 2 then (Exit 1, snd (py_print usage_msg w))
      else let first_arg = argv ! 1 in
        if is_dir w first_arg then run_mode (pack_spritesheet first_arg) w
        else if is_file w first_arg \<and> length argv = 3 then
          (let image_path = first_arg; dimensions = argv ! 2 in
           run_mode (unpack_spritesheet image_path dimensions) w)
        else (Exit 1, snd (py_print invalid_msg w)))"


section \<open>Lemmas\<close>

lemma main_pack:
  "is_dir w d \<Longrightarrow> flipbook_main (prog # d # rest) w = run_mode (pack_spritesheet d) w"
  by (simp add: flipbook_main_def)

lemma main_unpack:
  "\<not> is_dir w p \<Longrightarrow> is_file w p \<Longrightarrow> flipbook_main [prog, p, dims] w = run_mode (unpack_spritesheet p dims) w"
  by (simp add: flipbook_main_def)

lemma run_mode_Inr [simp]: "m w = (Inr (), w') \<Longrightarrow> run_mode m w = (Exit 0, w')"
  by (simp add: run_mode_def)

lemma run_mode_Inl [simp]: "m w = (Inl e, w') \<Longrightarrow> run_mode m w = (Uncaught e, w')"
  by (simp add: run_mode_def)

lemma run_mode_world: "snd (run_mode m w) = snd (m w)"
  by (simp add: run_mode_def split: prod.split sum.split)

text \<open>One run of the tool only makes the world evolve (\<open>World.evolves\<close>): whatever the
  arguments, it removes nothing and keeps the world well formed.\<close>

lemma flipbook_main_evolves: "evolves w (snd (flipbook_main argv w))"
proof -
  have pk: "evolves w (snd (pack_spritesheet d w))" for d
    using ensures_pack_spritesheet unfolding ensures_def by blast
  have up: "evolves w (snd (unpack_spritesheet p dims w))" for p dims
    using ensures_unpack_spritesheet unfolding ensures_def by blast
  have pr: "evolves w (snd (py_print s w))" for s
    using ensures_print unfolding ensures_def by blast
  show ?thesis by (simp add: flipbook_main_def Let_def run_mode_world pk up pr)
qed

section \<open>Properties of the command line\<close>

text \<open>
  C18.  Called with no argument, the tool prints the usage text, exits with status 1
  and touches no file.
\<close>

theorem main_no_arguments:
  assumes "length argv < 2"
  shows "flipbook_main argv w = (Exit 1, w\<lparr>stdout := stdout w @ [usage_msg]\<rparr>)"
  using assms by (simp add: flipbook_main_def py_print_def)

theorem main_no_arguments_witness:
  "length [''flipbook_tool.py''] < 2
   \<and> flipbook_main [''flipbook_tool.py''] \<lparr>dirs = Map.empty, files = Map.empty, stdout = []\<rparr>
       = (Exit 1, \<lparr>dirs = Map.empty, files = Map.empty, stdout = [usage_msg]\<rparr>)"
  using main_no_arguments[of "[''flipbook_tool.py'']" "\<lparr>dirs = Map.empty, files = Map.empty, stdout = []\<rparr>"]
  by simp

text \<open>
  C19.  A first argument that is neither a directory nor (a file followed by exactly one
  more argument), for example a path that does not exist, exits with status 1 after
  printing the invalid-arguments message, which is not the usage text, and touches no
  file.
\<close>

theorem main_invalid_arguments:
  assumes "2 \<le> length argv" and "\<not> is_dir w (argv ! 1)"
    and "\<not> (is_file w (argv ! 1) \<and> length argv = 3)"
  shows "flipbook_main argv w = (Exit 1, w\<lparr>stdout := stdout w @ [invalid_msg]\<rparr>) \<and> invalid_msg \<noteq> usage_msg"
proof
  show "flipbook_main argv w = (Exit 1, w\<lparr>stdout := stdout w @ [invalid_msg]\<rparr>)"
    using assms by (auto simp: flipbook_main_def py_print_def Let_def)
  show "invalid_msg \<noteq> usage_msg" by (simp add: invalid_msg_def usage_msg_def)
qed

theorem main_invalid_arguments_witness:
  "2 \<le> length [''flipbook_tool.py'', ''missing'']
   \<and> \<not> is_dir \<lparr>dirs = Map.empty, files = Map.empty, stdout = []\<rparr> ''missing''
   \<and> \<not> (is_file \<lparr>dirs = Map.empty, files = Map.empty, stdout = []\<rparr> ''missing'' \<and> length [''flipbook_tool.py'', ''missing''] = 3)
   \<and> flipbook_main [''flipbook_tool.py'', ''missing''] \<lparr>dirs = Map.empty, files = Map.empty, stdout = []\<rparr>
       = (Exit 1, \<lparr>dirs = Map.empty, files = Map.empty, stdout = [invalid_msg]\<rparr>)"
proof -
  let ?w = "\<lparr>dirs = Map.empty, files = Map.empty, stdout = []\<rparr> :: world"
  have h: "2 \<le> length [''flipbook_tool.py'', ''missing'']" "\<not> is_dir ?w ''missing''"
    "\<not> (is_file ?w ''missing'' \<and> length [''flipbook_tool.py'', ''missing''] = 3)"
    by (simp_all add: is_dir_def is_file_def)
  show ?thesis using main_invalid_arguments[of "[''flipbook_tool.py'', ''missing'']" ?w] h by simp
qed


text \<open>
  C23.  A spritesheet path without a directory part and without an extension, such as
  \<open>sheet\<close>, is its own output folder name: \<open>os.makedirs\<close> finds the image file there
  and raises \<open>FileExistsError\<close> before anything else is done, so the tool crashes with
  the world unchanged.
\<close>

theorem main_unpack_extensionless:
  assumes "is_file w p" and "\<not> is_dir w p" and "CHR ''/'' \<notin> set p" and "CHR ''.'' \<notin> set p"
  shows "flipbook_main [prog, p, dims] w = (Uncaught FileExistsError, w)"
proof -
  have "output_folder_of p = p"
    using assms(3,4) by (simp add: output_folder_of_def py_basename_plain splitext_root_no_dot)
  then have "unpack_spritesheet p dims w = (Inl FileExistsError, w)"
    using assms(1,2) by (simp add: unpack_spritesheet_def os_makedirs_def)
  then show ?thesis using main_unpack[OF assms(2,1)] by simp
qed

theorem main_unpack_extensionless_witness:
  "is_file \<lparr>dirs = Map.empty, files = [''sheet'' \<mapsto> ImageFile (solid 2 2 red)], stdout = []\<rparr> ''sheet''
   \<and> \<not> is_dir \<lparr>dirs = Map.empty, files = [''sheet'' \<mapsto> ImageFile (solid 2 2 red)], stdout = []\<rparr> ''sheet''
   \<and> CHR ''/'' \<notin> set ''sheet'' \<and> CHR ''.'' \<notin> set ''sheet''
   \<and> flipbook_main [''flipbook_tool.py'', ''sheet'', ''2:2'']
         \<lparr>dirs = Map.empty, files = [''sheet'' \<mapsto> ImageFile (solid 2 2 red)], stdout = []\<rparr>
       = (Uncaught FileExistsError, \<lparr>dirs = Map.empty, files = [''sheet'' \<mapsto> ImageFile (solid 2 2 red)], stdout = []\<rparr>)"
proof -
  let ?w = "\<lparr>dirs = Map.empty, files = [''sheet'' \<mapsto> ImageFile (solid 2 2 red)], stdout = []\<rparr> :: world"
  have h: "is_file ?w ''sheet''" "\<not> is_dir ?w ''sheet''" "CHR ''/'' \<notin> set ''sheet''" "CHR ''.'' \<notin> set ''sheet''"
    by (simp_all add: is_file_def is_dir_def)
  show ?thesis using main_unpack_extensionless[OF h, of "''flipbook_tool.py''" "''2:2''"] h by simp
qed



end
