(* ===== verification/Spec2Isabelle.thy ===== *)
theory Spec2Isabelle
  imports Cli
begin

text \<open>
  \<^bold>\<open>A verification development of flipbook_tool\<close> (src/flipbook_tool.py, one Python
  script).  The tool packs a folder of frame images into one grid "spritesheet" and
  slices a spritesheet back into frames.  Its parts and how they interact:
  \<^item> the grid planner \<open>calc_grid_size\<close> (lines 7--13) picks \<open>(rows, cols)\<close> for a
    frame count;
  \<^item> the frame orderer \<open>sort_image_files\<close> with \<open>extract_number\<close> (lines 15--21)
    orders file names by their first decimal number;
  \<^item> the packer \<open>pack_spritesheet\<close> (lines 23--58) lists a folder, filters image files
    by extension, orders them, plans the grid, pastes the frames onto a transparent RGBA
    canvas and saves \<open>flipbook_{rows}x{cols}.tga\<close>;
  \<^item> the unpacker \<open>unpack_spritesheet\<close> (lines 60--85) creates an output folder,
    parses \<open>rows:cols\<close>, crops every cell and saves \<open>frame_{k:04d}.png\<close>;
  \<^item> the command line (lines 87--102) dispatches on \<open>sys.argv\<close> and the file system.
  Pack calls the orderer and the planner; the command line calls pack or unpack; pack
  and unpack meet in the files they write, which is where the round-trip theorems of
  this theory live.

  \<^bold>\<open>Theories.\<close>
  \<^item> \<open>Prelude\<close>: Python exceptions (\<open>py_error\<close>), the result type \<open>'a py = py_error + 'a\<close>
    with \<open>py_bind\<close>, floor division with \<open>ZeroDivisionError\<close>, and list/map lemmas
    shared by the components (maps updated along a list, row-major index arithmetic).
  \<^item> \<open>PyStr\<close>: the Python primitives on strings and paths the tool calls (\<open>str\<close>,
    \<open>int\<close>, \<open>:04d\<close>, \<open>lower\<close>, \<open>endswith\<close>, \<open>split\<close>, \<open>strip\<close>, \<open>os.path\<close>), modelled
    from Python's reference semantics for code points below 256, with the round trips
    \<open>int(str(i)) = i\<close> and \<open>split\<close> of a joined pair.
  \<^item> \<open>Grid\<close>: \<open>isqrt\<close> (\<open>int(math.sqrt n)\<close>, shown equal to \<open>\<lfloor>sqrt n\<rfloor>\<close> by the
    lemma \<open>isqrt_real\<close>), \<open>calc_grid_loop\<close> (the downward scan) and
    \<open>calc_grid_size\<close>; exactness, most-square layout, primes, the fallback (C4, C5, C20,
    C21).
  \<^item> \<open>FrameOrder\<close>: the key type \<open>sort_key\<close> (an int or \<open>float('inf')\<close>) with its
    \<open>linorder\<close> instance, \<open>extract_number\<close>, \<open>sort_image_files\<close>, the extension
    filter; names built as prefix, number and suffix are ordered as the stable sort of
    their numbers (ties in listing order), the key round trip, names without any digit
    last (C6, C11, C30).
  \<^item> \<open>Image\<close>: Pillow's \<open>Image.new\<close>, \<open>paste\<close> and \<open>crop\<close> on RGBA images (\<open>8 word\<close>
    channels) with the invariant \<open>wf_image\<close> (transparent outside the bounds).
  \<^item> \<open>World\<close>: the file system and standard output as a record, the action type
    \<open>'a act = world \<Rightarrow> 'a py \<times> world\<close> (an exception keeps the effects made before it),
    the library calls as actions, the invariant \<open>wf_world\<close> (images well formed, no path
    both a file and a directory), the order \<open>world_le\<close> (nothing removed) and the
    predicate \<open>ensures Q m\<close> with the rules \<open>ensures_intros\<close>; the frame predicate
    \<open>writes_within S m\<close> (the action changes files and listings only at paths of \<open>S\<close>)
    with one rule per primitive and combinator (\<open>writes_intros\<close>); the monad laws of
    \<open>act_bind\<close> (\<open>act_bind_assoc\<close>) used to flatten nested loops.
  \<^item> \<open>Pack\<close>: \<open>paste_images\<close> (the loop, opening each file), \<open>paste_frames\<close> (the
    loop on opened images), \<open>pack_spritesheet\<close>; the specification \<open>grid_image\<close> and
    the refinement \<open>paste_frames_grid_image\<close>; the run lemmas \<open>pack_run_any\<close>,
    \<open>pack_run\<close>, \<open>pack_run_fail\<close> and \<open>writes_pack_spritesheet\<close>; the contract, an
    unreadable frame, repacking, the empty folder, a subdirectory named like an image,
    the shape of the written sheet (C2, C8, C9, C17, C22, C26).
  \<^item> \<open>Unpack\<close>: \<open>parse_dims\<close>, \<open>frame_name\<close>, \<open>extract_rows\<close>/\<open>extract_cols\<close> (the
    nested loops), \<open>unpack_spritesheet\<close>; the cell specification \<open>sheet_cell\<close>, the run
    lemma \<open>unpack_run\<close> and \<open>writes_unpack_spritesheet\<close>; the contract, the dimension
    round trip, the documented example, negative, malformed and zero dimensions (C3,
    C12--C16); \<open>save_cells\<close>, one loop over \<open>grid_cells\<close> in row-major order, shown equal
    to the nested loops (C27), a frame path that is a directory stopping the loop
    half-way with the earlier frames left in place (C28), an undecodable sheet (C29),
    and unpacking twice leaving the files and listings of one run (C31).
  \<^item> \<open>Cli\<close>: \<open>flipbook_main\<close> on \<open>sys.argv\<close> and the world, with outcomes \<open>Exit n\<close> or
    \<open>Uncaught e\<close>; \<open>tool_paths argv\<close>, the paths a run with these arguments may write;
    a run writes nowhere else, also when it fails (C7); the usage and invalid-argument
    paths and the crash on a sheet without an extension (C18, C19, C23).
  \<^item> this theory: the properties that span components: pack then unpack is the
    identity on frames (C1), unpacked frames re-pack in index order (C10), unpack then
    pack rebuilds a sheet laid out as the packer would lay it out (C24) and changes the
    layout otherwise (C25).

  \<^bold>\<open>Bounds and assumptions.\<close>  Python ints are \<open>int\<close> (frame counts and pixel sizes,
  which cannot be negative, are \<open>nat\<close>); no loop needs fuel: every loop of the tool runs
  over a finite \<open>range\<close> or list and is structural recursion, so every run returns, and
  the theorems state the result of a run, never only a property of a result if there is
  one.  \<open>int(math.sqrt n)\<close> is modelled as the exact floor square root (\<open>isqrt_real\<close>),
  which is what the double-precision square root gives for every \<open>n < 2^52\<close>, far
  beyond any folder of frames.  Characters are code points below 256.  Paths are compared
  as strings.  A save appends a new name to its directory's listing and keeps the earlier
  order; the real order of \<open>os.listdir\<close> is unspecified, so where frames tie on their key
  (C6) the repacked order of C9 holds for this listing order only.

  \<^bold>\<open>Not modelled.\<close>  Image decoding and encoding (a file holds a decoded RGBA image or
  something Pillow cannot open; conversion of RGB or palette images to RGBA is taken as
  done), encoder failures (for example when a frame of zero width is saved, which happens
  when \<open>cols\<close> exceeds the sheet's width), file-system errors other than the ones the
  code's own calls raise on missing or mistyped paths (permissions, full disks), symbolic
  links and path normalisation, and the printing of tracebacks.  The \<open>import\<close> lines
  (1--5) hold no behaviour.
\<close>

section \<open>Definitions\<close>

text \<open>The stem of the sheet's name, \<open>flipbook_{rows}x{cols}\<close> (line 55): the folder
  the unpacker creates for that sheet (line 62).\<close>

definition sheet_stem :: "nat \<Rightarrow> nat \<Rightarrow> string" where
  "sheet_stem rows cols = ''flipbook_'' @ str_of_nat rows @ ''x'' @ str_of_nat cols"

text \<open>Example data: a \<open>2 \<times> 1\<close> and a \<open>2 \<times> 3\<close> red sheet in the current directory.\<close>

definition small_sheet_world :: world where
  "small_sheet_world = \<lparr>dirs = Map.empty, files = [''sheet.png'' \<mapsto> ImageFile (solid 2 1 red)], stdout = []\<rparr>"

definition tall_sheet_world :: world where
  "tall_sheet_world = \<lparr>dirs = Map.empty, files = [''sheet.png'' \<mapsto> ImageFile (solid 2 3 red)], stdout = []\<rparr>"

section \<open>Cross-component lemmas\<close>

lemma output_filename_chars:
  "CHR ''/'' \<notin> set (output_filename r c) \<and> output_filename r c \<noteq> [] \<and> hd (output_filename r c) \<noteq> CHR ''/''
   \<and> CHR ''.'' \<in> set (output_filename r c)"
  using str_of_nat_no_sep[of r] str_of_nat_no_sep[of c] by (simp add: output_filename_def)

lemma output_folder_of_sheet:
  "output_folder_of (py_join folder (output_filename r c)) = sheet_stem r c"
proof -
  have b: "py_basename (py_join folder (output_filename r c)) = output_filename r c"
    using output_filename_chars[of r c] by (intro py_basename_join) simp_all
  have "output_filename r c = sheet_stem r c @ CHR ''.'' # ''tga''"
    by (simp add: output_filename_def sheet_stem_def)
  moreover have "splitext_root (sheet_stem r c @ CHR ''.'' # ''tga'') = sheet_stem r c"
    using str_of_nat_no_sep[of r] str_of_nat_no_sep[of c]
    by (intro splitext_root_ext) (simp_all add: sheet_stem_def)
  ultimately show ?thesis using b by (simp add: output_folder_of_def)
qed

lemma py_join_mem: "x \<in> set b \<Longrightarrow> x \<in> set (py_join a b)"
  by (auto simp: py_join_def)

lemma sheet_cell_grid_image:
  assumes "0 < fw" and "0 < fh" and "uniform_frames fw fh ims" and "k < length ims"
    and "length ims \<le> rows * cols"
  shows "sheet_cell (grid_image rows cols fw fh ims) (int fw) (int fh) (int (k div cols)) (int (k mod cols))
         = ims ! k"
proof -
  have "crop (grid_image rows cols fw fh ims) (int (k mod cols) * int fw) (int (k div cols) * int fh)
          (int (k mod cols) * int fw + int fw) (int (k div cols) * int fh + int fh)
        = Inr (ims ! k)"
    using crop_grid_image[OF assms] by simp
  moreover have "crop (grid_image rows cols fw fh ims) (int (k mod cols) * int fw) (int (k div cols) * int fh)
          (int (k mod cols) * int fw + int fw) (int (k div cols) * int fh + int fh)
        = Inr (sheet_cell (grid_image rows cols fw fh ims) (int fw) (int fh) (int (k div cols)) (int (k mod cols)))"
    by (intro crop_sheet_cell) simp_all
  ultimately show ?thesis by simp
qed

lemma parse_dims_nat:
  "parse_dims (str_of_nat rows @ CHR '':'' # str_of_nat cols) = Inr (int rows, int cols)"
proof -
  have "str_of_nat rows = str_of_int (int rows)" "str_of_nat cols = str_of_int (int cols)"
    by (simp_all add: str_of_int_def)
  then show ?thesis by (simp add: parse_dims_def py_split_dims py_int_str_of_int)
qed

lemma extract_number_frame_name:
  assumes "0 \<le> k"
  shows "extract_number (frame_name k) = Num (nat k)"
proof -
  have p: "\<not> list_ex is_digit ''frame_''" and s: "\<not> is_digit (hd ''.png'')"
    by (simp_all add: is_digit_def)
  show ?thesis
    using extract_number_run[OF p _ _ disjI2[OF s], of "fmt_04d k"] fmt_04d_digits[OF assms]
    by (simp add: frame_name_def)
qed

lemma is_image_file_frame_name: "is_image_file (frame_name k)"
proof -
  have "map lower_char ''.png'' = ''.png''" by (simp add: lower_char_def)
  then have "suffix ''.png'' (py_lower (frame_name k))"
    by (simp add: py_lower_def frame_name_def suffix_def)
  then show ?thesis by (simp add: is_image_file_def py_endswith_def image_extensions_def)
qed

text \<open>The unpacked frame \<open>k\<close> of a grid, read at its natural index.\<close>

lemma store_grid_lookup_nat:
  assumes "0 < cols" and "k < rows * cols"
  shows "foldl (store_cell out (int cols) S fw fh) m (grid_cells (int rows) (int cols)) (py_join out (frame_name (int k)))
         = Some (ImageFile (sheet_cell S fw fh (int (k div cols)) (int (k mod cols))))"
proof -
  have ki: "int k = int (k div cols) * int cols + int (k mod cols)"
    by (metis div_mult_mod_eq of_nat_add of_nat_mult)
  have b: "0 \<le> int (k div cols)" "int (k div cols) < int rows" "0 \<le> int (k mod cols)" "int (k mod cols) < int cols"
    using assms by (simp_all add: div_less_iff_less_mult mult.commute)
  have "0 < int cols" using assms(1) by simp
  then show ?thesis unfolding ki by (rule store_grid_lookup[OF _ b])
qed

text \<open>The names \<open>frame_0000.png\<close>, ..., in index order, pass the filter and are already in
  the packer's order.\<close>

lemma frame_names_listed:
  "list_image_files (map (\<lambda>k. frame_name (int k)) [0..<n]) = map (\<lambda>k. frame_name (int k)) [0..<n]
   \<and> sort_image_files (map (\<lambda>k. frame_name (int k)) [0..<n]) = map (\<lambda>k. frame_name (int k)) [0..<n]"
proof
  show "list_image_files (map (\<lambda>k. frame_name (int k)) [0..<n]) = map (\<lambda>k. frame_name (int k)) [0..<n]"
    by (simp add: list_image_files_def is_image_file_frame_name)
  have keys: "map extract_number (map (\<lambda>k. frame_name (int k)) [0..<n]) = map Num [0..<n]"
    by (simp add: extract_number_frame_name)
  have "sorted (map extract_number (map (\<lambda>k. frame_name (int k)) [0..<n]))"
    unfolding keys by (simp add: sorted_map)
  then show "sort_image_files (map (\<lambda>k. frame_name (int k)) [0..<n]) = map (\<lambda>k. frame_name (int k)) [0..<n]"
    by (simp add: sort_image_files_def sort_key_id_if_sorted)
qed

text \<open>A well-formed sheet of exactly \<open>cols \<times> rows\<close> cells of \<open>fw \<times> fh\<close> is the grid of its
  own cells: pasting the cells back in row-major order rebuilds it.\<close>

lemma grid_image_sheet_cells:
  assumes wf: "wf_image sheet" and wd: "width sheet = cols * fw" and ht: "height sheet = rows * fh"
    and fw: "0 < fw" and fh: "0 < fh"
  shows "grid_image rows cols fw fh
           (map (\<lambda>k. sheet_cell sheet (int fw) (int fh) (int (k div cols)) (int (k mod cols))) [0..<rows * cols])
         = sheet"
proof (rule image_eqI[OF wf_grid_image wf])
  let ?cells = "map (\<lambda>k. sheet_cell sheet (int fw) (int fh) (int (k div cols)) (int (k mod cols))) [0..<rows * cols]"
  show "width (grid_image rows cols fw fh ?cells) = width sheet" using wd by simp
  show "height (grid_image rows cols fw fh ?cells) = height sheet" using ht by simp
  fix i j
  assume "i < width (grid_image rows cols fw fh ?cells)" and "j < height (grid_image rows cols fw fh ?cells)"
  then have i: "i < cols * fw" and j: "j < rows * fh" by simp_all
  let ?c = "i div fw" and ?r = "j div fh"
  have c: "?c < cols" using i div_less_iff_less_mult[OF fw] by simp
  have r: "?r < rows" using j div_less_iff_less_mult[OF fh] by simp
  have "?r * cols + ?c < Suc ?r * cols" using c by simp
  also have "\<dots> \<le> rows * cols" using r by (intro mult_le_mono1) simp
  finally have k: "?r * cols + ?c < rows * cols" .
  have kd: "(?r * cols + ?c) div cols = ?r" and km: "(?r * cols + ?c) mod cols = ?c" using c by simp_all
  have "px (grid_image rows cols fw fh ?cells) i j
      = px (sheet_cell sheet (int fw) (int fh) (int ?r) (int ?c)) (i mod fw) (j mod fh)"
    using i j k c by (simp add: px_grid_image cell_index_def kd km)
  also have "\<dots> = px sheet i j"
  proof -
    have "nat (int ?c * int fw) + i mod fw = i" "nat (int ?r * int fh) + j mod fh = j"
      by (simp_all flip: of_nat_mult)
    then show ?thesis using i j wd ht fw fh by (simp add: sheet_cell_def)
  qed
  finally show "px (grid_image rows cols fw fh ?cells) i j = px sheet i j" .
qed

text \<open>Unpacking a sheet and packing the folder it wrote: the repacked sheet is the unpacked
  frames in the packer's own grid for their number.\<close>

lemma unpack_pack_run:
  assumes img: "files w p = Some (ImageFile sheet)" and pdir: "\<not> is_dir w p"
    and wd: "width sheet = cols * fw" and ht: "height sheet = rows * fh" and fw: "0 < fw" and fh: "0 < fh"
    and c0: "0 < cols" and r0: "0 < rows" and grid: "calc_grid_size (rows * cols) = (rows', cols')"
    and out: "output_folder_of p = out" "out \<noteq> []" "\<not> is_file w out" "\<not> is_dir w out"
    and nodir: "\<forall>k. \<not> is_dir w (py_join out (frame_name k))"
    and sheet_free: "\<not> is_dir w (py_join out (output_filename rows' cols'))"
  shows "\<exists>w1 w2. flipbook_main [prog, p, str_of_nat rows @ CHR '':'' # str_of_nat cols] w = (Exit 0, w1)
     \<and> flipbook_main [prog, out] w1 = (Exit 0, w2)
     \<and> files w2 (py_join out (output_filename rows' cols'))
         = Some (ImageFile (grid_image rows' cols' fw fh
             (map (\<lambda>k. sheet_cell sheet (int fw) (int fh) (int (k div cols)) (int (k mod cols))) [0..<rows * cols])))"
proof -
  let ?dims = "str_of_nat rows @ CHR '':'' # str_of_nat cols" and ?n = "rows * cols"
  let ?names = "map (\<lambda>k. frame_name (int k)) [0..<?n]"
  let ?cells = "map (\<lambda>k. sheet_cell sheet (int fw) (int fh) (int (k div cols)) (int (k mod cols))) [0..<?n]"
  have pos: "0 < int rows" "0 < int cols" using r0 c0 by simp_all
  have isf: "is_file w p" using img by (simp add: is_file_def)
  obtain w1 where w1: "unpack_spritesheet p ?dims w = (Inr (), w1)"
      "files w1 = foldl (store_cell out (int cols) sheet (int (width sheet) div int cols) (int (height sheet) div int rows))
                    (files w) (grid_cells (int rows) (int cols))"
      "dirs w1 = (dirs w)(out \<mapsto> foldl listing_add (case dirs w out of None \<Rightarrow> [] | Some l \<Rightarrow> l)
                    (map (cell_name (int cols)) (grid_cells (int rows) (int cols))))"
    using unpack_run[OF img out(1) out(3) out(2) nodir parse_dims_nat pos] by blast
  have main1: "flipbook_main [prog, p, ?dims] w = (Exit 0, w1)"
    using main_unpack[OF pdir isf] w1(1) by simp
  have fwi: "int (width sheet) div int cols = int fw" using wd c0 by simp
  have fhi: "int (height sheet) div int rows = int fh" using ht r0 by simp
  have names: "map (cell_name (int cols)) (grid_cells (int rows) (int cols)) = ?names"
    using grid_cell_names[of "int cols" "int rows"] by simp
  have "foldl listing_add [] ?names = ?names"
    using foldl_listing_add[OF distinct_frame_names] by simp
  then have L: "dirs w1 out = Some ?names" using w1(3) out(4) names by (simp add: is_dir_def)
  have isd1: "is_dir w1 out" using L by (simp add: is_dir_def)
  have fl: "?names = sort_image_files (list_image_files ?names)" using frame_names_listed[of ?n] by simp
  have ne: "?names \<noteq> []" using r0 c0 by simp
  have ld: "load_images w1 out ?names = Inr ?cells"
  proof (rule load_images_map)
    fix k
    assume "k \<in> set [0..<?n]"
    then have "k < ?n" by simp
    then show "files w1 (py_join out (frame_name (int k)))
        = Some (ImageFile (sheet_cell sheet (int fw) (int fh) (int (k div cols)) (int (k mod cols))))"
      using store_grid_lookup_nat[OF c0, of k rows out sheet "int fw" "int fh" "files w"] w1(2) fwi fhi by simp
  qed
  have uni: "uniform_frames fw fh ?cells" by (simp add: uniform_frames_def list_all_iff)
  have len: "length ?names = ?n" by simp
  have g': "calc_grid_size (length ?names) = (rows', cols')" unfolding len by (rule grid)
  have sp_ne: "py_join out (output_filename rows' cols') \<noteq> out"
    using output_filename_chars[of rows' cols'] by (intro py_join_neq_dir) simp_all
  have free1: "\<not> is_dir w1 (py_join out (output_filename rows' cols'))"
    using sheet_free sp_ne w1(3) by (simp add: is_dir_def)
  note pk = pack_run[OF L fl ne ld uni fw fh g' free1]
  have main2: "flipbook_main [prog, out] w1 = (Exit 0, snd (pack_spritesheet out w1))"
    using main_pack[OF isd1, of prog "[]"] pk by simp
  have "files (snd (pack_spritesheet out w1)) (py_join out (output_filename rows' cols'))
      = Some (ImageFile (grid_image rows' cols' fw fh ?cells))"
    using pk by simp
  then show ?thesis using main1 main2 by blast
qed

section \<open>Round trips between the components\<close>

text \<open>
  C1.  Pack then unpack is the identity on the frames (the round trip of the
  documentation).  Packing a folder whose ordered image files are well-formed frames of
  one size, then running the tool on the sheet it wrote with the grid it chose,
  \<open>rows:cols\<close>, exits normally both times, and \<open>frame_{k:04d}.png\<close> in the folder
  \<open>flipbook_{rows}x{cols}\<close> is the \<open>k\<close>-th frame, pixel for pixel, for every \<open>k\<close>.
\<close>

theorem pack_unpack_roundtrip:
  assumes listing: "dirs w folder = Some listing"
    and fs: "fs = sort_image_files (list_image_files listing)" and ne: "fs \<noteq> []"
    and load: "load_images w folder fs = Inr ims"
    and uni: "uniform_frames fw fh ims" and fw: "0 < fw" and fh: "0 < fh"
    and grid: "calc_grid_size (length fs) = (rows, cols)"
    and sheet_free: "\<not> is_dir w (py_join folder (output_filename rows cols))"
    and out_free: "\<not> is_file w (sheet_stem rows cols)"
    and nodir: "\<forall>k. \<not> is_dir w (py_join (sheet_stem rows cols) (frame_name k))"
  shows "\<exists>w1 w2. flipbook_main [prog, folder] w = (Exit 0, w1)
     \<and> flipbook_main [prog, py_join folder (output_filename rows cols), str_of_nat rows @ CHR '':'' # str_of_nat cols] w1
         = (Exit 0, w2)
     \<and> map (\<lambda>k. files w2 (py_join (sheet_stem rows cols) (frame_name (int k)))) [0..<length ims]
         = map (\<lambda>im. Some (ImageFile im)) ims"
proof -
  let ?sp = "py_join folder (output_filename rows cols)" and ?out = "sheet_stem rows cols"
  let ?G = "grid_image rows cols fw fh ims"
  let ?dims = "str_of_nat rows @ CHR '':'' # str_of_nat cols"
  define w1 where "w1 = w\<lparr>files := (files w)(?sp \<mapsto> ImageFile ?G),
      dirs := (dirs w)(folder \<mapsto> (if output_filename rows cols \<in> set listing then listing
                                  else listing @ [output_filename rows cols])),
      stdout := stdout w @ [''Spritesheet created at: '' @ ?sp]\<rparr>"
  have pack: "pack_spritesheet folder w = (Inr (), w1)"
    unfolding w1_def by (rule pack_run[OF listing fs ne load uni fw fh grid sheet_free])
  have isdir: "is_dir w folder" using listing by (simp add: is_dir_def)
  have main1: "flipbook_main [prog, folder] w = (Exit 0, w1)"
    using main_pack[OF isdir] pack by simp
  have sp_ne: "?sp \<noteq> folder" using output_filename_chars[of rows cols] by (intro py_join_neq_dir) simp_all
  have f1: "files w1 ?sp = Some (ImageFile ?G)" by (simp add: w1_def)
  have nd1: "\<not> is_dir w1 ?sp" using sheet_free sp_ne by (simp add: w1_def is_dir_def)
  have if1: "is_file w1 ?sp" using f1 by (simp add: is_file_def)
  have dot: "CHR ''.'' \<in> set ?sp" using output_filename_chars[of rows cols] by (intro py_join_mem) simp
  have nodot: "CHR ''.'' \<notin> set ?out" using str_of_nat_no_sep[of rows] str_of_nat_no_sep[of cols]
    by (simp add: sheet_stem_def)
  have out_ne: "?out \<noteq> []" by (simp add: sheet_stem_def)
  have nf1: "\<not> is_file w1 ?out" using out_free dot nodot by (auto simp: w1_def is_file_def)
  have nodir1: "\<forall>k. \<not> is_dir w1 (py_join ?out (frame_name k))"
  proof
    fix k
    have "py_join ?out (frame_name k) \<noteq> folder" using nodir isdir by metis
    then show "\<not> is_dir w1 (py_join ?out (frame_name k))" using nodir by (simp add: w1_def is_dir_def)
  qed
  have n: "length ims = length fs" by (rule load_images_length[OF load])
  have npos: "0 < length fs" using ne by simp
  from calc_grid_size_rows[OF npos] grid
  have r0: "0 < rows" and rdvd: "rows dvd length fs" and cdef: "cols = length fs div rows" by simp_all
  have rc: "rows * cols = length ims" using rdvd cdef n by simp
  then have c0: "0 < cols" using npos n by (cases cols) simp_all
  have pos: "0 < int rows" "0 < int cols" using r0 c0 by simp_all
  have fwG: "int (width ?G) div int cols = int fw" and fhG: "int (height ?G) div int rows = int fh"
    using r0 c0 by simp_all
  obtain w2 where w2: "unpack_spritesheet ?sp ?dims w1 = (Inr (), w2)"
      "files w2 = foldl (store_cell ?out (int cols) ?G (int fw) (int fh)) (files w1) (grid_cells (int rows) (int cols))"
    using unpack_run[OF f1 output_folder_of_sheet nf1 out_ne nodir1 parse_dims_nat pos] fwG fhG by auto
  have main2: "flipbook_main [prog, ?sp, ?dims] w1 = (Exit 0, w2)"
    using main_unpack[OF nd1 if1] w2(1) by simp
  have frames: "files w2 (py_join ?out (frame_name (int k))) = Some (ImageFile (ims ! k))"
    if k: "k < length ims" for k
  proof -
    have "files w2 (py_join ?out (frame_name (int k)))
        = Some (ImageFile (sheet_cell ?G (int fw) (int fh) (int (k div cols)) (int (k mod cols))))"
      unfolding w2(2) using k rc by (intro store_grid_lookup_nat[OF c0]) simp
    also have "sheet_cell ?G (int fw) (int fh) (int (k div cols)) (int (k mod cols)) = ims ! k"
      using k rc by (intro sheet_cell_grid_image[OF fw fh uni]) simp_all
    finally show ?thesis .
  qed
  have "map (\<lambda>k. files w2 (py_join ?out (frame_name (int k)))) [0..<length ims]
        = map (\<lambda>im. Some (ImageFile im)) ims"
    by (rule nth_equalityI) (simp_all add: frames)
  then show ?thesis using main1 main2 by blast
qed

theorem pack_unpack_roundtrip_witness:
  "dirs pack_example_world ''f'' = Some [''b2.png'', ''a1.png'']
   \<and> [''a1.png'', ''b2.png''] = sort_image_files (list_image_files [''b2.png'', ''a1.png''])
   \<and> load_images pack_example_world ''f'' [''a1.png'', ''b2.png''] = Inr [solid 1 1 red, solid 1 1 blue]
   \<and> uniform_frames 1 1 [solid 1 1 red, solid 1 1 blue]
   \<and> calc_grid_size 2 = (1, 2)
   \<and> \<not> is_dir pack_example_world (py_join ''f'' (output_filename 1 2))
   \<and> \<not> is_file pack_example_world (sheet_stem 1 2)
   \<and> (\<forall>k. \<not> is_dir pack_example_world (py_join (sheet_stem 1 2) (frame_name k)))
   \<and> (\<exists>w1 w2. flipbook_main [''flipbook_tool.py'', ''f''] pack_example_world = (Exit 0, w1)
     \<and> flipbook_main [''flipbook_tool.py'', py_join ''f'' (output_filename 1 2), ''1:2''] w1 = (Exit 0, w2)
     \<and> map (\<lambda>k. files w2 (py_join (sheet_stem 1 2) (frame_name (int k))))
           [0..<length [solid 1 1 red, solid 1 1 blue]]
         = map (\<lambda>im. Some (ImageFile im)) [solid 1 1 red, solid 1 1 blue])"
proof -
  have d: "dirs pack_example_world ''f'' = Some [''b2.png'', ''a1.png'']"
    and s: "[''a1.png'', ''b2.png''] = sort_image_files (list_image_files [''b2.png'', ''a1.png''])"
    and l: "load_images pack_example_world ''f'' [''a1.png'', ''b2.png''] = Inr [solid 1 1 red, solid 1 1 blue]"
    and u: "uniform_frames 1 1 [solid 1 1 red, solid 1 1 blue]"
    and g: "calc_grid_size 2 = (1, 2)"
    and o: "\<not> is_dir pack_example_world (py_join ''f'' (output_filename 1 2))"
    using pack_example_facts by blast+
  have nf: "\<not> is_file pack_example_world (sheet_stem 1 2)"
    by (simp add: pack_example_world_def is_file_def sheet_stem_def str_of_nat.simps digit_char_def)
  have nd: "\<forall>k. \<not> is_dir pack_example_world (py_join (sheet_stem 1 2) (frame_name k))"
    by (simp add: pack_example_world_def is_dir_def sheet_stem_def py_join_def frame_name_def)
  have len: "length [''a1.png'', ''b2.png''] = (2::nat)" by simp
  have g': "calc_grid_size (length [''a1.png'', ''b2.png'']) = (1, 2)" unfolding len by (rule g)
  have ne: "[''a1.png'', ''b2.png''] \<noteq> []" by simp
  have one: "0 < (1::nat)" by simp
  have dims: "str_of_nat 1 @ CHR '':'' # str_of_nat 2 = ''1:2''"
    by code_simp
  note main = pack_unpack_roundtrip[OF d s ne l u one one g' o nf nd, of "''flipbook_tool.py''"]
  show ?thesis by (intro conjI d s l u g o nf nd main[unfolded dims])
qed


text \<open>
  C10.  The frames the unpacker writes are picked up again by the packer in their
  order: every name \<open>frame_{k:04d}.png\<close> passes the extension filter, and
  \<open>sort_image_files\<close> puts any arrangement of \<open>frame_0000.png\<close>, ...,
  \<open>frame_{n-1}.png\<close> (the order \<open>os.listdir\<close> returns is arbitrary) back into
  index order, so re-packing an unpacked folder lays the frames out as they were.
\<close>

theorem frame_names_repack_order:
  assumes "mset ns = mset (map (\<lambda>k. frame_name (int k)) [0..<n])"
  shows "list_image_files ns = ns \<and> sort_image_files ns = map (\<lambda>k. frame_name (int k)) [0..<n]"
proof
  let ?fs = "map (\<lambda>k. frame_name (int k)) [0..<n]"
  have set_eq: "set ns = set ?fs" using assms by (rule mset_eq_setD)
  then show "list_image_files ns = ns"
    by (simp add: list_image_files_def is_image_file_frame_name)
  have keys: "map extract_number ?fs = map Num [0..<n]"
    by (simp add: extract_number_frame_name)
  have "inj_on extract_number (set ?fs)"
    by (rule inj_onI) (auto simp: extract_number_frame_name)
  moreover have "sorted (map extract_number ?fs)"
    unfolding keys by (simp add: sorted_map)
  ultimately have "sort_key extract_number ns = ?fs"
    using assms set_eq by (intro sort_key_inj_key_eq) simp_all
  then show "sort_image_files ns = ?fs" by (simp add: sort_image_files_def)
qed

theorem frame_names_repack_order_witness:
  "mset [frame_name 1, frame_name 0] = mset (map (\<lambda>k. frame_name (int k)) [0..<2])
   \<and> list_image_files [frame_name 1, frame_name 0] = [frame_name 1, frame_name 0]
   \<and> sort_image_files [frame_name 1, frame_name 0] = map (\<lambda>k. frame_name (int k)) [0..<2]"
proof -
  have h: "mset [frame_name 1, frame_name 0] = mset (map (\<lambda>k. frame_name (int k)) [0..<2])"
    by (simp add: upt_rec add_mset_commute)
  show ?thesis using frame_names_repack_order[OF h] h by blast
qed


section \<open>Sessions of the tool\<close>

text \<open>
  C24.  Unpack then pack rebuilds the sheet.  Unpacking a well-formed sheet of exactly
  \<open>cols \<times> rows\<close> cells of \<open>fw \<times> fh\<close> pixels into a new folder, with \<open>rows:cols\<close>
  the grid the packer itself would choose for \<open>rows \<cdot> cols\<close> frames, and then running
  the tool on that folder, exits normally both times and writes a sheet equal to the
  original, pixel for pixel: the folder's listing holds the frames in index order, the
  orderer keeps that order and the packer pastes each frame back into its cell.
\<close>

theorem unpack_pack_roundtrip:
  assumes img: "files w p = Some (ImageFile sheet)" and pdir: "\<not> is_dir w p" and wf: "wf_image sheet"
    and wd: "width sheet = cols * fw" and ht: "height sheet = rows * fh" and fw: "0 < fw" and fh: "0 < fh"
    and c0: "0 < cols" and grid: "calc_grid_size (rows * cols) = (rows, cols)"
    and out: "output_folder_of p = out" "out \<noteq> []" "\<not> is_file w out" "\<not> is_dir w out"
    and nodir: "\<forall>k. \<not> is_dir w (py_join out (frame_name k))"
    and sheet_free: "\<not> is_dir w (py_join out (output_filename rows cols))"
  shows "\<exists>w1 w2. flipbook_main [prog, p, str_of_nat rows @ CHR '':'' # str_of_nat cols] w = (Exit 0, w1)
     \<and> flipbook_main [prog, out] w1 = (Exit 0, w2)
     \<and> files w2 (py_join out (output_filename rows cols)) = Some (ImageFile sheet)"
proof -
  have r0: "0 < rows"
  proof (rule ccontr)
    assume "\<not> 0 < rows"
    then have "calc_grid_size (rows * cols) = (1, 0)" by (simp add: calc_grid_size_def isqrt_0)
    with grid \<open>\<not> 0 < rows\<close> show False by simp
  qed
  show ?thesis
    using unpack_pack_run[OF img pdir wd ht fw fh c0 r0 grid out nodir sheet_free, of prog]
      grid_image_sheet_cells[OF wf wd ht fw fh] by simp
qed

theorem unpack_pack_roundtrip_witness:
  "files small_sheet_world ''sheet.png'' = Some (ImageFile (solid 2 1 red))
   \<and> \<not> is_dir small_sheet_world ''sheet.png'' \<and> wf_image (solid 2 1 red)
   \<and> width (solid 2 1 red) = 2 * 1 \<and> height (solid 2 1 red) = 1 * 1
   \<and> calc_grid_size (1 * 2) = (1, 2)
   \<and> output_folder_of ''sheet.png'' = ''sheet'' \<and> \<not> is_file small_sheet_world ''sheet''
   \<and> \<not> is_dir small_sheet_world ''sheet''
   \<and> (\<forall>k. \<not> is_dir small_sheet_world (py_join ''sheet'' (frame_name k)))
   \<and> \<not> is_dir small_sheet_world (py_join ''sheet'' (output_filename 1 2))
   \<and> (\<exists>w1 w2. flipbook_main [''flipbook_tool.py'', ''sheet.png'', ''1:2''] small_sheet_world = (Exit 0, w1)
        \<and> flipbook_main [''flipbook_tool.py'', ''sheet''] w1 = (Exit 0, w2)
        \<and> files w2 (py_join ''sheet'' (output_filename 1 2)) = Some (ImageFile (solid 2 1 red)))"
proof -
  have img: "files small_sheet_world ''sheet.png'' = Some (ImageFile (solid 2 1 red))"
    and pd: "\<not> is_dir small_sheet_world ''sheet.png''"
    and nf: "\<not> is_file small_sheet_world ''sheet''" and nd: "\<not> is_dir small_sheet_world ''sheet''"
    and fd: "\<forall>k. \<not> is_dir small_sheet_world (py_join ''sheet'' (frame_name k))"
    and sf: "\<not> is_dir small_sheet_world (py_join ''sheet'' (output_filename 1 2))"
    by (simp_all add: small_sheet_world_def is_dir_def is_file_def)
  have wf: "wf_image (solid 2 1 red)" by simp
  have wd: "width (solid 2 1 red) = 2 * 1" and ht: "height (solid 2 1 red) = 1 * 1" by simp_all
  have g: "calc_grid_size (1 * 2) = (1, 2)" by code_simp
  have o: "output_folder_of ''sheet.png'' = ''sheet''"
    by (simp add: output_folder_of_def py_basename_def splitext_root_def)
  have ne: "''sheet'' \<noteq> []" by simp
  have one: "0 < (1::nat)" and two: "0 < (2::nat)" by simp_all
  have dims: "str_of_nat 1 @ CHR '':'' # str_of_nat 2 = ''1:2''" by code_simp
  note main = unpack_pack_roundtrip[OF img pd wf wd ht one one two g o ne nf nd fd sf, of "''flipbook_tool.py''"]
  show ?thesis by (intro conjI img pd wf wd ht g o nf nd fd sf main[unfolded dims])
qed


text \<open>
  C25.  Unpack then pack does not rebuild the sheet when \<open>rows:cols\<close> is not the packer's
  own layout for \<open>rows \<cdot> cols\<close> frames: a \<open>2 \<times> 3\<close> sheet unpacked with \<open>3:2\<close>
  (three rows of two frames) is repacked as \<open>flipbook_2x3.tga\<close>, a \<open>3 \<times> 2\<close> sheet,
  because \<open>calc_grid_size 6 = (2, 3)\<close>; both runs exit normally.
\<close>

theorem unpack_pack_relayout:
  "\<exists>w1 w2 G. flipbook_main [''flipbook_tool.py'', ''sheet.png'', ''3:2''] tall_sheet_world = (Exit 0, w1)
     \<and> flipbook_main [''flipbook_tool.py'', ''sheet''] w1 = (Exit 0, w2)
     \<and> files w2 ''sheet/flipbook_2x3.tga'' = Some (ImageFile G)
     \<and> (width G, height G) = (3, 2) \<and> (width (solid 2 3 red), height (solid 2 3 red)) = (2, 3)"
proof -
  have img: "files tall_sheet_world ''sheet.png'' = Some (ImageFile (solid 2 3 red))"
    and pd: "\<not> is_dir tall_sheet_world ''sheet.png''"
    and nf: "\<not> is_file tall_sheet_world ''sheet''" and nd: "\<not> is_dir tall_sheet_world ''sheet''"
    and fd: "\<forall>k. \<not> is_dir tall_sheet_world (py_join ''sheet'' (frame_name k))"
    and sf: "\<not> is_dir tall_sheet_world (py_join ''sheet'' (output_filename 2 3))"
    by (simp_all add: tall_sheet_world_def is_dir_def is_file_def)
  have wd: "width (solid 2 3 red) = 2 * 1" and ht: "height (solid 2 3 red) = 3 * 1" by simp_all
  have g: "calc_grid_size (3 * 2) = (2, 3)" by code_simp
  have o: "output_folder_of ''sheet.png'' = ''sheet''"
    by (simp add: output_folder_of_def py_basename_def splitext_root_def)
  have ne: "''sheet'' \<noteq> []" by simp
  have pos: "0 < (1::nat)" "0 < (2::nat)" "0 < (3::nat)" by simp_all
  have dims: "str_of_nat 3 @ CHR '':'' # str_of_nat 2 = ''3:2''" by code_simp
  have path: "py_join ''sheet'' (output_filename 2 3) = ''sheet/flipbook_2x3.tga''" by code_simp
  show ?thesis
    using unpack_pack_run[OF img pd wd ht pos(1) pos(1) pos(2) pos(3) g o ne nf nd fd sf, of "''flipbook_tool.py''"]
    unfolding dims path by fastforce
qed

end
